theory Spec2Isabelle
  imports Main "HOL-Library.Word"
begin

unbundle bit_operations_syntax

section \<open>Python values shared by all components\<close>

text \<open>
  A Python \<open>bytes\<close> object is a list of 8-bit words, a Python \<open>int\<close> is an
  \<open>int\<close>, and a Python \<open>str\<close> is the list of its Unicode code points (so that
  \<open>len\<close> counts what Python counts).  Every \<open>raise\<close> of the source is a value of
  \<open>py_error\<close> on the left of a sum.
\<close>

type_synonym byte = "8 word"
type_synonym pybytes = "byte list"
type_synonym pystr = "nat list"

datatype py_error = IndexError | KeyError | TypeError | TransportError

definition ascii :: "string \<Rightarrow> pystr" where
  "ascii s = map of_char s"

definition ebind :: "py_error + 'a \<Rightarrow> ('a \<Rightarrow> py_error + 'b) \<Rightarrow> py_error + 'b" where
  "ebind m f = (case m of Inl e \<Rightarrow> Inl e | Inr v \<Rightarrow> f v)"

text \<open>\<open>raw[i]\<close> on a bytes object: a negative index counts from the end, an index out of
  range raises \<open>IndexError\<close>.\<close>

definition bytes_get :: "pybytes \<Rightarrow> int \<Rightarrow> py_error + int" where
  "bytes_get raw i =
     (if 0 \<le> i \<and> i < int (length raw) then Inr (uint (raw ! nat i))
      else if i < 0 \<and> - int (length raw) \<le> i then Inr (uint (raw ! nat (int (length raw) + i)))
      else Inl IndexError)"

section \<open>Byte-field readers (util/bytes.py)\<close>

definition u8_from :: "pybytes \<Rightarrow> int \<Rightarrow> py_error + int" where
  "u8_from raw offset =
     (if offset < 0 \<or> offset \<ge> int (length raw) then Inr 0
      else bytes_get raw offset)"

definition u16le_from :: "pybytes \<Rightarrow> int \<Rightarrow> py_error + int" where
  "u16le_from raw offset =
     (if offset < 0 \<or> (offset + 1) \<ge> int (length raw) then Inr 0
      else ebind (bytes_get raw offset) (\<lambda>b0.
           ebind (bytes_get raw (offset + 1)) (\<lambda>b1.
           Inr (b0 OR push_bit 8 b1))))"

definition u32le_from :: "pybytes \<Rightarrow> int \<Rightarrow> py_error + int" where
  "u32le_from raw offset =
     (if offset < 0 \<or> (offset + 3) \<ge> int (length raw) then Inr 0
      else ebind (bytes_get raw offset) (\<lambda>b0.
           ebind (bytes_get raw (offset + 1)) (\<lambda>b1.
           ebind (bytes_get raw (offset + 2)) (\<lambda>b2.
           ebind (bytes_get raw (offset + 3)) (\<lambda>b3.
           Inr (b0 OR push_bit 8 b1 OR push_bit 16 b2 OR push_bit 24 b3))))))"

definition s8_from_u8 :: "int \<Rightarrow> int" where
  "s8_from_u8 val = (if val > 127 then val - 256 else val)"

definition s16_from_u16 :: "int \<Rightarrow> int" where
  "s16_from_u16 val = (if val > 32767 then val - 65536 else val)"

section \<open>Text codec (text/encoding.py)\<close>

definition TEXT_TERMINATOR :: byte where
  "TEXT_TERMINATOR = 0xFF"

definition GBA_CHARMAP :: "(byte \<times> nat) list" where
  "GBA_CHARMAP =
    [(0x00, 32), (0xAB, 33), (0xAC, 63), (0xAD, 46), (0xAE, 45), (0xAF, 183), (0xB0, 8230),
     (0xB1, 34), (0xB2, 34), (0xB3, 39), (0xB4, 39), (0xB5, 9794), (0xB6, 9792), (0xB8, 44),
     (0xB9, 215), (0xBA, 47),
     (0xA1, 48), (0xA2, 49), (0xA3, 50), (0xA4, 51), (0xA5, 52), (0xA6, 53), (0xA7, 54),
     (0xA8, 55), (0xA9, 56), (0xAA, 57),
     (0xBB, 65), (0xBC, 66), (0xBD, 67), (0xBE, 68), (0xBF, 69), (0xC0, 70), (0xC1, 71),
     (0xC2, 72), (0xC3, 73), (0xC4, 74), (0xC5, 75), (0xC6, 76), (0xC7, 77), (0xC8, 78),
     (0xC9, 79), (0xCA, 80), (0xCB, 81), (0xCC, 82), (0xCD, 83), (0xCE, 84), (0xCF, 85),
     (0xD0, 86), (0xD1, 87), (0xD2, 88), (0xD3, 89), (0xD4, 90),
     (0xD5, 97), (0xD6, 98), (0xD7, 99), (0xD8, 100), (0xD9, 101), (0xDA, 102), (0xDB, 103),
     (0xDC, 104), (0xDD, 105), (0xDE, 106), (0xDF, 107), (0xE0, 108), (0xE1, 109), (0xE2, 110),
     (0xE3, 111), (0xE4, 112), (0xE5, 113), (0xE6, 114), (0xE7, 115), (0xE8, 116), (0xE9, 117),
     (0xEA, 118), (0xEB, 119), (0xEC, 120), (0xED, 121), (0xEE, 122), (0xEF, 9658), (0xF0, 58),
     (0x1B, 233),
     (0xFE, 10)]"

definition PROMPT_CHARS :: "byte list" where
  "PROMPT_CHARS = [0xFA, 0xFB]"

text \<open>\<open>str.isspace\<close> on one code point, and \<open>str.strip()\<close> with no argument.\<close>

definition py_isspace :: "nat \<Rightarrow> bool" where
  "py_isspace c \<longleftrightarrow>
     (9 \<le> c \<and> c \<le> 13) \<or> (28 \<le> c \<and> c \<le> 32) \<or> c = 133 \<or> c = 160 \<or> c = 5760 \<or>
     (8192 \<le> c \<and> c \<le> 8202) \<or> c = 8232 \<or> c = 8233 \<or> c = 8239 \<or> c = 8287 \<or> c = 12288"

definition py_strip :: "pystr \<Rightarrow> pystr" where
  "py_strip s = rev (dropWhile py_isspace (rev (dropWhile py_isspace s)))"

text \<open>The \<open>while\<close> loop of \<open>decode_gba_string\<close>: \<open>i\<close> is the index, \<open>result\<close> the list
  of characters appended so far.\<close>

function decode_loop :: "pybytes \<Rightarrow> int \<Rightarrow> bool \<Rightarrow> nat \<Rightarrow> pystr \<Rightarrow> pystr" where
  "decode_loop raw_bytes max_len stop_at_prompt i result =
     (if i < length raw_bytes \<and> int i < max_len then
        (let byte = raw_bytes ! i in
         if byte = TEXT_TERMINATOR then result
         else if stop_at_prompt \<and> byte \<in> set PROMPT_CHARS then result
         else if byte = 0xFC \<or> byte = 0xFD then
           decode_loop raw_bytes max_len stop_at_prompt (i + 2) result
         else (case map_of GBA_CHARMAP byte of
                 Some char \<Rightarrow> decode_loop raw_bytes max_len stop_at_prompt (i + 1) (result @ [char])
               | None \<Rightarrow> decode_loop raw_bytes max_len stop_at_prompt (i + 1) result))
      else result)"
  by pat_completeness auto
termination
  by (relation "measure (\<lambda>(raw_bytes, max_len, stop_at_prompt, i, result). length raw_bytes - i)")
     auto

definition decode_chars :: "pybytes \<Rightarrow> int \<Rightarrow> bool \<Rightarrow> pystr" where
  "decode_chars raw_bytes max_len stop_at_prompt = decode_loop raw_bytes max_len stop_at_prompt 0 []"

definition decode_gba_string :: "pybytes \<Rightarrow> int \<Rightarrow> bool \<Rightarrow> pystr" where
  "decode_gba_string raw_bytes max_len stop_at_prompt =
     py_strip (decode_chars raw_bytes max_len stop_at_prompt)"

declare decode_loop.simps [simp del]

text \<open>A byte is \<open>ordinary\<close> when the loop neither stops at it nor treats it as a control
  opcode: it is looked up in the table and the index advances by one.\<close>

definition ordinary :: "bool \<Rightarrow> byte \<Rightarrow> bool" where
  "ordinary stop_at_prompt b \<longleftrightarrow>
     b \<noteq> TEXT_TERMINATOR \<and> b \<noteq> 0xFC \<and> b \<noteq> 0xFD \<and>
     \<not> (stop_at_prompt \<and> b \<in> set PROMPT_CHARS)"

text \<open>A byte sequence consists of whole tokens when the loop, started at its first byte,
  walks to its end without stopping: every byte it visits is ordinary or is a control byte
  followed by its operand.\<close>

fun whole_tokens :: "bool \<Rightarrow> pybytes \<Rightarrow> bool" where
  "whole_tokens stop_at_prompt [] = True"
| "whole_tokens stop_at_prompt [b] = ordinary stop_at_prompt b"
| "whole_tokens stop_at_prompt (b # operand # rest) =
     (if b = 0xFC \<or> b = 0xFD then whole_tokens stop_at_prompt rest
      else ordinary stop_at_prompt b \<and> whole_tokens stop_at_prompt (operand # rest))"

section \<open>Selection index of the list menus (ui/menus.py)\<close>

text \<open>
  The cursor arithmetic of \<open>get_bag_menu_state\<close>.  \<open>scroll_pos\<close> and
  \<open>selected_row\<close> are the two 16-bit fields of the list-menu task (or of the bag position
  block), \<open>num_item_stacks\<close> is the item count of the pocket after its range check and
  \<open>hide_close_bag\<close> says whether the extra CANCEL row is absent.
\<close>

definition bag_total_entries :: "int \<Rightarrow> bool \<Rightarrow> int" where
  "bag_total_entries num_item_stacks hide_close_bag =
     (let total_entries = num_item_stacks + (if hide_close_bag then 0 else 1)
      in if total_entries < 0 then 0 else total_entries)"

definition bag_selected_index :: "int \<Rightarrow> int \<Rightarrow> int \<Rightarrow> int" where
  "bag_selected_index scroll_pos0 selected_row0 total_entries =
     (let scroll_pos = (if scroll_pos0 < 0 then 0 else scroll_pos0);
          selected_row = (if selected_row0 < 0 then 0 else selected_row0);
          selected_index = scroll_pos + selected_row;
          selected_index = (if total_entries \<le> 0 then 0 else selected_index)
      in if total_entries > 0 \<and> selected_index \<ge> total_entries then total_entries - 1
         else selected_index)"

text \<open>The same arithmetic in \<open>get_tm_case_state\<close>; the list always has the CLOSE row.\<close>

definition tm_case_total_entries :: "int \<Rightarrow> int" where
  "tm_case_total_entries num_tms =
     (let total_entries = num_tms + 1 in if total_entries \<le> 0 then 1 else total_entries)"

definition tm_case_selected_index :: "int \<Rightarrow> int \<Rightarrow> int \<Rightarrow> int" where
  "tm_case_selected_index scroll_pos0 selected_row0 total_entries =
     (let scroll_pos = (if scroll_pos0 < 0 then 0 else scroll_pos0);
          selected_row = (if selected_row0 < 0 then 0 else selected_row0);
          selected_index = scroll_pos + selected_row
      in if selected_index \<ge> total_entries then total_entries - 1 else selected_index)"

text \<open>\<open>clamp(x, lo, hi)\<close> as the specification writes it.\<close>

definition clamp :: "int \<Rightarrow> int \<Rightarrow> int \<Rightarrow> int" where
  "clamp x lo hi = max lo (min hi x)"

section \<open>Memory access abstraction (memory/reader.py)\<close>

subsection \<open>Live reader\<close>

text \<open>The four callables of \<open>LiveMemoryReader\<close>; each may raise.\<close>

record live_reader =
  read8 :: "int \<Rightarrow> py_error + int"
  read16 :: "int \<Rightarrow> py_error + int"
  read32 :: "int \<Rightarrow> py_error + int"
  read_range_bytes :: "int \<Rightarrow> int \<Rightarrow> py_error + pybytes"

definition live_u8 :: "live_reader \<Rightarrow> int \<Rightarrow> py_error + int" where
  "live_u8 r addr = ebind (read8 r addr) (\<lambda>v. Inr (v AND 0xFF))"

definition live_u16 :: "live_reader \<Rightarrow> int \<Rightarrow> py_error + int" where
  "live_u16 r addr = ebind (read16 r addr) (\<lambda>v. Inr (v AND 0xFFFF))"

definition live_u32 :: "live_reader \<Rightarrow> int \<Rightarrow> py_error + int" where
  "live_u32 r addr = ebind (read32 r addr) (\<lambda>v. Inr (v AND 0xFFFFFFFF))"

text \<open>\<open>bytes([self.u8(addr_i + i) for i in range(size_i)])\<close>, the fallback of
  \<open>read_bytes\<close>; \<open>is\<close> is the list of the remaining indices.\<close>

fun live_u8_list :: "live_reader \<Rightarrow> int \<Rightarrow> nat list \<Rightarrow> py_error + pybytes" where
  "live_u8_list r addr [] = Inr []"
| "live_u8_list r addr (i # is) =
     ebind (live_u8 r (addr + int i)) (\<lambda>v.
     ebind (live_u8_list r addr is) (\<lambda>vs. Inr (word_of_int v # vs)))"

definition live_read_bytes :: "live_reader \<Rightarrow> int \<Rightarrow> int \<Rightarrow> py_error + pybytes" where
  "live_read_bytes r addr sz =
     (if sz \<le> 0 then Inr []
      else (case read_range_bytes r addr sz of
              Inr bs \<Rightarrow> Inr bs
            | Inl e \<Rightarrow> live_u8_list r addr [0..<nat sz]))"

subsection \<open>Snapshot reader\<close>

record snapshot_segment =
  seg_start :: int
  seg_data :: pybytes

definition seg_end :: "snapshot_segment \<Rightarrow> int" where
  "seg_end s = seg_start s + int (length (seg_data s))"

record snapshot_reader =
  segments :: "snapshot_segment list"
  starts :: "int list"

text \<open>\<open>from_ranges\<close>: a chunk that is not a bytes object is \<open>None\<close>; \<open>zip\<close> stops at the
  shorter list; \<open>list.sort\<close> is stable, as \<open>sort_key\<close> is.\<close>

definition from_ranges :: "(int \<times> int) list \<Rightarrow> pybytes option list \<Rightarrow> snapshot_reader" where
  "from_ranges ranges chunks =
     (let segs = List.map_filter
                   (\<lambda>((addr, len), chunk).
                      case chunk of
                        Some c \<Rightarrow> if addr \<noteq> 0 then Some \<lparr>seg_start = addr, seg_data = c\<rparr> else None
                      | None \<Rightarrow> None)
                   (zip ranges chunks);
          segs = sort_key seg_start segs
      in \<lparr>segments = segs, starts = map seg_start segs\<rparr>)"

text \<open>\<open>bisect.bisect_right\<close> of the standard library: a binary search.\<close>

function bisect_right_loop :: "int list \<Rightarrow> int \<Rightarrow> nat \<Rightarrow> nat \<Rightarrow> nat" where
  "bisect_right_loop a x lo hi =
     (if lo < hi then
        (let mid = (lo + hi) div 2
         in if x < a ! mid then bisect_right_loop a x lo mid
            else bisect_right_loop a x (mid + 1) hi)
      else lo)"
  by pat_completeness auto
termination
  by (relation "measure (\<lambda>(a, x, lo, hi). hi - lo)") auto

declare bisect_right_loop.simps [simp del]

definition bisect_right :: "int list \<Rightarrow> int \<Rightarrow> nat" where
  "bisect_right a x = bisect_right_loop a x 0 (length a)"

definition segment_for ::
  "snapshot_reader \<Rightarrow> int \<Rightarrow> int \<Rightarrow> py_error + (snapshot_segment \<times> int)" where
  "segment_for R addr sz =
     (if sz \<le> 0 then Inl KeyError
      else
        (let i = int (bisect_right (starts R) addr) - 1
         in if i < 0 \<or> i \<ge> int (length (segments R)) then Inl KeyError
            else
              (let seg = segments R ! nat i;
                   off = addr - seg_start seg;
                   end_addr = addr + sz
               in if off < 0 \<or> end_addr > seg_end seg then Inl KeyError
                  else Inr (seg, off))))"

text \<open>\<open>d[lo:hi]\<close> on a bytes object: bounds are clamped, negative bounds count from the
  end, and the slice never raises.\<close>

definition py_slice :: "pybytes \<Rightarrow> int \<Rightarrow> int \<Rightarrow> pybytes" where
  "py_slice d lo hi =
     (let n = int (length d);
          norm = (\<lambda>i. if i < 0 then max 0 (n + i) else min i n)
      in drop (nat (norm lo)) (take (nat (norm hi)) d))"

definition snap_u8 :: "snapshot_reader \<Rightarrow> int \<Rightarrow> py_error + int" where
  "snap_u8 R addr =
     ebind (segment_for R addr 1) (\<lambda>(seg, off). bytes_get (seg_data seg) off)"

definition snap_u16 :: "snapshot_reader \<Rightarrow> int \<Rightarrow> py_error + int" where
  "snap_u16 R addr =
     ebind (segment_for R addr 2) (\<lambda>(seg, off).
       let d = seg_data seg in
       ebind (bytes_get d off) (\<lambda>b0.
       ebind (bytes_get d (off + 1)) (\<lambda>b1.
       Inr (b0 OR push_bit 8 b1))))"

definition snap_u32 :: "snapshot_reader \<Rightarrow> int \<Rightarrow> py_error + int" where
  "snap_u32 R addr =
     ebind (segment_for R addr 4) (\<lambda>(seg, off).
       let d = seg_data seg in
       ebind (bytes_get d off) (\<lambda>b0.
       ebind (bytes_get d (off + 1)) (\<lambda>b1.
       ebind (bytes_get d (off + 2)) (\<lambda>b2.
       ebind (bytes_get d (off + 3)) (\<lambda>b3.
       Inr (b0 OR push_bit 8 b1 OR push_bit 16 b2 OR push_bit 24 b3))))))"

definition snap_read_bytes :: "snapshot_reader \<Rightarrow> int \<Rightarrow> int \<Rightarrow> py_error + pybytes" where
  "snap_read_bytes R addr sz =
     ebind (segment_for R addr sz) (\<lambda>(seg, off). Inr (py_slice (seg_data seg) off (off + sz)))"

subsection \<open>The two readers over one memory\<close>

text \<open>
  The observed process's memory is a function from addresses to bytes.  A live reader is
  backed by it when its callables return the little-endian contents of the address; a
  snapshot is backed by it when every captured segment holds the bytes found at its start
  address.
\<close>

definition mem_bytes :: "(int \<Rightarrow> byte) \<Rightarrow> int \<Rightarrow> int \<Rightarrow> pybytes" where
  "mem_bytes mem addr sz = map (\<lambda>i. mem (addr + int i)) [0..<nat sz]"

definition live_backed_by :: "(int \<Rightarrow> byte) \<Rightarrow> live_reader" where
  "live_backed_by mem =
     \<lparr>read8 = (\<lambda>a. Inr (uint (mem a))),
      read16 = (\<lambda>a. Inr (uint (mem a) OR push_bit 8 (uint (mem (a + 1))))),
      read32 = (\<lambda>a. Inr (uint (mem a) OR push_bit 8 (uint (mem (a + 1)))
                         OR push_bit 16 (uint (mem (a + 2))) OR push_bit 24 (uint (mem (a + 3))))),
      read_range_bytes = (\<lambda>a n. Inr (mem_bytes mem a n))\<rparr>"

definition capture :: "(int \<Rightarrow> byte) \<Rightarrow> (int \<times> int) list \<Rightarrow> snapshot_reader" where
  "capture mem ranges = from_ranges ranges (map (\<lambda>(a, n). Some (mem_bytes mem a n)) ranges)"

definition snapshot_backed_by :: "(int \<Rightarrow> byte) \<Rightarrow> snapshot_reader \<Rightarrow> bool" where
  "snapshot_backed_by mem R \<longleftrightarrow>
     list_all (\<lambda>s. seg_data s = mem_bytes mem (seg_start s) (int (length (seg_data s))))
       (segments R)"

text \<open>A read range \<open>[addr, addr + size)\<close> is covered when one captured segment contains
  all of it.\<close>

definition covered :: "snapshot_reader \<Rightarrow> int \<Rightarrow> int \<Rightarrow> bool" where
  "covered R addr sz \<longleftrightarrow>
     list_ex (\<lambda>s. seg_start s \<le> addr \<and> addr + sz \<le> seg_end s) (segments R)"

text \<open>The data model of a snapshot: no captured segment starts inside another one.  A
  chunk may be shorter than the range asked for, or empty, as a failed range read leaves it.\<close>

fun segments_apart :: "snapshot_segment list \<Rightarrow> bool" where
  "segments_apart [] = True"
| "segments_apart (s # rest) =
     (list_all (\<lambda>t. \<not> (seg_start s \<le> seg_start t \<and> seg_start t < seg_end s) \<and>
                   \<not> (seg_start t \<le> seg_start s \<and> seg_start s < seg_end t)) rest \<and>
      segments_apart rest)"

text \<open>The search reaches every captured byte when, for each address that a captured segment
  holds, \<open>_segment_for\<close> resolves a one-byte read to a segment that ends no earlier than
  the holder.\<close>

definition search_reaches :: "snapshot_reader \<Rightarrow> bool" where
  "search_reaches R \<longleftrightarrow>
     list_all
       (\<lambda>s. list_all
              (\<lambda>a. case segment_for R a 1 of
                      Inl e \<Rightarrow> False
                    | Inr (t, off) \<Rightarrow> seg_end s \<le> seg_end t)
              [seg_start s..seg_end s - 1])
       (segments R)"

text \<open>A live reader whose bulk primitive is unavailable: every range read raises and
  \<open>read_bytes\<close> degrades to single-byte reads.\<close>

definition without_range_reads :: "live_reader \<Rightarrow> live_reader" where
  "without_range_reads r = r\<lparr>read_range_bytes := (\<lambda>a n. Inl TransportError)\<rparr>"

section \<open>Scheduler-task and pointer matching (ui/menus.py, ui/battle.py)\<close>

text \<open>
  The address and layout constants come from the module \<open>constants/addresses.py\<close>, which
  is not part of the sources at hand; every function takes them as a parameter.  The
  callables of the module \<open>memory/mgba.py\<close> (single reads against the running emulator)
  are the four fields of a \<open>live_reader\<close>.
\<close>

record task_layout =
  NUM_TASKS :: int
  TASK_SIZE :: int
  TASK_ISACTIVE_OFFSET :: int
  TASK_FUNC_OFFSET :: int
  TASK_DATA_OFFSET :: int
  GTASKS_ADDR :: int

text \<open>\<open>range(n)\<close> as a list of integers.\<close>

definition py_range :: "int \<Rightarrow> int list" where
  "py_range n = map int [0..<nat n]"

text \<open>The loop over the captured task table; \<open>matches\<close> is the test applied to the
  masked function pointer of an active task.  The loop stops (\<open>break\<close>) at the first
  task that the buffer does not hold completely.\<close>

fun scan_tasks_raw ::
  "task_layout \<Rightarrow> pybytes \<Rightarrow> (int \<Rightarrow> bool) \<Rightarrow> int list \<Rightarrow> py_error + int option" where
  "scan_tasks_raw L tasks_raw matches [] = Inr None"
| "scan_tasks_raw L tasks_raw matches (i # rest) =
     (let base = i * TASK_SIZE L in
      if (base + TASK_SIZE L) > int (length tasks_raw) then Inr None
      else ebind (u8_from tasks_raw (base + TASK_ISACTIVE_OFFSET L)) (\<lambda>active.
        if active = 0 then scan_tasks_raw L tasks_raw matches rest
        else ebind (u32le_from tasks_raw (base + TASK_FUNC_OFFSET L)) (\<lambda>f.
          let task_func = f AND 0xFFFFFFFE in
          if matches task_func then Inr (Some i)
          else scan_tasks_raw L tasks_raw matches rest)))"

text \<open>The same loop with one remote read per field.\<close>

fun scan_tasks_live ::
  "task_layout \<Rightarrow> live_reader \<Rightarrow> (int \<Rightarrow> bool) \<Rightarrow> int list \<Rightarrow> py_error + int option" where
  "scan_tasks_live L mgba matches [] = Inr None"
| "scan_tasks_live L mgba matches (i # rest) =
     (let task_addr = GTASKS_ADDR L + (i * TASK_SIZE L) in
      ebind (read8 mgba (task_addr + TASK_ISACTIVE_OFFSET L)) (\<lambda>active.
        if active = 0 then scan_tasks_live L mgba matches rest
        else ebind (read32 mgba (task_addr + TASK_FUNC_OFFSET L)) (\<lambda>f.
          let task_func = f AND 0xFFFFFFFE in
          if matches task_func then Inr (Some i)
          else scan_tasks_live L mgba matches rest)))"

definition find_active_task_by_func ::
  "task_layout \<Rightarrow> live_reader \<Rightarrow> int \<Rightarrow> pybytes option \<Rightarrow> py_error + int option" where
  "find_active_task_by_func L mgba func_addr tasks_raw =
     (if func_addr = 0 then Inr None
      else
        (let masked = func_addr AND 0xFFFFFFFE in
         case tasks_raw of
           Some raw \<Rightarrow> scan_tasks_raw L raw (\<lambda>task_func. task_func = masked) (py_range (NUM_TASKS L))
         | None \<Rightarrow> scan_tasks_live L mgba (\<lambda>task_func. task_func = masked) (py_range (NUM_TASKS L))))"

definition find_active_task_by_funcs ::
  "task_layout \<Rightarrow> live_reader \<Rightarrow> int list \<Rightarrow> pybytes option \<Rightarrow> py_error + int option" where
  "find_active_task_by_funcs L mgba func_addrs tasks_raw =
     (let masked_set = map (\<lambda>addr. addr AND 0xFFFFFFFE) (filter (\<lambda>addr. addr \<noteq> 0) func_addrs) in
      if masked_set = [] then Inr None
      else
        (case tasks_raw of
           Some raw \<Rightarrow> scan_tasks_raw L raw (\<lambda>task_func. task_func \<in> set masked_set) (py_range (NUM_TASKS L))
         | None \<Rightarrow> scan_tasks_live L mgba (\<lambda>task_func. task_func \<in> set masked_set) (py_range (NUM_TASKS L))))"

text \<open>\<open>_ptr_matches_any\<close> of the battle module.\<close>

fun ptr_matches_loop :: "int \<Rightarrow> int list \<Rightarrow> bool" where
  "ptr_matches_loop masked [] = False"
| "ptr_matches_loop masked (cand # rest) =
     (if masked = (cand AND 0xFFFFFFFE) then True else ptr_matches_loop masked rest)"

definition ptr_matches_any :: "int \<Rightarrow> int list \<Rightarrow> bool" where
  "ptr_matches_any ptr candidates =
     (if candidates = [] then False
      else ptr_matches_loop (ptr AND 0xFFFFFFFE) candidates)"

text \<open>Two function-pointer-like integers differ only in bit 0 when one is the other, or
  the other with that bit flipped.\<close>

definition differ_only_in_bit0 :: "int \<Rightarrow> int \<Rightarrow> bool" where
  "differ_only_in_bit0 x y \<longleftrightarrow> y = x \<or> y = x XOR 1"

text \<open>The null address is not a function pointer: it is the value of an unresolved symbol,
  and the helpers reject it as a candidate before they compare anything.  A null pair flips
  bit 0 of the null address.\<close>

definition null_pair :: "int \<Rightarrow> int \<Rightarrow> bool" where
  "null_pair x y \<longleftrightarrow> x \<noteq> y \<and> (x = 0 \<or> y = 0)"

definition flip_bit0 :: "bool \<Rightarrow> int \<Rightarrow> int" where
  "flip_bit0 b x = (if b then x XOR 1 else x)"

text \<open>Two captured task tables hold the same tasks up to bit 0 of the function pointers
  when they have the same length and, for every task index the scan visits, the same
  active flag and function pointers that differ only in bit 0.\<close>

definition same_tasks_up_to_bit0 :: "task_layout \<Rightarrow> pybytes \<Rightarrow> pybytes \<Rightarrow> bool" where
  "same_tasks_up_to_bit0 L raw raw' \<longleftrightarrow>
     length raw' = length raw \<and>
     list_all
       (\<lambda>i. u8_from raw' (i * TASK_SIZE L + TASK_ISACTIVE_OFFSET L)
              = u8_from raw (i * TASK_SIZE L + TASK_ISACTIVE_OFFSET L) \<and>
            (case (u32le_from raw (i * TASK_SIZE L + TASK_FUNC_OFFSET L),
                   u32le_from raw' (i * TASK_SIZE L + TASK_FUNC_OFFSET L)) of
               (Inr f, Inr f') \<Rightarrow> differ_only_in_bit0 f f'
             | _ \<Rightarrow> False))
       (py_range (NUM_TASKS L))"

text \<open>A reader whose 32-bit reads return the low bit flipped at the addresses selected by
  \<open>sel\<close>.\<close>

definition flip_read32 :: "(int \<Rightarrow> bool) \<Rightarrow> live_reader \<Rightarrow> live_reader" where
  "flip_read32 sel mgba =
     mgba\<lparr>read32 := (\<lambda>a. case read32 mgba a of Inl e \<Rightarrow> Inl e | Inr v \<Rightarrow> Inr (flip_bit0 (sel a) v))\<rparr>"

text \<open>A reader without an emulator behind it: every read raises.\<close>

definition no_mgba :: live_reader where
  "no_mgba = \<lparr>read8 = (\<lambda>a. Inl TransportError), read16 = (\<lambda>a. Inl TransportError),
              read32 = (\<lambda>a. Inl TransportError), read_range_bytes = (\<lambda>a n. Inl TransportError)\<rparr>"

text \<open>The layout of \<open>struct Task\<close> in the observed game, used for concrete evaluations:
  sixteen tasks of forty bytes, the function pointer at offset 0, the active flag at
  offset 4 and the data words from offset 8.\<close>

definition firered_tasks :: task_layout where
  "firered_tasks = \<lparr>NUM_TASKS = 16, TASK_SIZE = 40, TASK_ISACTIVE_OFFSET = 4,
     TASK_FUNC_OFFSET = 0, TASK_DATA_OFFSET = 8, GTASKS_ADDR = 0x03005090\<rparr>"

section \<open>Battle menu reconstruction (ui/battle.py)\<close>

record battle_consts =
  BATTLE_MAX_BATTLERS :: int
  BATTLE_TYPE_SAFARI :: int
  DISPLAY_HEIGHT :: int
  BATTLE_PLAYER_HANDLE_YES_NO_INPUT_ADDRS :: "int list"
  BATTLE_HANDLE_INPUT_CHOOSE_TARGET_ADDRS :: "int list"
  BATTLE_HANDLE_INPUT_CHOOSE_MOVE_ADDRS :: "int list"
  BATTLE_HANDLE_INPUT_CHOOSE_ACTION_ADDRS :: "int list"
  GBATTLETYPEFLAGS_ADDR :: int
  GBATTLERSCOUNT_ADDR :: int
  GABSENTBATTLERFLAGS_ADDR :: int
  GBATTLERPOSITIONS_ADDR :: int
  GBATTLEMONS_ADDR :: int
  GBATTLEMONS_SIZE :: int
  GACTIVEBATTLER_ADDR :: int
  GBATTLERCONTROLLERFUNCS_ADDR :: int
  GACTIONSELECTIONCURSOR_ADDR :: int
  GMOVESELECTIONCURSOR_ADDR :: int
  GMULTIUSEPLAYERCURSOR_ADDR :: int
  GBATTLE_BG0_Y_ADDR :: int
  GBATTLESCRIPTCURRINSTR_ADDR :: int
  GBATTLECOMMUNICATION_ADDR :: int
  GDISPLAYEDSTRINGBATTLE_ADDR :: int
  GDISPLAYEDSTRINGBATTLE_SIZE :: int

text \<open>The dictionary returned for a battle menu.  The keys that only the target and move
  menus carry (\<open>targets\<close>, \<open>cursorBattlerId\<close>, \<open>pp\<close>) are left out.\<close>

record battle_ui =
  ui_type :: string
  activeBattlerId :: int
  cursorPosition :: int
  selectedOption :: "pystr option"
  options :: "pystr list"
  layout :: string

text \<open>
  The target menu and the move menu print names of creatures and moves taken from reference
  tables that are loaded from data files; their dictionaries are parameters here.  The
  arguments are the ones \<open>_build_battle_ui_state\<close> uses in the respective branch.
\<close>

record battle_env =
  target_ui :: "int \<Rightarrow> int \<Rightarrow> int list \<Rightarrow> pybytes \<Rightarrow> int \<Rightarrow> int \<Rightarrow> py_error + battle_ui"
  moves_ui :: "pybytes \<Rightarrow> int \<Rightarrow> int \<Rightarrow> py_error + battle_ui"

text \<open>\<open>xs[i]\<close> on a list of integers, with Python's rule for negative indices.\<close>

definition py_list_get :: "int list \<Rightarrow> int \<Rightarrow> py_error + int" where
  "py_list_get xs i =
     (if 0 \<le> i \<and> i < int (length xs) then Inr (xs ! nat i)
      else if i < 0 \<and> - int (length xs) \<le> i then Inr (xs ! nat (int (length xs) + i))
      else Inl IndexError)"

text \<open>\<open>options[cursor] if 0 <= cursor < len(options) else None\<close>.\<close>

definition option_at :: "pystr list \<Rightarrow> int \<Rightarrow> pystr option" where
  "option_at opts cursor =
     (if 0 \<le> cursor \<and> cursor < int (length opts) then Some (opts ! nat cursor) else None)"

definition ACTION_OPTIONS :: "pystr list" where
  "ACTION_OPTIONS = [ascii ''FIGHT'', ascii ''BAG'', ascii ''POK'' @ [233] @ ascii ''MON'', ascii ''RUN'']"

definition SAFARI_OPTIONS :: "pystr list" where
  "SAFARI_OPTIONS = [ascii ''BALL'', ascii ''POK'' @ [233] @ ascii ''BLOCK'', ascii ''GO NEAR'', ascii ''RUN'']"

definition YES_NO_OPTIONS :: "pystr list" where
  "YES_NO_OPTIONS = [ascii ''YES'', ascii ''NO'']"

definition build_battle_ui_state ::
  "battle_consts \<Rightarrow> battle_env \<Rightarrow> int \<Rightarrow> int \<Rightarrow> int \<Rightarrow> int list \<Rightarrow> pybytes \<Rightarrow>
   int \<Rightarrow> int \<Rightarrow> int \<Rightarrow> int \<Rightarrow> int \<Rightarrow> py_error + battle_ui option" where
  "build_battle_ui_state B E battle_type_flags battlers_count absent_flags positions
       battle_mons_raw active_battler0 controller_func action_cursor0 move_cursor0 multi_cursor0 =
     (let active_battler = active_battler0 AND 0xFF;
          action_cursor = action_cursor0 AND 0xFF;
          move_cursor = move_cursor0 AND 0xFF;
          multi_cursor = multi_cursor0 AND 0xFF
      in
      if ptr_matches_any controller_func (BATTLE_PLAYER_HANDLE_YES_NO_INPUT_ADDRS B) then
        (let cursor = (if multi_cursor = 0 then 0 else 1) in
         Inr (Some \<lparr>ui_type = ''battleYesNo'', activeBattlerId = active_battler,
                    cursorPosition = cursor, selectedOption = option_at YES_NO_OPTIONS cursor,
                    options = YES_NO_OPTIONS, layout = ''list''\<rparr>))
      else if ptr_matches_any controller_func (BATTLE_HANDLE_INPUT_CHOOSE_TARGET_ADDRS B) then
        ebind (target_ui E battlers_count absent_flags positions battle_mons_raw
                 active_battler multi_cursor) (\<lambda>ui. Inr (Some ui))
      else if ptr_matches_any controller_func (BATTLE_HANDLE_INPUT_CHOOSE_MOVE_ADDRS B) then
        ebind (moves_ui E battle_mons_raw active_battler move_cursor) (\<lambda>ui. Inr (Some ui))
      else if ptr_matches_any controller_func (BATTLE_HANDLE_INPUT_CHOOSE_ACTION_ADDRS B) then
        (let opts = (if battle_type_flags AND BATTLE_TYPE_SAFARI B \<noteq> 0 then SAFARI_OPTIONS
                     else ACTION_OPTIONS);
             cursor = (if 0 \<le> action_cursor \<and> action_cursor < 4 then action_cursor else 0)
         in Inr (Some \<lparr>ui_type = ''battleActions'', activeBattlerId = active_battler,
                       cursorPosition = cursor, selectedOption = option_at opts cursor,
                       options = opts, layout = ''grid2x2''\<rparr>))
      else Inr None)"

fun emap :: "('a \<Rightarrow> py_error + 'b) \<Rightarrow> 'a list \<Rightarrow> py_error + 'b list" where
  "emap f [] = Inr []"
| "emap f (x # xs) = ebind (f x) (\<lambda>y. ebind (emap f xs) (\<lambda>ys. Inr (y # ys)))"

text \<open>The three tables that \<open>_detect_battle_ui_state\<close> sets up: one controller function
  and two cursors per battler, all zero when the buffer is short.\<close>

definition read_controller_funcs :: "battle_consts \<Rightarrow> pybytes \<Rightarrow> py_error + int list" where
  "read_controller_funcs B controller_funcs_raw =
     (if controller_funcs_raw \<noteq> [] \<and> int (length controller_funcs_raw) \<ge> BATTLE_MAX_BATTLERS B * 4
      then emap (\<lambda>i. u32le_from controller_funcs_raw (i * 4)) (py_range (BATTLE_MAX_BATTLERS B))
      else Inr (replicate (nat (BATTLE_MAX_BATTLERS B)) 0))"

definition read_cursors :: "battle_consts \<Rightarrow> pybytes \<Rightarrow> int list" where
  "read_cursors B cursor_raw =
     (if cursor_raw \<noteq> [] \<and> int (length cursor_raw) \<ge> BATTLE_MAX_BATTLERS B
      then map uint (py_slice cursor_raw 0 (BATTLE_MAX_BATTLERS B))
      else replicate (nat (BATTLE_MAX_BATTLERS B)) 0)"

text \<open>The two nested loops: the address lists in priority order outside, the battlers
  inside; the result is the first battler whose controller function matches.\<close>

fun first_battler_matching :: "int list \<Rightarrow> nat \<Rightarrow> int list \<Rightarrow> (nat \<times> int) option" where
  "first_battler_matching addr_list battler_id [] = None"
| "first_battler_matching addr_list battler_id (func # rest) =
     (if ptr_matches_any func addr_list then Some (battler_id, func)
      else first_battler_matching addr_list (Suc battler_id) rest)"

fun first_priority_match :: "int list list \<Rightarrow> int list \<Rightarrow> (nat \<times> int) option" where
  "first_priority_match [] controller_funcs = None"
| "first_priority_match (addr_list # rest) controller_funcs =
     (case first_battler_matching addr_list 0 controller_funcs of
        Some m \<Rightarrow> Some m
      | None \<Rightarrow> first_priority_match rest controller_funcs)"

definition priority_lists :: "battle_consts \<Rightarrow> int list list" where
  "priority_lists B =
     [BATTLE_PLAYER_HANDLE_YES_NO_INPUT_ADDRS B, BATTLE_HANDLE_INPUT_CHOOSE_TARGET_ADDRS B,
      BATTLE_HANDLE_INPUT_CHOOSE_MOVE_ADDRS B, BATTLE_HANDLE_INPUT_CHOOSE_ACTION_ADDRS B]"

text \<open>\<open>try: ... except Exception: default\<close>.\<close>

definition or_else :: "py_error + 'a \<Rightarrow> 'a \<Rightarrow> 'a" where
  "or_else m d = (case m of Inl e \<Rightarrow> d | Inr v \<Rightarrow> v)"

definition detect_battle_ui_state ::
  "battle_consts \<Rightarrow> live_reader \<Rightarrow> battle_env \<Rightarrow> int \<Rightarrow> int \<Rightarrow> int \<Rightarrow> int list \<Rightarrow> pybytes \<Rightarrow>
   int \<Rightarrow> pybytes \<Rightarrow> pybytes \<Rightarrow> pybytes \<Rightarrow> int \<Rightarrow> int option \<Rightarrow> pybytes option \<Rightarrow>
   pybytes option \<Rightarrow> py_error + battle_ui option" where
  "detect_battle_ui_state B mgba E battle_type_flags battlers_count absent_flags positions
       battle_mons_raw active_battler_fallback controller_funcs_raw action_selection_cursor_raw
       move_selection_cursor_raw multi_cursor bg0_y battle_script_curr_instr_raw
       battle_communication_raw =
     ebind (read_controller_funcs B controller_funcs_raw) (\<lambda>controller_funcs.
     let action_cursors = read_cursors B action_selection_cursor_raw;
         move_cursors = read_cursors B move_selection_cursor_raw
     in
     case first_priority_match (priority_lists B) controller_funcs of
       Some (battler_id, func) \<Rightarrow>
         ebind (py_list_get action_cursors (int battler_id)) (\<lambda>action_cursor.
         ebind (py_list_get move_cursors (int battler_id)) (\<lambda>move_cursor.
         build_battle_ui_state B E battle_type_flags battlers_count absent_flags positions
           battle_mons_raw (int battler_id) func action_cursor move_cursor multi_cursor))
     | None \<Rightarrow>
         (let battler_id0 = active_battler_fallback AND 0xFF;
              battler_id = (if battler_id0 \<ge> BATTLE_MAX_BATTLERS B then 0 else battler_id0);
              script_ptr =
                or_else (case battle_script_curr_instr_raw of
                           Some bs \<Rightarrow> if bs \<noteq> [] \<and> length bs \<ge> 4 then u32le_from bs 0
                                      else read32 mgba (GBATTLESCRIPTCURRINSTR_ADDR B)
                         | None \<Rightarrow> read32 mgba (GBATTLESCRIPTCURRINSTR_ADDR B)) 0;
              cmd = (if script_ptr \<noteq> 0
                     then or_else (ebind (read8 mgba script_ptr) (\<lambda>v. Inr (v AND 0xFF))) (- 1)
                     else - 1)
          in
          if script_ptr \<noteq> 0 \<and> cmd \<in> {0x5A, 0x5B, 0x67} then
            (let cursor_raw =
                   or_else (case battle_communication_raw of
                              Some bs \<Rightarrow> if bs \<noteq> [] \<and> length bs > 1 then bytes_get bs 1
                                         else read8 mgba (GBATTLECOMMUNICATION_ADDR B + 1)
                            | None \<Rightarrow> read8 mgba (GBATTLECOMMUNICATION_ADDR B + 1)) 0;
                 cursor = (if cursor_raw = 0 then 0 else 1)
             in Inr (Some \<lparr>ui_type = ''battleYesNo'', activeBattlerId = battler_id,
                           cursorPosition = cursor, selectedOption = option_at YES_NO_OPTIONS cursor,
                           options = YES_NO_OPTIONS, layout = ''list''\<rparr>))
          else
            (case bg0_y of
               None \<Rightarrow> Inr None
             | Some y \<Rightarrow>
                 if y = DISPLAY_HEIGHT B \<and> BATTLE_HANDLE_INPUT_CHOOSE_ACTION_ADDRS B \<noteq> [] then
                   ebind (py_list_get action_cursors battler_id) (\<lambda>action_cursor.
                   ebind (py_list_get move_cursors battler_id) (\<lambda>move_cursor.
                   build_battle_ui_state B E battle_type_flags battlers_count absent_flags
                     positions battle_mons_raw battler_id
                     (hd (BATTLE_HANDLE_INPUT_CHOOSE_ACTION_ADDRS B))
                     action_cursor move_cursor multi_cursor))
                 else if y = DISPLAY_HEIGHT B * 2 \<and> BATTLE_HANDLE_INPUT_CHOOSE_MOVE_ADDRS B \<noteq> [] then
                   ebind (py_list_get action_cursors battler_id) (\<lambda>action_cursor.
                   ebind (py_list_get move_cursors battler_id) (\<lambda>move_cursor.
                   build_battle_ui_state B E battle_type_flags battlers_count absent_flags
                     positions battle_mons_raw battler_id
                     (hd (BATTLE_HANDLE_INPUT_CHOOSE_MOVE_ADDRS B))
                     action_cursor move_cursor multi_cursor))
                 else Inr None)))"

text \<open>\<open>str.rstrip()\<close> and \<open>sep.join(lines)\<close>.\<close>

definition py_rstrip :: "pystr \<Rightarrow> pystr" where
  "py_rstrip s = rev (dropWhile py_isspace (rev s))"

fun py_join :: "pystr \<Rightarrow> pystr list \<Rightarrow> pystr" where
  "py_join sep [] = []"
| "py_join sep [x] = x"
| "py_join sep (x # y # rest) = x @ sep @ py_join sep (y # rest)"

text \<open>The selection marker is the code point \<open>U+25BA\<close>.\<close>

definition MARKER :: pystr where
  "MARKER = [9658]"

fun list_lines :: "int \<Rightarrow> int \<Rightarrow> pystr list \<Rightarrow> pystr list" where
  "list_lines cursor i [] = []"
| "list_lines cursor i (opt # rest) =
     ((if i = cursor then MARKER else ascii '' '') @ opt) # list_lines cursor (i + 1) rest"

definition format_battle_ui_lines :: "battle_ui \<Rightarrow> pystr list" where
  "format_battle_ui_lines ui_state =
     (let opts = options ui_state; cursor = cursorPosition ui_state;
          lay = (if layout ui_state = [] then ''list'' else layout ui_state)
      in
      if lay = ''grid2x2'' \<and> length opts \<ge> 4 then
        (let top_left = (if cursor = 0 then MARKER else ascii '' '') @ opts ! 0;
             top_right = (if cursor = 1 then MARKER else []) @ opts ! 1;
             bottom_left = (if cursor = 2 then MARKER else ascii '' '') @ opts ! 2;
             bottom_right = (if cursor = 3 then MARKER else []) @ opts ! 3
         in [py_rstrip (top_left @ ascii '' '' @ top_right),
             py_rstrip (bottom_left @ ascii '' '' @ bottom_right)])
      else list_lines cursor 0 opts)"

text \<open>\<open>_decode_battle_displayed_string\<close>: the whole body is wrapped in \<open>try\<close>.\<close>

definition decode_battle_displayed_string ::
  "battle_consts \<Rightarrow> live_reader \<Rightarrow> pybytes option \<Rightarrow> pystr option" where
  "decode_battle_displayed_string B mgba raw0 =
     or_else
       (ebind (case raw0 of
                 Some bs \<Rightarrow> if bs = [] then read_range_bytes mgba (GDISPLAYEDSTRINGBATTLE_ADDR B)
                                              (GDISPLAYEDSTRINGBATTLE_SIZE B)
                            else Inr bs
               | None \<Rightarrow> read_range_bytes mgba (GDISPLAYEDSTRINGBATTLE_ADDR B)
                           (GDISPLAYEDSTRINGBATTLE_SIZE B))
          (\<lambda>raw. if raw = [] then Inr None
                 else (let txt = decode_gba_string raw 200 True
                       in Inr (if txt \<noteq> [] then Some txt else None))))
       None"

section \<open>UI state classifier (ui/dialog.py)\<close>

record dialog_consts =
  task_consts :: task_layout
  WINDOW_NONE :: int
  TEXTPRINTER_SIZE :: int
  TEXTPRINTER_ACTIVE_OFFSET :: int
  STEXTPRINTERS_ADDR :: int
  SSAVE_INFO_WINDOWID_ADDR :: int
  GMAIN_ADDR :: int
  GMAIN_CALLBACK2_OFFSET :: int
  CB2_OVERWORLD_ADDR :: int
  CB2_INIT_TITLE_SCREEN_ADDR :: int
  CB2_TITLE_SCREEN_ADDR :: int
  TASK_TITLE_SCREEN_PHASE1_ADDR :: int
  TASK_TITLE_SCREEN_PHASE2_ADDR :: int
  TASK_TITLE_SCREEN_PHASE3_ADDR :: int

text \<open>The fields of \<open>_DialogBuffers\<close> that the fast path, the tests of the detectors, the
  battle branch and the fallback read.  A field that could not be read from the snapshot is
  \<open>None\<close>.\<close>

record dialog_buffers =
  field_locked :: bool
  in_battle :: bool
  callback2 :: int
  tasks_raw :: "pybytes option"
  text_printers_raw :: "pybytes option"
  start_menu_window_id :: "int option"
  yesno_window_id :: "int option"
  save_info_window_id :: "int option"
  gdisplayedstringbattle_raw :: "pybytes option"
  battle_script_curr_instr_raw :: "pybytes option"
  battle_communication_raw :: "pybytes option"
  battle_type_flags_raw :: "pybytes option"
  battlers_count_raw :: "pybytes option"
  absent_battlers_raw :: "pybytes option"
  battler_positions_raw :: "pybytes option"
  battle_mons_raw :: "pybytes option"
  active_battler_raw :: "pybytes option"
  battler_controller_funcs_raw :: "pybytes option"
  action_selection_cursor_raw :: "pybytes option"
  move_selection_cursor_raw :: "pybytes option"
  multi_use_player_cursor_raw :: "pybytes option"
  battle_bg0_y_raw :: "pybytes option"
  gstringvar4_raw :: "pybytes option"
  quest_log_state_raw :: "pybytes option"
  item_storage_menu_ptr_raw :: "pybytes option"

record title_screen =
  ts_type :: string
  ts_phase :: "string option"

record choice_menu =
  cm_type :: string
  cm_cursorPosition :: int
  cm_selectedOption :: "pystr option"
  cm_options :: "pystr list"

text \<open>
  The result dictionary, restricted to the keys that the modelled paths assign.  The other
  keys of \<open>_default_result\<close> (\<open>startMenu\<close>, \<open>bagMenu\<close>, \<open>tmCase\<close>, \<open>partyMenu\<close>, ...)
  are \<open>None\<close> on all of these paths.  A Python \<open>None\<close> is the option \<open>None\<close>.
\<close>

record dialog_result =
  inDialog :: bool
  fieldControlsLocked :: bool
  textPrinterActive :: bool
  menuType :: "string option"
  visibleText :: "pystr option"
  allPages :: "pystr list option"
  currentPage :: int
  pageCount :: int
  titleScreen :: "title_screen option"
  choiceMenu :: "choice_menu option"
  battleUi :: "battle_ui option"

definition default_result :: "bool \<Rightarrow> bool \<Rightarrow> dialog_result" where
  "default_result field_locked_arg window0_printer_active =
     \<lparr>inDialog = False, fieldControlsLocked = field_locked_arg,
      textPrinterActive = window0_printer_active, menuType = None, visibleText = None,
      allPages = None, currentPage = 0, pageCount = 0, titleScreen = None, choiceMenu = None,
      battleUi = None\<rparr>"

datatype mode = Snapshot | Slow

text \<open>
  What the classifier uses and the sources at hand do not decide: the script-context test
  of \<open>player/snapshot.py\<close>, the detectors between the title screen and the generic
  choice-menu fallback (naming screen to whiteout recovery, each returning its result or
  nothing), the choice-menu branch of the slow mode, the plain-text fallback, and the text
  found by the TextPrinter scanner in battle.  They are parameters of the classifier.
\<close>

record chain_env =
  waiting_for_a_or_b_press :: "py_error + bool"
  later_detectors :: "dialog_result \<Rightarrow> dialog_result option"
  slow_choice_menus :: "dialog_result \<Rightarrow> dialog_result"
  plain_text_fallback :: "dialog_result \<Rightarrow> dialog_result"
  battle_printer_text :: "pystr option"
  battle_menus :: battle_env

subsection \<open>Helpers of the fast path\<close>

definition window0_printer_active :: "dialog_consts \<Rightarrow> live_reader \<Rightarrow> dialog_buffers \<Rightarrow> bool" where
  "window0_printer_active C mgba buffers =
     or_else
       (case text_printers_raw buffers of
          Some raw \<Rightarrow> ebind (u8_from raw (TEXTPRINTER_ACTIVE_OFFSET C)) (\<lambda>v. Inr (v \<noteq> 0))
        | None \<Rightarrow> ebind (read8 mgba (STEXTPRINTERS_ADDR C + TEXTPRINTER_ACTIVE_OFFSET C))
                    (\<lambda>v. Inr (v \<noteq> 0)))
       False"

definition save_info_window_visible :: "dialog_consts \<Rightarrow> live_reader \<Rightarrow> dialog_buffers \<Rightarrow> bool" where
  "save_info_window_visible C mgba buffers =
     (case (case save_info_window_id buffers of
              Some w \<Rightarrow> Inr w
            | None \<Rightarrow> read8 mgba (SSAVE_INFO_WINDOWID_ADDR C)) of
        Inl e \<Rightarrow> False
      | Inr wid \<Rightarrow> wid \<noteq> WINDOW_NONE C \<and> 0 \<le> wid \<and> wid < 32)"

fun any_printer_raw :: "dialog_consts \<Rightarrow> pybytes \<Rightarrow> int list \<Rightarrow> py_error + bool" where
  "any_printer_raw C raw [] = Inr False"
| "any_printer_raw C raw (i # rest) =
     (let off = (i * TEXTPRINTER_SIZE C) + TEXTPRINTER_ACTIVE_OFFSET C in
      ebind (u8_from raw off) (\<lambda>v. if v \<noteq> 0 then Inr True else any_printer_raw C raw rest))"

fun any_printer_live :: "dialog_consts \<Rightarrow> live_reader \<Rightarrow> int list \<Rightarrow> py_error + bool" where
  "any_printer_live C mgba [] = Inr False"
| "any_printer_live C mgba (i # rest) =
     (let printer_addr = STEXTPRINTERS_ADDR C + (i * TEXTPRINTER_SIZE C) in
      ebind (read8 mgba (printer_addr + TEXTPRINTER_ACTIVE_OFFSET C))
        (\<lambda>v. if v \<noteq> 0 then Inr True else any_printer_live C mgba rest))"

definition any_text_printer_active :: "dialog_consts \<Rightarrow> live_reader \<Rightarrow> dialog_buffers \<Rightarrow> bool" where
  "any_text_printer_active C mgba buffers =
     or_else
       (case text_printers_raw buffers of
          Some raw \<Rightarrow>
            if int (length raw) \<ge> 32 * TEXTPRINTER_SIZE C then any_printer_raw C raw (py_range 32)
            else any_printer_live C mgba (py_range 32)
        | None \<Rightarrow> any_printer_live C mgba (py_range 32))
       False"

definition fast_path_guard :: "dialog_consts \<Rightarrow> live_reader \<Rightarrow> dialog_buffers \<Rightarrow> int \<Rightarrow> bool" where
  "fast_path_guard C mgba buffers cb2 =
     (let cb2_masked = cb2 AND 0xFFFFFFFE;
          overworld_cb2 = (if CB2_OVERWORLD_ADDR C \<noteq> 0 then CB2_OVERWORLD_ADDR C AND 0xFFFFFFFE else 0);
          start_menu_open = (case start_menu_window_id buffers of
                               None \<Rightarrow> False | Some w \<Rightarrow> w \<noteq> WINDOW_NONE C);
          yesno_open = (case yesno_window_id buffers of
                          None \<Rightarrow> False | Some w \<Rightarrow> w \<noteq> WINDOW_NONE C)
      in \<not> in_battle buffers \<and> \<not> field_locked buffers \<and> overworld_cb2 \<noteq> 0 \<and>
         cb2_masked = overworld_cb2 \<and> \<not> start_menu_open \<and> \<not> yesno_open \<and>
         \<not> save_info_window_visible C mgba buffers \<and> \<not> any_text_printer_active C mgba buffers)"

subsection \<open>The title-screen detector (ui/menus.py), first in the chain\<close>

definition title_phase :: "dialog_consts \<Rightarrow> int \<Rightarrow> string option" where
  "title_phase C task_func_masked =
     (if task_func_masked = (TASK_TITLE_SCREEN_PHASE1_ADDR C AND 0xFFFFFFFE) then Some ''phase1''
      else if task_func_masked = (TASK_TITLE_SCREEN_PHASE2_ADDR C AND 0xFFFFFFFE) then Some ''phase2''
      else if task_func_masked = (TASK_TITLE_SCREEN_PHASE3_ADDR C AND 0xFFFFFFFE) then Some ''pressStart''
      else None)"

fun title_scan_raw ::
  "dialog_consts \<Rightarrow> pybytes \<Rightarrow> int list \<Rightarrow> int list \<Rightarrow> py_error + (bool \<times> string option)" where
  "title_scan_raw C raw title_task_addrs [] = Inr (False, None)"
| "title_scan_raw C raw title_task_addrs (i # rest) =
     (let base = i * TASK_SIZE (task_consts C) in
      ebind (u8_from raw (base + TASK_ISACTIVE_OFFSET (task_consts C))) (\<lambda>active.
        if active = 0 then title_scan_raw C raw title_task_addrs rest
        else ebind (u32le_from raw (base + TASK_FUNC_OFFSET (task_consts C))) (\<lambda>f.
          let task_func_masked = f AND 0xFFFFFFFE in
          if task_func_masked \<in> set title_task_addrs then Inr (True, title_phase C task_func_masked)
          else title_scan_raw C raw title_task_addrs rest)))"

fun title_scan_live ::
  "dialog_consts \<Rightarrow> live_reader \<Rightarrow> int list \<Rightarrow> int list \<Rightarrow> py_error + (bool \<times> string option)" where
  "title_scan_live C mgba title_task_addrs [] = Inr (False, None)"
| "title_scan_live C mgba title_task_addrs (i # rest) =
     (let task_addr = GTASKS_ADDR (task_consts C) + (i * TASK_SIZE (task_consts C)) in
      ebind (read8 mgba (task_addr + TASK_ISACTIVE_OFFSET (task_consts C))) (\<lambda>active.
        if active = 0 then title_scan_live C mgba title_task_addrs rest
        else ebind (read32 mgba (task_addr + TASK_FUNC_OFFSET (task_consts C))) (\<lambda>f.
          let task_func_masked = f AND 0xFFFFFFFE in
          if task_func_masked \<in> set title_task_addrs then Inr (True, title_phase C task_func_masked)
          else title_scan_live C mgba title_task_addrs rest)))"

definition get_title_screen_press_start_state ::
  "dialog_consts \<Rightarrow> live_reader \<Rightarrow> int option \<Rightarrow> pybytes option \<Rightarrow> title_screen option" where
  "get_title_screen_press_start_state C mgba cb2_arg tasks_raw_arg =
     or_else
       (ebind (case cb2_arg of
                 None \<Rightarrow> read32 mgba (GMAIN_ADDR C + GMAIN_CALLBACK2_OFFSET C)
               | Some c \<Rightarrow> Inr c) (\<lambda>cb2.
        let callback2_masked = cb2 AND 0xFFFFFFFE;
            title_cb2_addrs = [CB2_INIT_TITLE_SCREEN_ADDR C AND 0xFFFFFFFE,
                               CB2_TITLE_SCREEN_ADDR C AND 0xFFFFFFFE];
            title_task_addrs = [TASK_TITLE_SCREEN_PHASE1_ADDR C AND 0xFFFFFFFE,
                                TASK_TITLE_SCREEN_PHASE2_ADDR C AND 0xFFFFFFFE,
                                TASK_TITLE_SCREEN_PHASE3_ADDR C AND 0xFFFFFFFE];
            n = NUM_TASKS (task_consts C)
        in
        ebind (case tasks_raw_arg of
                 Some raw \<Rightarrow>
                   if int (length raw) \<ge> n * TASK_SIZE (task_consts C)
                   then title_scan_raw C raw title_task_addrs (py_range n)
                   else title_scan_live C mgba title_task_addrs (py_range n)
               | None \<Rightarrow> title_scan_live C mgba title_task_addrs (py_range n))
          (\<lambda>(any_task_active, phase).
             if callback2_masked \<notin> set title_cb2_addrs \<and> \<not> any_task_active then Inr None
             else Inr (Some \<lparr>ts_type = ''titleScreen'', ts_phase = phase\<rparr>))))
       None"

definition TITLE_SCREEN_PRESS_START_VISIBLE_TEXT :: pystr where
  "TITLE_SCREEN_PRESS_START_VISIBLE_TEXT =
     ascii ''Pok'' @ [233] @ ascii ''mon FireRed Version'' @ [10] @ ascii '' PRESS START'' @ [10]
     @ ascii ''2004 Game Freak inc.''"

subsection \<open>The battle branch\<close>

text \<open>A value taken from a captured buffer when it is there in full, and read from the
  emulator otherwise; a failing read is not caught in this branch.\<close>

definition buffer_or_live :: "pybytes option \<Rightarrow> int \<Rightarrow> (pybytes \<Rightarrow> py_error + 'a) \<Rightarrow>
    (py_error + 'a) \<Rightarrow> py_error + 'a" where
  "buffer_or_live raw n from_buffer from_live =
     (case raw of
        Some bs \<Rightarrow> if bs \<noteq> [] \<and> int (length bs) \<ge> n then from_buffer bs else from_live
      | None \<Rightarrow> from_live)"

definition battle_branch ::
  "battle_consts \<Rightarrow> live_reader \<Rightarrow> chain_env \<Rightarrow> dialog_buffers \<Rightarrow> dialog_result \<Rightarrow>
   py_error + dialog_result" where
  "battle_branch B mgba E buffers result =
     (let battle_text =
            (case battle_printer_text E of
               Some t \<Rightarrow> if t \<noteq> [] then Some t
                         else decode_battle_displayed_string B mgba (gdisplayedstringbattle_raw buffers)
             | None \<Rightarrow> decode_battle_displayed_string B mgba (gdisplayedstringbattle_raw buffers))
      in
      ebind (buffer_or_live (battle_type_flags_raw buffers) 4 (\<lambda>bs. u32le_from bs 0)
               (read32 mgba (GBATTLETYPEFLAGS_ADDR B))) (\<lambda>battle_type_flags.
      ebind (buffer_or_live (battlers_count_raw buffers) 1 (\<lambda>bs. bytes_get bs 0)
               (read8 mgba (GBATTLERSCOUNT_ADDR B))) (\<lambda>battlers_count.
      ebind (buffer_or_live (absent_battlers_raw buffers) 1 (\<lambda>bs. bytes_get bs 0)
               (read8 mgba (GABSENTBATTLERFLAGS_ADDR B))) (\<lambda>absent_flags.
      ebind (buffer_or_live (battler_positions_raw buffers) (BATTLE_MAX_BATTLERS B)
               (\<lambda>bs. Inr (map uint (py_slice bs 0 (BATTLE_MAX_BATTLERS B))))
               (ebind (read_range_bytes mgba (GBATTLERPOSITIONS_ADDR B) (BATTLE_MAX_BATTLERS B))
                  (\<lambda>bs. Inr (map uint bs)))) (\<lambda>positions.
      ebind (buffer_or_live (battle_mons_raw buffers) (GBATTLEMONS_SIZE B) Inr
               (read_range_bytes mgba (GBATTLEMONS_ADDR B) (GBATTLEMONS_SIZE B))) (\<lambda>mons_raw.
      ebind (buffer_or_live (active_battler_raw buffers) 1 (\<lambda>bs. bytes_get bs 0)
               (read8 mgba (GACTIVEBATTLER_ADDR B))) (\<lambda>active_battler.
      ebind (buffer_or_live (battler_controller_funcs_raw buffers) (BATTLE_MAX_BATTLERS B * 4) Inr
               (read_range_bytes mgba (GBATTLERCONTROLLERFUNCS_ADDR B) (BATTLE_MAX_BATTLERS B * 4)))
            (\<lambda>controller_funcs_raw.
      ebind (buffer_or_live (action_selection_cursor_raw buffers) (BATTLE_MAX_BATTLERS B) Inr
               (read_range_bytes mgba (GACTIONSELECTIONCURSOR_ADDR B) (BATTLE_MAX_BATTLERS B)))
            (\<lambda>action_cursors.
      ebind (buffer_or_live (move_selection_cursor_raw buffers) (BATTLE_MAX_BATTLERS B) Inr
               (read_range_bytes mgba (GMOVESELECTIONCURSOR_ADDR B) (BATTLE_MAX_BATTLERS B)))
            (\<lambda>move_cursors.
      ebind (buffer_or_live (multi_use_player_cursor_raw buffers) 1 (\<lambda>bs. bytes_get bs 0)
               (read8 mgba (GMULTIUSEPLAYERCURSOR_ADDR B))) (\<lambda>multi_cursor.
      ebind (buffer_or_live (battle_bg0_y_raw buffers) 2 (\<lambda>bs. u16le_from bs 0)
               (read16 mgba (GBATTLE_BG0_Y_ADDR B))) (\<lambda>bg0_y.
      ebind (detect_battle_ui_state B mgba (battle_menus E) battle_type_flags battlers_count
               absent_flags positions mons_raw active_battler controller_funcs_raw
               action_cursors move_cursors multi_cursor (Some bg0_y)
               (battle_script_curr_instr_raw buffers) (battle_communication_raw buffers))
            (\<lambda>ui_state.
      let lines0 = (case battle_text of Some t \<Rightarrow> [t] | None \<Rightarrow> []);
          (result1, lines1) =
            (case ui_state of
               Some ui \<Rightarrow>
                 (result\<lparr>battleUi := Some ui, menuType := Some (ui_type ui),
                         choiceMenu := Some \<lparr>cm_type = ui_type ui,
                                              cm_cursorPosition = cursorPosition ui,
                                              cm_selectedOption = selectedOption ui,
                                              cm_options = options ui\<rparr>\<rparr>,
                  (let menu_lines = format_battle_ui_lines ui in
                   if menu_lines \<noteq> [] then (if lines0 \<noteq> [] then lines0 @ [[]] else lines0) @ menu_lines
                   else lines0))
             | None \<Rightarrow> (result\<lparr>menuType := Some ''battle''\<rparr>, lines0))
      in Inr (if lines1 \<noteq> [] then result1\<lparr>visibleText := Some (py_join [10] lines1)\<rparr>
              else result1))))))))))))))"

subsection \<open>The chain and the classifier\<close>

text \<open>\<open>in_dialog\<close>: a battle counts, and so does a locked field with an active window-0
  printer or a script waiting for a button.\<close>

definition compute_in_dialog :: "chain_env \<Rightarrow> dialog_buffers \<Rightarrow> bool \<Rightarrow> py_error + bool" where
  "compute_in_dialog E buffers w0 =
     (if in_battle buffers then Inr True
      else if field_locked buffers then
        (if w0 then Inr True else waiting_for_a_or_b_press E)
      else Inr False)"

text \<open>The detectors in their order, from the title screen on.  This is the part of
  \<open>_compute\<close> that follows the fast path.\<close>

definition detector_chain ::
  "dialog_consts \<Rightarrow> battle_consts \<Rightarrow> live_reader \<Rightarrow> chain_env \<Rightarrow> dialog_buffers \<Rightarrow> mode \<Rightarrow>
   int \<Rightarrow> bool \<Rightarrow> dialog_result \<Rightarrow> py_error + dialog_result" where
  "detector_chain C B mgba E buffers md cb2 in_dialog result =
     (case get_title_screen_press_start_state C mgba (Some cb2) (tasks_raw buffers) of
        Some ts \<Rightarrow>
          Inr (result\<lparr>inDialog := True, menuType := Some ''titleScreen'', titleScreen := Some ts,
                      visibleText := Some TITLE_SCREEN_PRESS_START_VISIBLE_TEXT\<rparr>)
      | None \<Rightarrow>
          (case later_detectors E result of
             Some r \<Rightarrow> Inr r
           | None \<Rightarrow>
               if md = Slow \<and> \<not> in_dialog then Inr (slow_choice_menus E result)
               else if in_battle buffers then battle_branch B mgba E buffers result
               else Inr (plain_text_fallback E result)))"

text \<open>\<open>_compute\<close>, and the same function with the fast path taken out.\<close>

definition compute ::
  "dialog_consts \<Rightarrow> battle_consts \<Rightarrow> live_reader \<Rightarrow> chain_env \<Rightarrow> dialog_buffers \<Rightarrow> mode \<Rightarrow>
   py_error + dialog_result" where
  "compute C B mgba E buffers md =
     (let cb2 = callback2 buffers AND 0xFFFFFFFF;
          w0 = window0_printer_active C mgba buffers;
          result0 = default_result (field_locked buffers) w0
      in ebind (compute_in_dialog E buffers w0) (\<lambda>in_dialog.
           let result = result0\<lparr>inDialog := in_dialog\<rparr> in
           if fast_path_guard C mgba buffers cb2 then Inr result
           else detector_chain C B mgba E buffers md cb2 in_dialog result))"

definition compute_full_chain ::
  "dialog_consts \<Rightarrow> battle_consts \<Rightarrow> live_reader \<Rightarrow> chain_env \<Rightarrow> dialog_buffers \<Rightarrow> mode \<Rightarrow>
   py_error + dialog_result" where
  "compute_full_chain C B mgba E buffers md =
     (let cb2 = callback2 buffers AND 0xFFFFFFFF;
          w0 = window0_printer_active C mgba buffers;
          result0 = default_result (field_locked buffers) w0
      in ebind (compute_in_dialog E buffers w0) (\<lambda>in_dialog.
           let result = result0\<lparr>inDialog := in_dialog\<rparr> in
           detector_chain C B mgba E buffers md cb2 in_dialog result))"

section \<open>The detectors of the chain (ui/menus.py, ui/fly_map.py, ui/pokedex.py)\<close>

text \<open>
  Every detector first tests whether its screen can be on display (the top-level callback,
  an active scheduler task, a state byte, a pointer) and returns \<open>None\<close> when it is not;
  only then does it read the screen's data and build its dictionary.  The tests are modelled
  as the source has them.  The chain always passes the callback, so the detectors take it as
  an integer.  The constants of the tests follow.
\<close>

record screen_consts =
  CB2_LOAD_NAMING_SCREEN_ADDR :: int
  CB2_NAMING_SCREEN_ADDR :: int
  CB2_FLY_MAP_ADDR :: int
  CB2_OPEN_FLY_MAP_ADDR :: int
  CB2_POKEDEX_ADDR :: int
  CB2_OPEN_POKEDEX_ADDR :: int
  CB2_POKE_STORAGE_ADDR :: int
  CB2_RETURN_TO_POKE_STORAGE_ADDR :: int
  CB2_TM_CASE_IDLE_ADDR :: int
  CB2_TM_CASE_SETUP_ADDR :: int
  CB2_BAG_MENU_RUN_ADDR :: int
  CB2_BAG_ADDR :: int
  CB2_TRAINER_CARD_ADDR :: int
  CB2_INIT_OPTION_MENU_ADDR :: int
  CB2_OPTION_MENU_ADDR :: int
  CB2_MAIN_MENU_ADDR :: int
  CB2_INIT_MAIN_MENU_ADDR :: int
  CB2_REINIT_MAIN_MENU_ADDR :: int
  CB2_INIT_PARTY_MENU_ADDR :: int
  CB2_UPDATE_PARTY_MENU_ADDR :: int
  CB2_BUY_MENU_ADDR :: int
  CB2_INIT_SUMMARY_SCREEN_ADDR :: int
  CB2_SUMMARY_SCREEN_ADDR :: int
  CONTROLS_GUIDE_TASK_FUNCS :: "int list"
  PIKACHU_INTRO_TASK_FUNCS :: "int list"
  NEW_GAME_BIRCH_SPEECH_TASK_ADDRS :: "int list"
  TASK_NEW_GAME_BIRCH_SPEECH_CHOOSE_GENDER_ADDR :: int
  TASK_NEW_GAME_BIRCH_SPEECH_SLIDE_OUT_OLD_GENDER_SPRITE_ADDR :: int
  TASK_NEW_GAME_BIRCH_SPEECH_SLIDE_IN_NEW_GENDER_SPRITE_ADDR :: int
  TASK_BERRY_CRUSH_SHOW_RANKINGS_ADDR :: int
  TASK_POKEMON_STORAGE_PC_MAIN_MENU_ADDR :: int
  TASK_PLAYER_PC_PROCESS_MENU_INPUT_ADDRS :: "int list"
  TASK_PLAYER_PC_PROCESS_MENU_INPUT_ADDR :: int
  TASK_PLAYER_PC_DRAW_TOP_MENU_ADDR :: int
  ITEM_PC_TASK_FUNCS :: "int list"
  ITEM_STORAGE_MENU_PROCESS_INPUT_ADDR :: int
  TASK_SHOW_START_MENU_ADDR :: int
  START_MENU_TASK_ADDR :: int
  TASK_OPTION_MENU_FADEIN_ADDR :: int
  TASK_OPTION_MENU_PROCESSINPUT_ADDR :: int
  TASK_OPTION_MENU_SAVE_ADDR :: int
  TASK_OPTION_MENU_FADEOUT_ADDR :: int
  TASK_DISPLAY_MAIN_MENU_ADDR :: int
  TASK_HIGHLIGHT_SELECTED_MAIN_MENU_ITEM_ADDR :: int
  TASK_HANDLE_MAIN_MENU_INPUT_ADDR :: int
  SCRIPT_LIST_MENU_TASK_FUNCS :: "int list"
  TASK_HANDLE_MULTICHOICE_INPUT_ADDR :: int
  TASK_RUSH_INJURED_POKEMON_TO_CENTER_ADDR :: int
  TASK_SHOP_MENU_ADDR :: int
  TASK_HANDLE_YES_NO_INPUT_ADDR :: int
  TASK_CALL_YES_OR_NO_CALLBACK_ADDR :: int
  START_MENU_WINDOW_ID_ADDR :: int
  SYESNO_WINDOWID_ADDR :: int
  SITEM_STORAGE_MENU_PTR_ADDR :: int
  SMON_SUMMARY_SCREEN_PTR_ADDR :: int
  GQUEST_LOG_STATE_ADDR :: int
  QL_STATE_PLAYBACK :: int
  QL_STATE_PLAYBACK_LAST :: int
  TEXTPRINTER_CURRENTCHAR_OFFSET :: int
  GSTRINGVAR4_ADDR :: int

text \<open>
  What follows a passed test is a parameter.  For a detector of the chain it is given by the
  values of the keys that the chain's branch assigns from the detector's dictionary, besides
  \<open>inDialog\<close> and \<open>menuType\<close>, or it is \<open>None\<close> when the detector returns
  \<open>None\<close> after all, as it also does when it raises.  For a detector of a choice menu it
  is the menu's dictionary, seen through the keys that the classifier reads.  The other
  parameters are the text decoder of the TextPrinter scanner (\<open>_decode_best\<close> with its
  scores, which may raise), the text of the save-info window, and the texts that the fallback and the slow
  mode put together for a choice menu.
\<close>

record branch_keys =
  bk_visibleText :: "pystr option"
  bk_allPages :: "pystr list option"
  bk_currentPage :: int
  bk_pageCount :: int
  bk_choiceMenu :: "choice_menu option"

record menu_dict =
  md_menu :: choice_menu
  md_promptText :: "pystr option"
  md_visibleText :: "pystr option"
  md_multichoiceId :: int

record detector_rest =
  naming_rest :: "branch_keys option"
  controls_guide_rest :: "branch_keys option"
  pikachu_intro_rest :: "branch_keys option"
  quest_log_playback_rest :: "branch_keys option"
  fly_map_rest :: "branch_keys option"
  pokedex_rest :: "branch_keys option"
  pokemon_storage_system_rest :: "branch_keys option"
  berry_crush_rankings_rest :: "branch_keys option"
  pokemon_storage_pc_menu_rest :: "branch_keys option"
  player_pc_menu_rest :: "menu_dict option"
  item_storage_list_rest :: "branch_keys option"
  item_storage_menu_rest :: "branch_keys option"
  start_menu_rest :: "branch_keys option"
  tm_case_rest :: "branch_keys option"
  bag_menu_rest :: "(py_error + branch_keys) option"
  trainer_card_rest :: "branch_keys option"
  option_menu_rest :: "branch_keys option"
  title_menu_rest :: "branch_keys option"
  party_menu_rest :: "branch_keys option"
  shop_buy_menu_rest :: "branch_keys option"
  summary_rest :: "branch_keys option"
  summary_select_move_rest :: "branch_keys option"
  elevator_prelude :: "py_error + unit"
  elevator_list_menu_rest :: "py_error + branch_keys option"
  elevator_multichoice_rest :: "branch_keys option"
  whiteout_recovery_keys :: "int \<Rightarrow> int \<Rightarrow> branch_keys"
  shop_choice_menu_rest :: "menu_dict option"
  multichoice_menu_rest :: "menu_dict option"
  yes_no_menu_rest :: "menu_dict option"
  birch_gender_menu_rest :: "menu_dict option"
  decode_best :: "(int \<times> int) list \<Rightarrow> py_error + pystr option"
  save_info_window_state :: "pystr option option"
  choice_menu_text :: "menu_dict \<Rightarrow> pystr option \<Rightarrow> pystr option"
  slow_choice_menu_text :: "menu_dict \<Rightarrow> pystr option"

subsection \<open>Scans of the task table\<close>

text \<open>The loop that several detectors write out themselves: it takes the captured table only
  when it holds all tasks, has no \<open>break\<close> for a short table, and tells whether some active
  task runs one of the given (masked) functions.\<close>

fun task_in_raw :: "task_layout \<Rightarrow> pybytes \<Rightarrow> int list \<Rightarrow> int list \<Rightarrow> py_error + bool" where
  "task_in_raw L raw addrs [] = Inr False"
| "task_in_raw L raw addrs (i # rest) =
     (let base = i * TASK_SIZE L in
      ebind (u8_from raw (base + TASK_ISACTIVE_OFFSET L)) (\<lambda>active.
        if active = 0 then task_in_raw L raw addrs rest
        else ebind (u32le_from raw (base + TASK_FUNC_OFFSET L)) (\<lambda>f.
          let task_func_masked = f AND 0xFFFFFFFE in
          if task_func_masked \<in> set addrs then Inr True
          else task_in_raw L raw addrs rest)))"

fun task_in_live :: "task_layout \<Rightarrow> live_reader \<Rightarrow> int list \<Rightarrow> int list \<Rightarrow> py_error + bool" where
  "task_in_live L mgba addrs [] = Inr False"
| "task_in_live L mgba addrs (i # rest) =
     (let task_addr = GTASKS_ADDR L + (i * TASK_SIZE L) in
      ebind (read8 mgba (task_addr + TASK_ISACTIVE_OFFSET L)) (\<lambda>active.
        if active = 0 then task_in_live L mgba addrs rest
        else ebind (read32 mgba (task_addr + TASK_FUNC_OFFSET L)) (\<lambda>f.
          let task_func_masked = f AND 0xFFFFFFFE in
          if task_func_masked \<in> set addrs then Inr True
          else task_in_live L mgba addrs rest)))"

definition any_task_in ::
  "task_layout \<Rightarrow> live_reader \<Rightarrow> int list \<Rightarrow> pybytes option \<Rightarrow> py_error + bool" where
  "any_task_in L mgba addrs tasks_raw_arg =
     (case tasks_raw_arg of
        Some raw \<Rightarrow>
          if int (length raw) \<ge> NUM_TASKS L * TASK_SIZE L
          then task_in_raw L raw addrs (py_range (NUM_TASKS L))
          else task_in_live L mgba addrs (py_range (NUM_TASKS L))
      | None \<Rightarrow> task_in_live L mgba addrs (py_range (NUM_TASKS L)))"

text \<open>The same choice of table with the loop that has the \<open>break\<close> and returns the task.\<close>

definition first_task_in ::
  "task_layout \<Rightarrow> live_reader \<Rightarrow> (int \<Rightarrow> bool) \<Rightarrow> pybytes option \<Rightarrow> py_error + int option" where
  "first_task_in L mgba matches tasks_raw_arg =
     (case tasks_raw_arg of
        Some raw \<Rightarrow>
          if int (length raw) \<ge> NUM_TASKS L * TASK_SIZE L
          then scan_tasks_raw L raw matches (py_range (NUM_TASKS L))
          else scan_tasks_live L mgba matches (py_range (NUM_TASKS L))
      | None \<Rightarrow> scan_tasks_live L mgba matches (py_range (NUM_TASKS L)))"

text \<open>\<open>x in (a & 0xFFFFFFFE, b & 0xFFFFFFFE, ...)\<close>, and the same over the non-null
  addresses only.\<close>

definition masked_in :: "int \<Rightarrow> int list \<Rightarrow> bool" where
  "masked_in x addrs \<longleftrightarrow> x \<in> set (map (\<lambda>a. a AND 0xFFFFFFFE) addrs)"

definition nonnull_masked :: "int list \<Rightarrow> int list" where
  "nonnull_masked addrs = map (\<lambda>a. a AND 0xFFFFFFFE) (filter (\<lambda>a. a \<noteq> 0) addrs)"

text \<open>\<open>int.from_bytes(raw[:4], "little")\<close>.\<close>

definition int_from_bytes_little :: "pybytes \<Rightarrow> int" where
  "int_from_bytes_little bs = foldr (\<lambda>b acc. uint b + 256 * acc) bs 0"

subsection \<open>Detectors decided by the top-level callback\<close>

definition get_naming_screen_state :: "screen_consts \<Rightarrow> detector_rest \<Rightarrow> int \<Rightarrow> branch_keys option" where
  "get_naming_screen_state S X cb2 =
     (let cb2_masked = cb2 AND 0xFFFFFFFE in
      if cb2_masked = (CB2_LOAD_NAMING_SCREEN_ADDR S AND 0xFFFFFFFE) then naming_rest X
      else if cb2_masked = (CB2_NAMING_SCREEN_ADDR S AND 0xFFFFFFFE) then naming_rest X
      else None)"

definition get_fly_map_state :: "screen_consts \<Rightarrow> detector_rest \<Rightarrow> int \<Rightarrow> branch_keys option" where
  "get_fly_map_state S X cb2_arg =
     (let cb2 = cb2_arg AND 0xFFFFFFFE;
          cb2_candidates = nonnull_masked [CB2_FLY_MAP_ADDR S, CB2_OPEN_FLY_MAP_ADDR S]
      in if cb2_candidates = [] \<or> cb2 \<notin> set cb2_candidates then None else fly_map_rest X)"

definition get_pokedex_state :: "screen_consts \<Rightarrow> detector_rest \<Rightarrow> int \<Rightarrow> branch_keys option" where
  "get_pokedex_state S X cb2_arg =
     (let cb2 = cb2_arg AND 0xFFFFFFFE;
          cb2_candidates = nonnull_masked [CB2_POKEDEX_ADDR S, CB2_OPEN_POKEDEX_ADDR S]
      in if cb2_candidates = [] \<or> cb2 \<notin> set cb2_candidates then None else pokedex_rest X)"

definition get_pokemon_storage_system_state ::
  "screen_consts \<Rightarrow> detector_rest \<Rightarrow> int \<Rightarrow> branch_keys option" where
  "get_pokemon_storage_system_state S X cb2 =
     (let masked = cb2 AND 0xFFFFFFFE in
      if \<not> masked_in masked [CB2_POKE_STORAGE_ADDR S, CB2_RETURN_TO_POKE_STORAGE_ADDR S] then None
      else pokemon_storage_system_rest X)"

definition get_tm_case_state :: "screen_consts \<Rightarrow> detector_rest \<Rightarrow> int \<Rightarrow> branch_keys option" where
  "get_tm_case_state S X cb2 =
     (let cb2_masked = cb2 AND 0xFFFFFFFE;
          is_tmcase_cb = masked_in cb2_masked [CB2_TM_CASE_IDLE_ADDR S, CB2_TM_CASE_SETUP_ADDR S]
      in if \<not> is_tmcase_cb then None else tm_case_rest X)"

definition get_bag_menu_state ::
  "screen_consts \<Rightarrow> detector_rest \<Rightarrow> int \<Rightarrow> (py_error + branch_keys) option" where
  "get_bag_menu_state S X cb2 =
     (let callback2_masked = cb2 AND 0xFFFFFFFE in
      if \<not> masked_in callback2_masked [CB2_BAG_MENU_RUN_ADDR S, CB2_BAG_ADDR S] then None
      else bag_menu_rest X)"

definition get_trainer_card_state :: "screen_consts \<Rightarrow> detector_rest \<Rightarrow> int \<Rightarrow> branch_keys option" where
  "get_trainer_card_state S X cb2 =
     (if (cb2 AND 0xFFFFFFFE) \<noteq> (CB2_TRAINER_CARD_ADDR S AND 0xFFFFFFFE) then None
      else trainer_card_rest X)"

definition get_party_menu_state :: "screen_consts \<Rightarrow> detector_rest \<Rightarrow> int \<Rightarrow> branch_keys option" where
  "get_party_menu_state S X cb2 =
     (let callback2 = cb2 AND 0xFFFFFFFE in
      if \<not> masked_in callback2 [CB2_INIT_PARTY_MENU_ADDR S, CB2_UPDATE_PARTY_MENU_ADDR S] then None
      else party_menu_rest X)"

definition get_shop_buy_menu_state :: "screen_consts \<Rightarrow> detector_rest \<Rightarrow> int \<Rightarrow> branch_keys option" where
  "get_shop_buy_menu_state S X cb2 =
     (if (cb2 AND 0xFFFFFFFE) \<noteq> (CB2_BUY_MENU_ADDR S AND 0xFFFFFFFE) then None
      else shop_buy_menu_rest X)"

definition get_pokemon_summary_state :: "screen_consts \<Rightarrow> detector_rest \<Rightarrow> int \<Rightarrow> branch_keys option" where
  "get_pokemon_summary_state S X cb2 =
     (let cb2_masked = cb2 AND 0xFFFFFFFE in
      if \<not> masked_in cb2_masked [CB2_INIT_SUMMARY_SCREEN_ADDR S, CB2_SUMMARY_SCREEN_ADDR S] then None
      else summary_rest X)"

text \<open>The option menu and the title menu are on display when the callback is theirs or one of
  their tasks is active.\<close>

definition get_option_menu_state ::
  "task_layout \<Rightarrow> screen_consts \<Rightarrow> detector_rest \<Rightarrow> live_reader \<Rightarrow> int \<Rightarrow> pybytes option \<Rightarrow>
   branch_keys option" where
  "get_option_menu_state L S X mgba cb2 tasks_raw_arg =
     or_else
       (let callback2_masked = cb2 AND 0xFFFFFFFE;
            option_task_addrs = map (\<lambda>a. a AND 0xFFFFFFFE)
              [TASK_OPTION_MENU_FADEIN_ADDR S, TASK_OPTION_MENU_PROCESSINPUT_ADDR S,
               TASK_OPTION_MENU_SAVE_ADDR S, TASK_OPTION_MENU_FADEOUT_ADDR S]
        in ebind (any_task_in L mgba option_task_addrs tasks_raw_arg) (\<lambda>option_task_active.
             if \<not> masked_in callback2_masked [CB2_INIT_OPTION_MENU_ADDR S, CB2_OPTION_MENU_ADDR S]
                \<and> \<not> option_task_active
             then Inr None else Inr (option_menu_rest X)))
       None"

definition get_title_menu_state ::
  "task_layout \<Rightarrow> screen_consts \<Rightarrow> detector_rest \<Rightarrow> live_reader \<Rightarrow> int \<Rightarrow> pybytes option \<Rightarrow>
   branch_keys option" where
  "get_title_menu_state L S X mgba cb2 tasks_raw_arg =
     or_else
       (let callback2_masked = cb2 AND 0xFFFFFFFE;
            main_menu_task_addrs = map (\<lambda>a. a AND 0xFFFFFFFE)
              [TASK_DISPLAY_MAIN_MENU_ADDR S, TASK_HIGHLIGHT_SELECTED_MAIN_MENU_ITEM_ADDR S,
               TASK_HANDLE_MAIN_MENU_INPUT_ADDR S]
        in ebind (any_task_in L mgba main_menu_task_addrs tasks_raw_arg) (\<lambda>main_menu_task_active.
             if \<not> masked_in callback2_masked
                  [CB2_MAIN_MENU_ADDR S, CB2_INIT_MAIN_MENU_ADDR S, CB2_REINIT_MAIN_MENU_ADDR S]
                \<and> \<not> main_menu_task_active
             then Inr None else Inr (title_menu_rest X)))
       None"

subsection \<open>Detectors decided by an active task\<close>

definition get_controls_guide_state ::
  "task_layout \<Rightarrow> screen_consts \<Rightarrow> detector_rest \<Rightarrow> live_reader \<Rightarrow> pybytes option \<Rightarrow>
   branch_keys option" where
  "get_controls_guide_state L S X mgba tasks_raw_arg =
     or_else
       (ebind (find_active_task_by_funcs L mgba (CONTROLS_GUIDE_TASK_FUNCS S) tasks_raw_arg) (\<lambda>task_id.
          case task_id of None \<Rightarrow> Inr None | Some i \<Rightarrow> Inr (controls_guide_rest X)))
       None"

definition get_pikachu_intro_state ::
  "task_layout \<Rightarrow> screen_consts \<Rightarrow> detector_rest \<Rightarrow> live_reader \<Rightarrow> pybytes option \<Rightarrow>
   branch_keys option" where
  "get_pikachu_intro_state L S X mgba tasks_raw_arg =
     or_else
       (ebind (find_active_task_by_funcs L mgba (PIKACHU_INTRO_TASK_FUNCS S) tasks_raw_arg) (\<lambda>task_id.
          case task_id of None \<Rightarrow> Inr None | Some i \<Rightarrow> Inr (pikachu_intro_rest X)))
       None"

definition get_berry_crush_rankings_state ::
  "task_layout \<Rightarrow> screen_consts \<Rightarrow> detector_rest \<Rightarrow> live_reader \<Rightarrow> pybytes option \<Rightarrow>
   branch_keys option" where
  "get_berry_crush_rankings_state L S X mgba tasks_raw_arg =
     or_else
       (let target = TASK_BERRY_CRUSH_SHOW_RANKINGS_ADDR S AND 0xFFFFFFFE in
        if target = 0 then Inr None
        else ebind (first_task_in L mgba (\<lambda>task_func. task_func = target) tasks_raw_arg) (\<lambda>found.
               case found of None \<Rightarrow> Inr None | Some i \<Rightarrow> Inr (berry_crush_rankings_rest X)))
       None"

definition get_pokemon_storage_pc_menu_state ::
  "task_layout \<Rightarrow> screen_consts \<Rightarrow> detector_rest \<Rightarrow> live_reader \<Rightarrow> pybytes option \<Rightarrow>
   branch_keys option" where
  "get_pokemon_storage_pc_menu_state L S X mgba tasks_raw_arg =
     or_else
       (ebind (find_active_task_by_func L mgba (TASK_POKEMON_STORAGE_PC_MAIN_MENU_ADDR S) tasks_raw_arg)
          (\<lambda>task_id. case task_id of None \<Rightarrow> Inr None
                      | Some i \<Rightarrow> Inr (pokemon_storage_pc_menu_rest X)))
       None"

definition get_player_pc_menu_state ::
  "task_layout \<Rightarrow> screen_consts \<Rightarrow> detector_rest \<Rightarrow> live_reader \<Rightarrow> pybytes option \<Rightarrow>
   menu_dict option" where
  "get_player_pc_menu_state L S X mgba tasks_raw_arg =
     or_else
       (let task_candidates =
              filter (\<lambda>a. a \<noteq> 0) (TASK_PLAYER_PC_PROCESS_MENU_INPUT_ADDRS S)
              @ (if TASK_PLAYER_PC_PROCESS_MENU_INPUT_ADDR S \<noteq> 0
                 then [TASK_PLAYER_PC_PROCESS_MENU_INPUT_ADDR S] else [])
              @ (if TASK_PLAYER_PC_DRAW_TOP_MENU_ADDR S \<noteq> 0
                 then [TASK_PLAYER_PC_DRAW_TOP_MENU_ADDR S] else [])
        in ebind (find_active_task_by_funcs L mgba task_candidates tasks_raw_arg) (\<lambda>task_id.
             case task_id of None \<Rightarrow> Inr None | Some i \<Rightarrow> Inr (player_pc_menu_rest X)))
       None"

definition get_item_storage_list_state ::
  "task_layout \<Rightarrow> screen_consts \<Rightarrow> detector_rest \<Rightarrow> live_reader \<Rightarrow> pybytes option \<Rightarrow>
   pybytes option \<Rightarrow> branch_keys option" where
  "get_item_storage_list_state L S X mgba tasks_raw_arg item_storage_menu_ptr_raw_arg =
     or_else
       (ebind (case item_storage_menu_ptr_raw_arg of
                 Some raw \<Rightarrow> if int (length raw) \<ge> 4 then Inr (int_from_bytes_little (py_slice raw 0 4))
                             else read32 mgba (SITEM_STORAGE_MENU_PTR_ADDR S)
               | None \<Rightarrow> read32 mgba (SITEM_STORAGE_MENU_PTR_ADDR S)) (\<lambda>menu_ptr.
          if menu_ptr = 0 then Inr None
          else ebind (find_active_task_by_funcs L mgba (ITEM_PC_TASK_FUNCS S) tasks_raw_arg) (\<lambda>task_id.
                 case task_id of None \<Rightarrow> Inr None | Some i \<Rightarrow> Inr (item_storage_list_rest X))))
       None"

definition get_item_storage_menu_state ::
  "task_layout \<Rightarrow> screen_consts \<Rightarrow> detector_rest \<Rightarrow> live_reader \<Rightarrow> pybytes option \<Rightarrow>
   branch_keys option" where
  "get_item_storage_menu_state L S X mgba tasks_raw_arg =
     or_else
       (ebind (find_active_task_by_func L mgba (ITEM_STORAGE_MENU_PROCESS_INPUT_ADDR S) tasks_raw_arg)
          (\<lambda>task_id. case task_id of None \<Rightarrow> Inr None | Some i \<Rightarrow> Inr (item_storage_menu_rest X)))
       None"

text \<open>The START menu needs one of its two tasks and a window id other than the sentinel.\<close>

definition get_start_menu_state ::
  "dialog_consts \<Rightarrow> screen_consts \<Rightarrow> detector_rest \<Rightarrow> live_reader \<Rightarrow> pybytes option \<Rightarrow>
   int option \<Rightarrow> branch_keys option" where
  "get_start_menu_state C S X mgba tasks_raw_arg start_menu_window_id_arg =
     or_else
       (ebind (find_active_task_by_func (task_consts C) mgba (TASK_SHOW_START_MENU_ADDR S) tasks_raw_arg)
          (\<lambda>show_task.
        ebind (case show_task of
                 Some i \<Rightarrow> Inr True
               | None \<Rightarrow> ebind (find_active_task_by_func (task_consts C) mgba (START_MENU_TASK_ADDR S)
                                  tasks_raw_arg) (\<lambda>menu_task. Inr (menu_task \<noteq> None))) (\<lambda>task_active.
        if \<not> task_active then Inr None
        else ebind (case start_menu_window_id_arg of
                      Some w \<Rightarrow> Inr w
                    | None \<Rightarrow> read8 mgba (START_MENU_WINDOW_ID_ADDR S)) (\<lambda>window_id.
               if window_id = WINDOW_NONE C then Inr None else Inr (start_menu_rest X)))))
       None"

text \<open>The elevator menu: after reading its prompt and floor, it is the script list menu when
  one of the list-menu tasks is active and the list is the floor list, and otherwise a
  multichoice menu, for which the multichoice task must be active.\<close>

definition get_elevator_menu_state ::
  "task_layout \<Rightarrow> screen_consts \<Rightarrow> detector_rest \<Rightarrow> live_reader \<Rightarrow> pybytes option \<Rightarrow>
   branch_keys option" where
  "get_elevator_menu_state L S X mgba tasks_raw_arg =
     or_else
       (ebind (elevator_prelude X) (\<lambda>prelude.
        ebind (find_active_task_by_funcs L mgba (SCRIPT_LIST_MENU_TASK_FUNCS S) tasks_raw_arg)
          (\<lambda>list_menu_task_id.
        ebind (case list_menu_task_id of
                 Some i \<Rightarrow> elevator_list_menu_rest X
               | None \<Rightarrow> Inr None) (\<lambda>list_menu.
        case list_menu of
          Some k \<Rightarrow> Inr (Some k)
        | None \<Rightarrow>
            ebind (find_active_task_by_func L mgba (TASK_HANDLE_MULTICHOICE_INPUT_ADDR S) tasks_raw_arg)
              (\<lambda>multi_task_id.
                 case multi_task_id of None \<Rightarrow> Inr None
                 | Some i \<Rightarrow> Inr (elevator_multichoice_rest X))))))
       None"

subsection \<open>Detectors decided by a state byte or a pointer\<close>

definition get_quest_log_playback_state ::
  "screen_consts \<Rightarrow> detector_rest \<Rightarrow> live_reader \<Rightarrow> pybytes option \<Rightarrow> branch_keys option" where
  "get_quest_log_playback_state S X mgba quest_log_state_raw_arg =
     or_else
       (ebind (case quest_log_state_raw_arg of
                 Some raw \<Rightarrow> if int (length raw) \<ge> 1 then bytes_get raw 0
                             else read8 mgba (GQUEST_LOG_STATE_ADDR S)
               | None \<Rightarrow> read8 mgba (GQUEST_LOG_STATE_ADDR S)) (\<lambda>quest_log_state.
          if quest_log_state \<noteq> QL_STATE_PLAYBACK S \<and> quest_log_state \<noteq> QL_STATE_PLAYBACK_LAST S
          then Inr None else Inr (quest_log_playback_rest X)))
       None"

text \<open>The move-selection summary screen is looked for whatever the callback is: the pointer to
  the screen's data must be a work-RAM address.\<close>

definition get_pokemon_summary_select_move_state ::
  "screen_consts \<Rightarrow> detector_rest \<Rightarrow> live_reader \<Rightarrow> branch_keys option" where
  "get_pokemon_summary_select_move_state S X mgba =
     or_else
       (ebind (read32 mgba (SMON_SUMMARY_SCREEN_PTR_ADDR S)) (\<lambda>screen_ptr.
          if screen_ptr = 0 then Inr None
          else if \<not> (0x02000000 \<le> screen_ptr \<and> screen_ptr \<le> 0x0203FFFF) then Inr None
          else Inr (summary_select_move_rest X)))
       None"

subsection \<open>Detectors of choice menus\<close>

definition get_shop_choice_menu_state ::
  "task_layout \<Rightarrow> screen_consts \<Rightarrow> detector_rest \<Rightarrow> live_reader \<Rightarrow> pybytes option \<Rightarrow>
   menu_dict option" where
  "get_shop_choice_menu_state L S X mgba tasks_raw_arg =
     or_else
       (ebind (find_active_task_by_func L mgba (TASK_SHOP_MENU_ADDR S) tasks_raw_arg) (\<lambda>task_id.
          case task_id of None \<Rightarrow> Inr None | Some i \<Rightarrow> Inr (shop_choice_menu_rest X)))
       None"

definition get_multichoice_menu_state ::
  "task_layout \<Rightarrow> screen_consts \<Rightarrow> detector_rest \<Rightarrow> live_reader \<Rightarrow> pybytes option \<Rightarrow>
   menu_dict option" where
  "get_multichoice_menu_state L S X mgba tasks_raw_arg =
     or_else
       (ebind (find_active_task_by_func L mgba (TASK_HANDLE_MULTICHOICE_INPUT_ADDR S) tasks_raw_arg)
          (\<lambda>task_id. case task_id of None \<Rightarrow> Inr None | Some i \<Rightarrow> Inr (multichoice_menu_rest X)))
       None"

text \<open>A YES/NO menu is driven by one of two tasks; without them the window id must be that of
  an allocated window (what is checked after the id is part of the remainder).\<close>

definition get_yes_no_menu_state ::
  "dialog_consts \<Rightarrow> screen_consts \<Rightarrow> detector_rest \<Rightarrow> live_reader \<Rightarrow> pybytes option \<Rightarrow>
   int option \<Rightarrow> menu_dict option" where
  "get_yes_no_menu_state C S X mgba tasks_raw_arg yesno_window_id_arg =
     or_else
       (ebind (find_active_task_by_func (task_consts C) mgba (TASK_HANDLE_YES_NO_INPUT_ADDR S)
                 tasks_raw_arg) (\<lambda>input_task.
        ebind (case input_task of
                 Some i \<Rightarrow> Inr True
               | None \<Rightarrow> ebind (find_active_task_by_func (task_consts C) mgba
                                  (TASK_CALL_YES_OR_NO_CALLBACK_ADDR S) tasks_raw_arg)
                           (\<lambda>callback_task. Inr (callback_task \<noteq> None))) (\<lambda>task_active.
        if task_active then Inr (yes_no_menu_rest X)
        else ebind (case yesno_window_id_arg of
                      Some w \<Rightarrow> Inr w
                    | None \<Rightarrow> read8 mgba (SYESNO_WINDOWID_ADDR S)) (\<lambda>yesno_window_id.
               if yesno_window_id = WINDOW_NONE C \<or> yesno_window_id < 0 \<or> yesno_window_id \<ge> 32
               then Inr None else Inr (yes_no_menu_rest X)))))
       None"

definition get_new_game_birch_gender_menu_state ::
  "task_layout \<Rightarrow> screen_consts \<Rightarrow> detector_rest \<Rightarrow> live_reader \<Rightarrow> pybytes option \<Rightarrow>
   menu_dict option" where
  "get_new_game_birch_gender_menu_state L S X mgba tasks_raw_arg =
     or_else
       (let gender_task_addrs = nonnull_masked
              [TASK_NEW_GAME_BIRCH_SPEECH_CHOOSE_GENDER_ADDR S,
               TASK_NEW_GAME_BIRCH_SPEECH_SLIDE_OUT_OLD_GENDER_SPRITE_ADDR S,
               TASK_NEW_GAME_BIRCH_SPEECH_SLIDE_IN_NEW_GENDER_SPRITE_ADDR S]
        in if gender_task_addrs = [] then Inr None
           else ebind (any_task_in L mgba gender_task_addrs tasks_raw_arg) (\<lambda>active.
                  if \<not> active then Inr None else Inr (birch_gender_menu_rest X)))
       None"

text \<open>\<open>_is_new_game_birch_speech_active\<close>; its task addresses come from the symbol table.\<close>

definition is_new_game_birch_speech_active ::
  "task_layout \<Rightarrow> screen_consts \<Rightarrow> live_reader \<Rightarrow> pybytes option \<Rightarrow> bool" where
  "is_new_game_birch_speech_active L S mgba tasks_raw_arg =
     or_else
       (let task_addrs = nonnull_masked (NEW_GAME_BIRCH_SPEECH_TASK_ADDRS S) in
        if task_addrs = [] then Inr False
        else ebind (first_task_in L mgba (\<lambda>task_func. task_func \<in> set task_addrs) tasks_raw_arg)
               (\<lambda>found. Inr (found \<noteq> None)))
       False"

subsection \<open>Whiteout recovery (ui/dialog.py)\<close>

definition read_task_data_u16 ::
  "task_layout \<Rightarrow> live_reader \<Rightarrow> int \<Rightarrow> int \<Rightarrow> pybytes option \<Rightarrow> py_error + int" where
  "read_task_data_u16 L mgba task_id data_index tasks_raw_arg =
     (case tasks_raw_arg of
        Some raw \<Rightarrow> u16le_from raw ((task_id * TASK_SIZE L) + TASK_DATA_OFFSET L + (data_index * 2))
      | None \<Rightarrow> read16 mgba (GTASKS_ADDR L + (task_id * TASK_SIZE L) + TASK_DATA_OFFSET L
                                + (data_index * 2)))"

text \<open>\<open>_read_whiteout_recovery_state\<close>: the search for the task is not inside a \<open>try\<close>.\<close>

definition read_whiteout_recovery_state ::
  "task_layout \<Rightarrow> screen_consts \<Rightarrow> detector_rest \<Rightarrow> live_reader \<Rightarrow> pybytes option \<Rightarrow>
   py_error + branch_keys option" where
  "read_whiteout_recovery_state L S X mgba tasks_raw_arg =
     (let task_addr = TASK_RUSH_INJURED_POKEMON_TO_CENTER_ADDR S in
      if task_addr = 0 then Inr None
      else ebind (find_active_task_by_func L mgba task_addr tasks_raw_arg) (\<lambda>found.
             case found of
               None \<Rightarrow> Inr None
             | Some task_id \<Rightarrow>
                 (let state = or_else (read_task_data_u16 L mgba task_id 0 tasks_raw_arg) (- 1) in
                  if state \<noteq> 1 \<and> state \<noteq> 4 then Inr None
                  else Inr (Some (whiteout_recovery_keys X task_id state)))))"

subsection \<open>The TextPrinter scanner and the pages of the dialog (text/text_printer.py)\<close>

text \<open>The candidates of \<open>find_active_textprinter_text\<close>: the active printers with a
  non-null text pointer, each with its window.\<close>

fun printer_candidates_raw ::
  "dialog_consts \<Rightarrow> screen_consts \<Rightarrow> pybytes \<Rightarrow> int list \<Rightarrow> py_error + (int \<times> int) list" where
  "printer_candidates_raw C S raw [] = Inr []"
| "printer_candidates_raw C S raw (i # rest) =
     (let off = (i * TEXTPRINTER_SIZE C) + TEXTPRINTER_CURRENTCHAR_OFFSET S;
          active_off = (i * TEXTPRINTER_SIZE C) + TEXTPRINTER_ACTIVE_OFFSET C in
      ebind (u8_from raw active_off) (\<lambda>active.
        if active = 0 then printer_candidates_raw C S raw rest
        else ebind (u32le_from raw off) (\<lambda>current_ptr.
          if current_ptr = 0 then printer_candidates_raw C S raw rest
          else ebind (printer_candidates_raw C S raw rest) (\<lambda>cs. Inr ((i, current_ptr) # cs)))))"

fun printer_candidates_live ::
  "dialog_consts \<Rightarrow> screen_consts \<Rightarrow> live_reader \<Rightarrow> int list \<Rightarrow> py_error + (int \<times> int) list" where
  "printer_candidates_live C S mgba [] = Inr []"
| "printer_candidates_live C S mgba (i # rest) =
     (let printer_addr = STEXTPRINTERS_ADDR C + (i * TEXTPRINTER_SIZE C) in
      ebind (read8 mgba (printer_addr + TEXTPRINTER_ACTIVE_OFFSET C)) (\<lambda>active.
        if active = 0 then printer_candidates_live C S mgba rest
        else ebind (read32 mgba (printer_addr + TEXTPRINTER_CURRENTCHAR_OFFSET S)) (\<lambda>current_ptr.
          if current_ptr = 0 then printer_candidates_live C S mgba rest
          else ebind (printer_candidates_live C S mgba rest) (\<lambda>cs. Inr ((i, current_ptr) # cs)))))"

text \<open>A Python value is truthy as a text when it is a string and not empty.\<close>

definition truthy :: "pystr option \<Rightarrow> bool" where
  "truthy t \<longleftrightarrow> (case t of None \<Rightarrow> False | Some s \<Rightarrow> s \<noteq> [])"

definition read_if_missing :: "'a option \<Rightarrow> (py_error + 'a) \<Rightarrow> py_error + 'a" where
  "read_if_missing captured live_read = (case captured of Some v \<Rightarrow> Inr v | None \<Rightarrow> live_read)"

definition find_active_textprinter_text ::
  "dialog_consts \<Rightarrow> screen_consts \<Rightarrow> battle_consts \<Rightarrow> detector_rest \<Rightarrow> live_reader \<Rightarrow>
   pybytes option \<Rightarrow> pybytes option \<Rightarrow> pybytes option \<Rightarrow> bool \<Rightarrow> pystr option" where
  "find_active_textprinter_text C S B X mgba text_printers_raw_arg gstringvar4_raw_arg
       gdisplayedstringbattle_raw_arg include_inactive_window0 =
     or_else
       (let read_gstringvar4 = read_if_missing gstringvar4_raw_arg
              (read_range_bytes mgba (GSTRINGVAR4_ADDR S) 500);
            read_displayed = read_if_missing gdisplayedstringbattle_raw_arg
              (read_range_bytes mgba (GDISPLAYEDSTRINGBATTLE_ADDR B) (GDISPLAYEDSTRINGBATTLE_SIZE B));
            best = (\<lambda>candidates. if candidates = [] then Inr None else decode_best X candidates)
        in
        case text_printers_raw_arg of
          None \<Rightarrow>
            ebind (printer_candidates_live C S mgba (py_range 32)) (\<lambda>candidates.
            ebind read_gstringvar4 (\<lambda>gstringvar4.
            ebind read_displayed (\<lambda>displayed.
            ebind (best candidates) (\<lambda>text.
              if truthy text then Inr text
              else if include_inactive_window0 then
                (let ptr0 = or_else (read32 mgba (STEXTPRINTERS_ADDR C + TEXTPRINTER_CURRENTCHAR_OFFSET S)) 0
                 in if ptr0 \<noteq> 0 then best [(0, ptr0)] else Inr None)
              else Inr None))))
        | Some raw \<Rightarrow>
            ebind read_gstringvar4 (\<lambda>gstringvar4.
            ebind read_displayed (\<lambda>displayed.
            ebind (printer_candidates_raw C S raw (py_range 32)) (\<lambda>candidates.
            ebind (best candidates) (\<lambda>text.
              if truthy text then Inr text
              else if include_inactive_window0 then
                ebind (u32le_from raw (TEXTPRINTER_CURRENTCHAR_OFFSET S)) (\<lambda>ptr0.
                  if ptr0 \<noteq> 0 then best [(0, ptr0)] else Inr None)
              else Inr None)))))
       None"

text \<open>\<open>get_full_dialog_text\<close>: the pages of the dialog buffer, a page ending at a prompt
  byte and the text at the terminator; \<open>current_page\<close> holds the bytes of the page being
  read.  Pages that decode to the empty string are left out.\<close>

definition page_text :: "pybytes \<Rightarrow> pystr list" where
  "page_text current_page =
     (if current_page \<noteq> [] then
        (let t = decode_gba_string current_page 200 False in if t \<noteq> [] then [t] else [])
      else [])"

fun dialog_pages :: "pybytes \<Rightarrow> pybytes \<Rightarrow> pystr list" where
  "dialog_pages [] current_page = page_text current_page"
| "dialog_pages (byte # rest) current_page =
     (if byte = TEXT_TERMINATOR then page_text current_page
      else if byte \<in> set PROMPT_CHARS then page_text current_page @ dialog_pages rest []
      else dialog_pages rest (current_page @ [byte]))"

definition get_full_dialog_text ::
  "screen_consts \<Rightarrow> live_reader \<Rightarrow> pybytes option \<Rightarrow> pystr list option" where
  "get_full_dialog_text S mgba raw_arg =
     or_else
       (ebind (read_if_missing raw_arg (read_range_bytes mgba (GSTRINGVAR4_ADDR S) 500)) (\<lambda>raw.
          if raw = [] then Inr None
          else (let pages = dialog_pages raw [] in
                if pages \<noteq> [] then Inr (Some pages) else Inr None)))
       None"

section \<open>The classifier with its detectors (ui/dialog.py)\<close>

subsection \<open>The branches of the chain\<close>

text \<open>What a branch assigns when its detector has returned a dictionary: always
  \<open>inDialog\<close> and \<open>menuType\<close>, and from the dictionary the text, or the text and a
  choice menu, or the text and the pages, or all of these.\<close>

definition with_text :: "string \<Rightarrow> branch_keys \<Rightarrow> dialog_result \<Rightarrow> dialog_result" where
  "with_text name k result =
     result\<lparr>inDialog := True, menuType := Some name, visibleText := bk_visibleText k\<rparr>"

definition with_menu :: "string \<Rightarrow> branch_keys \<Rightarrow> dialog_result \<Rightarrow> dialog_result" where
  "with_menu name k result =
     result\<lparr>inDialog := True, menuType := Some name, choiceMenu := bk_choiceMenu k,
            visibleText := bk_visibleText k\<rparr>"

definition with_pages :: "string \<Rightarrow> branch_keys \<Rightarrow> dialog_result \<Rightarrow> dialog_result" where
  "with_pages name k result =
     result\<lparr>inDialog := True, menuType := Some name, visibleText := bk_visibleText k,
            allPages := bk_allPages k, pageCount := bk_pageCount k,
            currentPage := bk_currentPage k\<rparr>"

definition with_all :: "string \<Rightarrow> branch_keys \<Rightarrow> dialog_result \<Rightarrow> dialog_result" where
  "with_all name k result =
     result\<lparr>inDialog := True, menuType := Some name, choiceMenu := bk_choiceMenu k,
            visibleText := bk_visibleText k, allPages := bk_allPages k,
            pageCount := bk_pageCount k, currentPage := bk_currentPage k\<rparr>"

text \<open>One step of the chain: \<open>state = detector(...)\<close>, and \<open>if state: ...; return result\<close>.\<close>

definition screen ::
  "'a option \<Rightarrow> ('a \<Rightarrow> dialog_result) \<Rightarrow> py_error + dialog_result option" where
  "screen state branch = (case state of None \<Rightarrow> Inr None | Some k \<Rightarrow> Inr (Some (branch k)))"

definition raising_screen ::
  "(py_error + 'a) option \<Rightarrow> ('a \<Rightarrow> dialog_result) \<Rightarrow> py_error + dialog_result option" where
  "raising_screen state branch =
     (case state of
        None \<Rightarrow> Inr None
      | Some (Inl e) \<Rightarrow> Inl e
      | Some (Inr k) \<Rightarrow> Inr (Some (branch k)))"

text \<open>The steps in their order: the first that recognises its screen, or raises, decides.\<close>

fun first_recognised :: "(py_error + dialog_result option) list \<Rightarrow> py_error + dialog_result option" where
  "first_recognised [] = Inr None"
| "first_recognised (step # rest) =
     (case step of
        Inl e \<Rightarrow> Inl e
      | Inr (Some r) \<Rightarrow> Inr (Some r)
      | Inr None \<Rightarrow> first_recognised rest)"

definition menu_keys :: "menu_dict \<Rightarrow> branch_keys" where
  "menu_keys d = \<lparr>bk_visibleText = md_visibleText d, bk_allPages = None, bk_currentPage = 0,
                  bk_pageCount = 0, bk_choiceMenu = Some (md_menu d)\<rparr>"

definition screens ::
  "dialog_consts \<Rightarrow> screen_consts \<Rightarrow> detector_rest \<Rightarrow> live_reader \<Rightarrow> dialog_buffers \<Rightarrow> int \<Rightarrow>
   dialog_result \<Rightarrow> (py_error + dialog_result option) list" where
  "screens C S X mgba buffers cb2 result =
     (let L = task_consts C; tasks = tasks_raw buffers in
      [screen (get_naming_screen_state S X cb2) (\<lambda>k. with_menu ''namingScreen'' k result),
       screen (get_controls_guide_state L S X mgba tasks) (\<lambda>k. with_pages ''controlsGuide'' k result),
       screen (get_pikachu_intro_state L S X mgba tasks) (\<lambda>k. with_pages ''pikachuIntro'' k result),
       screen (get_quest_log_playback_state S X mgba (quest_log_state_raw buffers))
         (\<lambda>k. with_text ''questLogPlayback'' k result),
       screen (get_fly_map_state S X cb2) (\<lambda>k. with_text ''flyMap'' k result),
       screen (get_pokedex_state S X cb2) (\<lambda>k. with_menu ''pokedex'' k result),
       screen (get_pokemon_storage_system_state S X cb2) (\<lambda>k. with_menu ''pokemonStorage'' k result),
       screen (get_berry_crush_rankings_state L S X mgba tasks)
         (\<lambda>k. with_text ''berryCrushRankings'' k result),
       screen (get_pokemon_storage_pc_menu_state L S X mgba tasks)
         (\<lambda>k. with_menu ''pokemonStoragePcMenu'' k result),
       screen (get_player_pc_menu_state L S X mgba tasks)
         (\<lambda>d. with_menu ''playerPcMenu'' (menu_keys d) result),
       screen (get_item_storage_list_state L S X mgba tasks (item_storage_menu_ptr_raw buffers))
         (\<lambda>k. with_menu ''itemStorageList'' k result),
       screen (get_item_storage_menu_state L S X mgba tasks) (\<lambda>k. with_menu ''itemStorageMenu'' k result),
       screen (get_start_menu_state C S X mgba tasks (start_menu_window_id buffers))
         (\<lambda>k. with_text ''startMenu'' k result),
       screen (get_tm_case_state S X cb2) (\<lambda>k. with_menu ''tmCase'' k result),
       raising_screen (get_bag_menu_state S X cb2) (\<lambda>k. with_all ''bagMenu'' k result),
       screen (get_trainer_card_state S X cb2) (\<lambda>k. with_text ''trainerCard'' k result),
       screen (get_option_menu_state L S X mgba cb2 tasks) (\<lambda>k. with_text ''optionMenu'' k result),
       screen (get_title_menu_state L S X mgba cb2 tasks) (\<lambda>k. with_text ''titleMenu'' k result),
       screen (get_party_menu_state S X cb2) (\<lambda>k. with_all ''partyMenu'' k result),
       screen (get_shop_buy_menu_state S X cb2) (\<lambda>k. with_menu ''shopBuyMenu'' k result),
       screen (get_pokemon_summary_state S X cb2) (\<lambda>k. with_menu ''summaryScreen'' k result),
       screen (get_pokemon_summary_select_move_state S X mgba)
         (\<lambda>k. with_menu ''summaryMoveReplace'' k result),
       screen (get_elevator_menu_state L S X mgba tasks) (\<lambda>k. with_menu ''elevatorMenu'' k result),
       ebind (read_whiteout_recovery_state L S X mgba tasks) (\<lambda>state.
         screen state (\<lambda>k. with_pages ''dialog'' k result))])"

subsection \<open>Choice menus outside the chain\<close>

text \<open>\<open>a or b or ...\<close> over detector results.\<close>

fun first_menu :: "menu_dict option list \<Rightarrow> menu_dict option" where
  "first_menu [] = None"
| "first_menu (m # rest) = (case m of Some d \<Rightarrow> Some d | None \<Rightarrow> first_menu rest)"

text \<open>The branch of the slow mode, taken when no dialog is established: a choice menu makes
  a dialog, anything else leaves the result as it is.\<close>

definition slow_choice_branch ::
  "dialog_consts \<Rightarrow> screen_consts \<Rightarrow> detector_rest \<Rightarrow> live_reader \<Rightarrow> dialog_buffers \<Rightarrow>
   dialog_result \<Rightarrow> dialog_result" where
  "slow_choice_branch C S X mgba buffers result =
     (let L = task_consts C; tasks = tasks_raw buffers;
          choice_menu = first_menu
            [get_shop_choice_menu_state L S X mgba tasks,
             get_multichoice_menu_state L S X mgba tasks,
             get_yes_no_menu_state C S X mgba tasks (yesno_window_id buffers),
             get_player_pc_menu_state L S X mgba tasks]
      in case choice_menu of
           None \<Rightarrow> result
         | Some d \<Rightarrow> result\<lparr>inDialog := True, menuType := Some ''dialog'',
                              choiceMenu := Some (md_menu d),
                              visibleText := slow_choice_menu_text X d\<rparr>)"

subsection \<open>The fallback: plain dialog text and generic choice menus\<close>

text \<open>The first page, counted from one, that equals the visible text once both are stripped.\<close>

fun matching_page :: "pystr \<Rightarrow> pystr list \<Rightarrow> int \<Rightarrow> int option" where
  "matching_page visible [] i = None"
| "matching_page visible (page # rest) i =
     (if py_strip visible = py_strip page then Some (i + 1) else matching_page visible rest (i + 1))"

definition plain_dialog ::
  "dialog_consts \<Rightarrow> screen_consts \<Rightarrow> battle_consts \<Rightarrow> detector_rest \<Rightarrow> live_reader \<Rightarrow>
   dialog_buffers \<Rightarrow> bool \<Rightarrow> bool \<Rightarrow> dialog_result \<Rightarrow> dialog_result" where
  "plain_dialog C S B X mgba buffers in_dialog dialog_read_safe result =
     (let L = task_consts C; tasks = tasks_raw buffers;
          visible = find_active_textprinter_text C S B X mgba (text_printers_raw buffers)
                      (gstringvar4_raw buffers) (gdisplayedstringbattle_raw buffers) dialog_read_safe;
          r1 = (if truthy visible then result\<lparr>visibleText := visible\<rparr> else result);
          save_info = (if save_info_window_visible C mgba buffers then save_info_window_state X
                       else None);
          r2 = (case save_info of
                  None \<Rightarrow> r1
                | Some save_text \<Rightarrow>
                    if truthy save_text then
                      (if truthy (visibleText r1)
                       then r1\<lparr>visibleText := Some (the save_text @ [10, 10] @ the (visibleText r1))\<rparr>
                       else r1\<lparr>visibleText := save_text\<rparr>)
                    else r1);
          dialog_data = (if dialog_read_safe then get_full_dialog_text S mgba (gstringvar4_raw buffers)
                         else None);
          r3 = (case dialog_data of
                  None \<Rightarrow> r2
                | Some pages \<Rightarrow>
                    (let r = r2\<lparr>allPages := Some pages, pageCount := int (length pages)\<rparr> in
                     if truthy visible \<and> pages \<noteq> [] then
                       (case matching_page (the visible) pages 0 of
                          Some n \<Rightarrow> r\<lparr>currentPage := n\<rparr>
                        | None \<Rightarrow> r)
                     else r));
          choice_menu = first_menu
            [get_shop_choice_menu_state L S X mgba tasks,
             get_multichoice_menu_state L S X mgba tasks,
             get_yes_no_menu_state C S X mgba tasks (yesno_window_id buffers),
             get_new_game_birch_gender_menu_state L S X mgba tasks,
             get_player_pc_menu_state L S X mgba tasks];
          r4 = (case choice_menu of
                  None \<Rightarrow> r3
                | Some d \<Rightarrow> r3\<lparr>choiceMenu := Some (md_menu d),
                                 visibleText := choice_menu_text X d (visibleText r3)\<rparr>);
          r5 = (case allPages r4 of
                  None \<Rightarrow> r4
                | Some pages \<Rightarrow>
                    if \<not> truthy (visibleText r4) \<and> pages \<noteq> [] then
                      (let current_page = currentPage r4;
                           idx = (if 0 < current_page \<and> current_page \<le> int (length pages)
                                  then current_page - 1 else 0)
                       in r4\<lparr>visibleText := Some (pages ! nat idx)\<rparr>)
                    else r4);
          r6 = (if pageCount r5 = 1 \<and> currentPage r5 = 0 then r5\<lparr>currentPage := 1\<rparr> else r5);
          has_dialog_evidence = (truthy (visibleText r6) \<or> choiceMenu r6 \<noteq> None \<or> save_info \<noteq> None)
      in if in_dialog \<or> has_dialog_evidence
         then r6\<lparr>inDialog := True, menuType := Some ''dialog''\<rparr>
         else r6)"

subsection \<open>The classifier\<close>

text \<open>What follows the fast path in \<open>_compute\<close>: the title screen, the chain of screens,
  the branch of the slow mode, the battle branch, the fallback.\<close>

definition chain ::
  "dialog_consts \<Rightarrow> screen_consts \<Rightarrow> battle_consts \<Rightarrow> detector_rest \<Rightarrow> live_reader \<Rightarrow>
   chain_env \<Rightarrow> dialog_buffers \<Rightarrow> mode \<Rightarrow> int \<Rightarrow> bool \<Rightarrow> dialog_result \<Rightarrow>
   py_error + dialog_result" where
  "chain C S B X mgba E buffers md cb2 in_dialog result =
     (let birch_speech_active =
            is_new_game_birch_speech_active (task_consts C) S mgba (tasks_raw buffers);
          dialog_read_safe = (in_dialog \<or> birch_speech_active)
      in case get_title_screen_press_start_state C mgba (Some cb2) (tasks_raw buffers) of
           Some ts \<Rightarrow>
             Inr (result\<lparr>inDialog := True, menuType := Some ''titleScreen'', titleScreen := Some ts,
                         visibleText := Some TITLE_SCREEN_PRESS_START_VISIBLE_TEXT\<rparr>)
         | None \<Rightarrow>
             ebind (first_recognised (screens C S X mgba buffers cb2 result)) (\<lambda>recognised.
               case recognised of
                 Some r \<Rightarrow> Inr r
               | None \<Rightarrow>
                   if md = Slow \<and> \<not> in_dialog then Inr (slow_choice_branch C S X mgba buffers result)
                   else if in_battle buffers then battle_branch B mgba E buffers result
                   else Inr (plain_dialog C S B X mgba buffers in_dialog dialog_read_safe result)))"

text \<open>\<open>_compute\<close> with the detectors of the source, and the same with the fast path taken
  out.  The script-context test, the scanner's text in battle and the target and move menus
  remain those of the environment.\<close>

definition classify ::
  "dialog_consts \<Rightarrow> screen_consts \<Rightarrow> battle_consts \<Rightarrow> detector_rest \<Rightarrow> live_reader \<Rightarrow>
   chain_env \<Rightarrow> dialog_buffers \<Rightarrow> mode \<Rightarrow> py_error + dialog_result" where
  "classify C S B X mgba E buffers md =
     (let cb2 = callback2 buffers AND 0xFFFFFFFF;
          w0 = window0_printer_active C mgba buffers;
          result0 = default_result (field_locked buffers) w0
      in ebind (compute_in_dialog E buffers w0) (\<lambda>in_dialog.
           let result = result0\<lparr>inDialog := in_dialog\<rparr> in
           if fast_path_guard C mgba buffers cb2 then Inr result
           else chain C S B X mgba E buffers md cb2 in_dialog result))"

definition classify_full_chain ::
  "dialog_consts \<Rightarrow> screen_consts \<Rightarrow> battle_consts \<Rightarrow> detector_rest \<Rightarrow> live_reader \<Rightarrow>
   chain_env \<Rightarrow> dialog_buffers \<Rightarrow> mode \<Rightarrow> py_error + dialog_result" where
  "classify_full_chain C S B X mgba E buffers md =
     (let cb2 = callback2 buffers AND 0xFFFFFFFF;
          w0 = window0_printer_active C mgba buffers;
          result0 = default_result (field_locked buffers) w0
      in ebind (compute_in_dialog E buffers w0) (\<lambda>in_dialog.
           let result = result0\<lparr>inDialog := in_dialog\<rparr> in
           chain C S B X mgba E buffers md cb2 in_dialog result))"

text \<open>The environment that stands for the detectors of the source in \<open>compute\<close>, where
  they raise nothing.\<close>

definition source_env ::
  "dialog_consts \<Rightarrow> screen_consts \<Rightarrow> battle_consts \<Rightarrow> detector_rest \<Rightarrow> live_reader \<Rightarrow>
   chain_env \<Rightarrow> dialog_buffers \<Rightarrow> chain_env" where
  "source_env C S B X mgba E buffers =
     (let cb2 = callback2 buffers AND 0xFFFFFFFF;
          in_dialog = or_else (compute_in_dialog E buffers (window0_printer_active C mgba buffers)) False;
          dialog_read_safe = (in_dialog \<or>
            is_new_game_birch_speech_active (task_consts C) S mgba (tasks_raw buffers))
      in E\<lparr>later_detectors := (\<lambda>result.
              or_else (first_recognised (screens C S X mgba buffers cb2 result)) None),
            slow_choice_menus := slow_choice_branch C S X mgba buffers,
            plain_text_fallback := plain_dialog C S B X mgba buffers in_dialog dialog_read_safe\<rparr>)"

subsection \<open>Conditions on a battle snapshot\<close>

text \<open>A buffer holds \<open>n\<close> bytes when it was captured, is not empty and is at least that
  long; the battle buffers are captured when each holds the size the branch asks for.\<close>

definition holds_bytes :: "pybytes option \<Rightarrow> int \<Rightarrow> bool" where
  "holds_bytes raw n = (case raw of None \<Rightarrow> False | Some bs \<Rightarrow> bs \<noteq> [] \<and> int (length bs) \<ge> n)"

definition battle_buffers_captured :: "battle_consts \<Rightarrow> dialog_buffers \<Rightarrow> bool" where
  "battle_buffers_captured B buffers \<longleftrightarrow>
     holds_bytes (battle_type_flags_raw buffers) 4 \<and>
     holds_bytes (battlers_count_raw buffers) 1 \<and>
     holds_bytes (absent_battlers_raw buffers) 1 \<and>
     holds_bytes (battler_positions_raw buffers) (BATTLE_MAX_BATTLERS B) \<and>
     holds_bytes (battle_mons_raw buffers) (GBATTLEMONS_SIZE B) \<and>
     holds_bytes (active_battler_raw buffers) 1 \<and>
     holds_bytes (battler_controller_funcs_raw buffers) (BATTLE_MAX_BATTLERS B * 4) \<and>
     holds_bytes (action_selection_cursor_raw buffers) (BATTLE_MAX_BATTLERS B) \<and>
     holds_bytes (move_selection_cursor_raw buffers) (BATTLE_MAX_BATTLERS B) \<and>
     holds_bytes (multi_use_player_cursor_raw buffers) 1 \<and>
     holds_bytes (battle_bg0_y_raw buffers) 2"

text \<open>No controller function in the list belongs to one of the three handler sets that
  the detector tries before the choose-action set.\<close>

definition no_higher_priority_match :: "battle_consts \<Rightarrow> int list \<Rightarrow> bool" where
  "no_higher_priority_match B funcs \<longleftrightarrow>
     list_all (\<lambda>f. \<not> ptr_matches_any f (BATTLE_PLAYER_HANDLE_YES_NO_INPUT_ADDRS B) \<and>
                   \<not> ptr_matches_any f (BATTLE_HANDLE_INPUT_CHOOSE_TARGET_ADDRS B) \<and>
                   \<not> ptr_matches_any f (BATTLE_HANDLE_INPUT_CHOOSE_MOVE_ADDRS B)) funcs"

section \<open>Concrete tables and snapshots\<close>

text \<open>
  A constant table for concrete evaluations.  The layouts are those of the observed game
  (tasks as above, thirty-two text printers of 36 bytes with the active flag at offset 27,
  the window sentinel 255, four battlers); the addresses are representative values, and
  nothing below depends on which ones they are, only on their being distinct.
\<close>

definition firered_consts :: dialog_consts where
  "firered_consts =
     \<lparr>task_consts = firered_tasks, WINDOW_NONE = 0xFF, TEXTPRINTER_SIZE = 0x24,
      TEXTPRINTER_ACTIVE_OFFSET = 0x1B, STEXTPRINTERS_ADDR = 0x02002F80,
      SSAVE_INFO_WINDOWID_ADDR = 0x02037104, GMAIN_ADDR = 0x030030F0,
      GMAIN_CALLBACK2_OFFSET = 4, CB2_OVERWORLD_ADDR = 0x080565B5,
      CB2_INIT_TITLE_SCREEN_ADDR = 0x08078915, CB2_TITLE_SCREEN_ADDR = 0x080789A1,
      TASK_TITLE_SCREEN_PHASE1_ADDR = 0x08078AC1, TASK_TITLE_SCREEN_PHASE2_ADDR = 0x08078BED,
      TASK_TITLE_SCREEN_PHASE3_ADDR = 0x08078C25\<rparr>"

definition firered_battle_consts :: battle_consts where
  "firered_battle_consts =
     \<lparr>BATTLE_MAX_BATTLERS = 4, BATTLE_TYPE_SAFARI = 0x80, DISPLAY_HEIGHT = 160,
      BATTLE_PLAYER_HANDLE_YES_NO_INPUT_ADDRS = [0x0802F6A9],
      BATTLE_HANDLE_INPUT_CHOOSE_TARGET_ADDRS = [0x0802E675],
      BATTLE_HANDLE_INPUT_CHOOSE_MOVE_ADDRS = [0x0802EA11],
      BATTLE_HANDLE_INPUT_CHOOSE_ACTION_ADDRS = [0x0802E439],
      GBATTLETYPEFLAGS_ADDR = 0x02022B4C, GBATTLERSCOUNT_ADDR = 0x02023BCC,
      GABSENTBATTLERFLAGS_ADDR = 0x02023BCE, GBATTLERPOSITIONS_ADDR = 0x02023BD0,
      GBATTLEMONS_ADDR = 0x02023BE4, GBATTLEMONS_SIZE = 352, GACTIVEBATTLER_ADDR = 0x02023BC4,
      GBATTLERCONTROLLERFUNCS_ADDR = 0x03004FE0, GACTIONSELECTIONCURSOR_ADDR = 0x02023FF8,
      GMOVESELECTIONCURSOR_ADDR = 0x02023FFC, GMULTIUSEPLAYERCURSOR_ADDR = 0x03004FF4,
      GBATTLE_BG0_Y_ADDR = 0x02022E16, GBATTLESCRIPTCURRINSTR_ADDR = 0x02023D74,
      GBATTLECOMMUNICATION_ADDR = 0x02023E82, GDISPLAYEDSTRINGBATTLE_ADDR = 0x0202298C,
      GDISPLAYEDSTRINGBATTLE_SIZE = 300\<rparr>"

text \<open>An environment in which none of the parameter detectors recognises a screen, the
  fallbacks leave the result as it is, and the scanner finds no text.\<close>

definition no_other_screen :: chain_env where
  "no_other_screen =
     \<lparr>waiting_for_a_or_b_press = Inr False, later_detectors = (\<lambda>r. None),
      slow_choice_menus = (\<lambda>r. r), plain_text_fallback = (\<lambda>r. r),
      battle_printer_text = None,
      battle_menus = \<lparr>target_ui = (\<lambda>n a p m b c. Inl TypeError),
                      moves_ui = (\<lambda>m b c. Inl TypeError)\<rparr>\<rparr>"

text \<open>The idle overworld: the overworld callback installed, field controls free, no
  battle, every text printer inactive, every window id the sentinel, no task active, an empty
  string in the dialog buffer, the quest log idle, no item storage open.\<close>

definition idle_overworld :: dialog_buffers where
  "idle_overworld =
     \<lparr>field_locked = False, in_battle = False, callback2 = 0x080565B5,
      tasks_raw = Some (replicate 640 0), text_printers_raw = Some (replicate 1152 0),
      start_menu_window_id = Some 0xFF, yesno_window_id = Some 0xFF,
      save_info_window_id = Some 0xFF, gdisplayedstringbattle_raw = None,
      battle_script_curr_instr_raw = None, battle_communication_raw = None,
      battle_type_flags_raw = None, battlers_count_raw = None, absent_battlers_raw = None,
      battler_positions_raw = None, battle_mons_raw = None, active_battler_raw = None,
      battler_controller_funcs_raw = None, action_selection_cursor_raw = None,
      move_selection_cursor_raw = None, multi_use_player_cursor_raw = None,
      battle_bg0_y_raw = None, gstringvar4_raw = Some [0xFF], quest_log_state_raw = Some [0],
      item_storage_menu_ptr_raw = Some [0, 0, 0, 0]\<rparr>"

text \<open>The same snapshot with task 0 active and running the third title-screen task.\<close>

definition overworld_with_title_task :: dialog_buffers where
  "overworld_with_title_task =
     idle_overworld\<lparr>tasks_raw := Some ([0x25, 0x8C, 0x07, 0x08, 0x01] @ replicate 635 0)\<rparr>"

text \<open>
  A battle snapshot: two battlers, none absent, no safari flag, every battle buffer
  captured; \<open>controller_funcs\<close> is the table of the four controller functions (sixteen
  bytes) and \<open>cursors\<close> the action-selection cursor table.
\<close>

definition battle_snapshot :: "pybytes \<Rightarrow> pybytes \<Rightarrow> dialog_buffers" where
  "battle_snapshot controller_funcs cursors =
     idle_overworld
       \<lparr>in_battle := True, callback2 := 0x08011101,
        gdisplayedstringbattle_raw := Some [0xFF],
        battle_script_curr_instr_raw := Some [0, 0, 0, 0],
        battle_communication_raw := Some [0, 0, 0, 0, 0, 0, 0, 0],
        battle_type_flags_raw := Some [0x04, 0, 0, 0],
        battlers_count_raw := Some [2],
        absent_battlers_raw := Some [0],
        battler_positions_raw := Some [0, 1, 2, 3],
        battle_mons_raw := Some (replicate 352 0),
        active_battler_raw := Some [0],
        battler_controller_funcs_raw := Some controller_funcs,
        action_selection_cursor_raw := Some cursors,
        move_selection_cursor_raw := Some [0, 0, 0, 0],
        multi_use_player_cursor_raw := Some [0],
        battle_bg0_y_raw := Some [0, 0]\<rparr>"

section \<open>Properties of the byte-field readers\<close>

lemma bytes_get_in_range:
  "0 \<le> i \<Longrightarrow> i < int (length raw) \<Longrightarrow> bytes_get raw i = Inr (uint (raw ! nat i))"
  by (simp add: bytes_get_def)

lemma u8_from_value:
  "u8_from raw offset =
     Inr (if offset < 0 \<or> int (length raw) < offset + 1 then 0 else uint (raw ! nat offset))"
  by (simp add: u8_from_def bytes_get_in_range)

lemma u16le_from_value:
  "u16le_from raw offset =
     Inr (if offset < 0 \<or> int (length raw) < offset + 2 then 0
          else uint (raw ! nat offset) OR push_bit 8 (uint (raw ! nat (offset + 1))))"
  by (simp add: u16le_from_def ebind_def bytes_get_in_range)

lemma u32le_from_value:
  "u32le_from raw offset =
     Inr (if offset < 0 \<or> int (length raw) < offset + 4 then 0
          else uint (raw ! nat offset) OR push_bit 8 (uint (raw ! nat (offset + 1)))
               OR push_bit 16 (uint (raw ! nat (offset + 2)))
               OR push_bit 24 (uint (raw ! nat (offset + 3))))"
  by (simp add: u32le_from_def ebind_def bytes_get_in_range)

text \<open>
  Claim C9.  The byte-field readers \<open>u8\<close>, \<open>u16le\<close> and \<open>u32le\<close> are total: for every
  slice and every integer offset they return a value and never raise, and the value is \<open>0\<close>
  whenever the offset is negative or \<open>offset + width\<close> exceeds the length of the slice.
\<close>

theorem byte_readers_total:
  "(\<exists>v. u8_from raw offset = Inr v) \<and>
   (\<exists>v. u16le_from raw offset = Inr v) \<and>
   (\<exists>v. u32le_from raw offset = Inr v) \<and>
   (offset < 0 \<or> offset + 1 > int (length raw) \<longrightarrow> u8_from raw offset = Inr 0) \<and>
   (offset < 0 \<or> offset + 2 > int (length raw) \<longrightarrow> u16le_from raw offset = Inr 0) \<and>
   (offset < 0 \<or> offset + 4 > int (length raw) \<longrightarrow> u32le_from raw offset = Inr 0)"
  by (simp add: u8_from_value u16le_from_value u32le_from_value)

theorem byte_readers_total_witness:
  "(\<exists>v. u8_from [1, 2, 3] 2 = Inr v) \<and>
   (\<exists>v. u16le_from [1, 2, 3] 2 = Inr v) \<and>
   (\<exists>v. u32le_from [1, 2, 3] 2 = Inr v) \<and>
   ((2::int) < 0 \<or> 2 + 2 > int (length [1, 2, 3 :: byte])) \<and>
   u16le_from [1, 2, 3] 2 = Inr 0 \<and>
   u32le_from [1, 2, 3] 2 = Inr 0 \<and>
   u8_from [1, 2, 3] 2 = Inr 3"
  using byte_readers_total [of "[1, 2, 3]" 2]
  by (simp add: u8_from_value)

section \<open>Properties of the text codec\<close>

lemma decode_loop_shift:
  "decode_loop raw m s i acc = acc @ decode_loop (drop i raw) (m - int i) s 0 []"
proof (induction "length raw - i" arbitrary: raw i acc m s rule: less_induct)
  case less
  show ?case
  proof (cases "i < length raw \<and> int i < m")
    case False
    then show ?thesis
      by (subst decode_loop.simps, subst (2) decode_loop.simps) auto
  next
    case True
    then have hd: "drop i raw ! 0 = raw ! i" by simp
    have e2: "m - int (Suc (Suc i)) = m - int i - 2" and e1: "m - int (Suc i) = m - int i - 1"
      by simp_all
    have lt2: "length raw - Suc (Suc i) < length raw - i" and lt1: "length raw - Suc i < length raw - i"
      using True by linarith+
    have step2: "decode_loop raw m t (Suc (Suc i)) a
        = a @ decode_loop (drop (Suc (Suc i)) raw) (m - int i - 2) t 0 []" for a t
      using less [OF lt2, where acc=a and m=m and s=t] unfolding e2 .
    have step1: "decode_loop raw m t (Suc i) a
        = a @ decode_loop (drop (Suc i) raw) (m - int i - 1) t 0 []" for a t
      using less [OF lt1, where acc=a and m=m and s=t] unfolding e1 .
    have d2: "drop (Suc (Suc 0)) (drop i raw) = drop (Suc (Suc i)) raw"
      and d1: "drop (Suc 0) (drop i raw) = drop (Suc i) raw"
      by simp_all
    have lr2: "length (drop i raw) - Suc (Suc 0) < length raw - i"
      and lr1: "length (drop i raw) - Suc 0 < length raw - i"
      using True by auto
    have r2: "decode_loop (drop i raw) (m - int i) t (Suc (Suc 0)) a
        = a @ decode_loop (drop (Suc (Suc i)) raw) (m - int i - 2) t 0 []" for a t
      using less [OF lr2, where acc=a and m="m - int i" and s=t] unfolding d2 by simp
    have r1: "decode_loop (drop i raw) (m - int i) t (Suc 0) a
        = a @ decode_loop (drop (Suc i) raw) (m - int i - 1) t 0 []" for a t
      using less [OF lr1, where acc=a and m="m - int i" and s=t] unfolding d1 by simp
    have L: "decode_loop raw m s i acc =
       (if raw ! i = TEXT_TERMINATOR then acc
         else if s \<and> raw ! i \<in> set PROMPT_CHARS then acc
         else if raw ! i = 0xFC \<or> raw ! i = 0xFD then decode_loop raw m s (i + 2) acc
         else (case map_of GBA_CHARMAP (raw ! i) of
                 Some char \<Rightarrow> decode_loop raw m s (i + 1) (acc @ [char])
               | None \<Rightarrow> decode_loop raw m s (i + 1) acc))"
      by (subst decode_loop.simps) (simp only: True if_True Let_def simp_thms)
    have condR: "0 < length (drop i raw) \<and> int 0 < m - int i"
      using True by simp
    have R: "decode_loop (drop i raw) (m - int i) s 0 [] =
       (if raw ! i = TEXT_TERMINATOR then []
         else if s \<and> raw ! i \<in> set PROMPT_CHARS then []
         else if raw ! i = 0xFC \<or> raw ! i = 0xFD then decode_loop (drop i raw) (m - int i) s (0 + 2) []
         else (case map_of GBA_CHARMAP (raw ! i) of
                 Some char \<Rightarrow> decode_loop (drop i raw) (m - int i) s (0 + 1) ([] @ [char])
               | None \<Rightarrow> decode_loop (drop i raw) (m - int i) s (0 + 1) []))"
      by (subst decode_loop.simps) (simp only: condR hd if_True Let_def simp_thms)
    show ?thesis
      unfolding L R
      by (simp add: step1 step2 r1 r2 split: option.splits)
  qed
qed

lemma decode_chars_Nil: "decode_chars [] m s = []"
  by (simp add: decode_chars_def decode_loop.simps)

lemma decode_chars_max: "m \<le> 0 \<Longrightarrow> decode_chars raw m s = []"
  by (simp add: decode_chars_def decode_loop.simps)

lemma decode_chars_Cons:
  "decode_chars (b # rest) m s =
     (if m \<le> 0 then []
      else if b = TEXT_TERMINATOR then []
      else if s \<and> b \<in> set PROMPT_CHARS then []
      else if b = 0xFC \<or> b = 0xFD then decode_chars (drop 1 rest) (m - 2) s
      else (case map_of GBA_CHARMAP b of
              Some c \<Rightarrow> c # decode_chars rest (m - 1) s
            | None \<Rightarrow> decode_chars rest (m - 1) s))"
proof -
  have s1: "decode_loop (b # rest) m s (0 + 1) a = a @ decode_chars rest (m - 1) s" for a
    using decode_loop_shift [of "b # rest" m s 1 a] by (simp add: decode_chars_def)
  have s2: "decode_loop (b # rest) m s (0 + 2) a = a @ decode_chars (drop 1 rest) (m - 2) s" for a
    using decode_loop_shift [of "b # rest" m s 2 a]
    by (simp add: decode_chars_def numeral_2_eq_2 drop_Suc)
  show ?thesis
    unfolding decode_chars_def [of "b # rest"]
    by (subst decode_loop.simps) (simp only: s1 s2, simp add: Let_def split: option.splits)
qed

lemma decode_chars_stop:
  "list_all (ordinary s) pre \<Longrightarrow>
   b = TEXT_TERMINATOR \<or> (s \<and> b \<in> set PROMPT_CHARS) \<Longrightarrow>
   decode_chars (pre @ b # rest) m s = decode_chars pre m s"
proof (induction pre arbitrary: m)
  case Nil
  then show ?case by (auto simp: decode_chars_Cons decode_chars_Nil)
next
  case (Cons a pre)
  then show ?case
    by (auto simp: decode_chars_Cons [of a] ordinary_def split: option.splits)
qed

lemma ordinary_whole_tokens: "list_all (ordinary s) pre \<Longrightarrow> whole_tokens s pre"
  by (induction s pre rule: whole_tokens.induct) (auto simp: ordinary_def)

lemma decode_chars_stop_general:
  "whole_tokens s pre \<Longrightarrow>
   b = TEXT_TERMINATOR \<or> (s \<and> b \<in> set PROMPT_CHARS) \<Longrightarrow>
   decode_chars (pre @ b # rest) m s = decode_chars pre m s"
proof (induction s pre arbitrary: m rule: whole_tokens.induct)
  case (1 s)
  then show ?case by (auto simp: decode_chars_Cons decode_chars_Nil)
next
  case (2 s a)
  then show ?case
    by (auto simp: decode_chars_Cons [of a] decode_chars_Cons [of b] decode_chars_Nil ordinary_def
        split: option.splits)
next
  case (3 s a x rest')
  show ?case
  proof (cases "a = 0xFC \<or> a = 0xFD")
    case True
    with 3 show ?thesis
      by (auto simp: decode_chars_Cons [of a] TEXT_TERMINATOR_def PROMPT_CHARS_def)
  next
    case False
    with 3 show ?thesis
      by (auto simp: decode_chars_Cons [of a] ordinary_def split: option.splits)
  qed
qed

lemma py_strip_Nil: "py_strip [] = []"
  by (simp add: py_strip_def)

lemma py_strip_prefix: "\<exists>k. py_strip xs = take k (dropWhile py_isspace xs)"
  by (metis py_strip_def dropWhile_eq_drop rev_drop rev_rev_ident)

lemma py_strip_hd:
  assumes "py_strip xs \<noteq> []"
  shows "\<not> py_isspace (hd (py_strip xs))"
proof -
  obtain k where k: "py_strip xs = take k (dropWhile py_isspace xs)"
    using py_strip_prefix by blast
  with assms have ne: "dropWhile py_isspace xs \<noteq> []" and "k \<noteq> 0" by auto
  then have "hd (py_strip xs) = hd (dropWhile py_isspace xs)"
    by (simp add: k)
  with ne show ?thesis by (simp add: hd_dropWhile)
qed

lemma py_strip_last:
  assumes "py_strip xs \<noteq> []"
  shows "\<not> py_isspace (last (py_strip xs))"
proof -
  let ?ys = "dropWhile py_isspace (rev (dropWhile py_isspace xs))"
  have ne: "?ys \<noteq> []" using assms by (simp add: py_strip_def)
  have "last (py_strip xs) = hd ?ys"
    using ne by (simp add: py_strip_def last_rev)
  with ne show ?thesis by (simp add: hd_dropWhile)
qed


text \<open>
  Claim C8.  The decoded string is the stripped output of the loop, and the loop is determined
  byte by byte.  It stops at the terminator byte \<open>0xFF\<close> and, when \<open>stop_at_prompt\<close>
  is set, at either prompt byte, wherever it reaches one: after any prefix of whole tokens
  (ordinary bytes and control sequences) the rest of the input does not matter.  A control byte
  \<open>0xFC\<close> or \<open>0xFD\<close> is consumed together with its operand and contributes
  nothing; an ordinary byte contributes its table entry, or nothing when it has none, and
  decoding goes on with the next byte.  In particular a slice that starts with the terminator
  decodes to the empty string, and so does \<open>[prompt, 'A']\<close> with \<open>stop_at_prompt\<close>
  set.
\<close>

theorem decode_gba_string_stops_and_skips:
  "decode_gba_string raw m s = py_strip (decode_chars raw m s) \<and>
   decode_chars [] m s = [] \<and>
   (m \<le> 0 \<longrightarrow> decode_chars raw m s = []) \<and>
   (whole_tokens s pre \<and> (b = TEXT_TERMINATOR \<or> s \<and> b \<in> set PROMPT_CHARS) \<longrightarrow>
      decode_chars (pre @ b # rest) m s = decode_chars pre m s \<and>
      decode_gba_string (pre @ b # rest) m s = decode_gba_string pre m s) \<and>
   (list_all (ordinary s) pre \<and> (b = TEXT_TERMINATOR \<or> s \<and> b \<in> set PROMPT_CHARS) \<longrightarrow>
      decode_gba_string (pre @ b # rest) m s = decode_gba_string pre m s) \<and>
   (c = 0xFC \<or> c = 0xFD \<longrightarrow>
      decode_chars (c # operand # rest) m s = decode_chars rest (m - 2) s \<and>
      decode_chars [c] m s = []) \<and>
   (0 < m \<and> ordinary s u \<and> map_of GBA_CHARMAP u = Some ch \<longrightarrow>
      decode_chars (u # rest) m s = ch # decode_chars rest (m - 1) s) \<and>
   (ordinary s u \<and> map_of GBA_CHARMAP u = None \<longrightarrow>
      decode_chars (u # rest) m s = decode_chars rest (m - 1) s) \<and>
   decode_gba_string (TEXT_TERMINATOR # rest) m s = [] \<and>
   (p \<in> set PROMPT_CHARS \<longrightarrow> decode_gba_string [p, 0xBB] m True = [])"
proof -
  have strip: "decode_gba_string raw m s = py_strip (decode_chars raw m s)"
    by (simp add: decode_gba_string_def)
  have empty: "decode_chars [] m s = []"
    by (rule decode_chars_Nil)
  have limit: "m \<le> 0 \<longrightarrow> decode_chars raw m s = []"
    by (simp add: decode_chars_max)
  have reach: "whole_tokens s pre \<and> (b = TEXT_TERMINATOR \<or> s \<and> b \<in> set PROMPT_CHARS) \<longrightarrow>
      decode_chars (pre @ b # rest) m s = decode_chars pre m s \<and>
      decode_gba_string (pre @ b # rest) m s = decode_gba_string pre m s"
    by (simp add: decode_gba_string_def decode_chars_stop_general)
  have stops: "list_all (ordinary s) pre \<and> (b = TEXT_TERMINATOR \<or> s \<and> b \<in> set PROMPT_CHARS) \<longrightarrow>
      decode_gba_string (pre @ b # rest) m s = decode_gba_string pre m s"
    by (simp add: decode_gba_string_def decode_chars_stop)
  have ctrl: "c = 0xFC \<or> c = 0xFD \<longrightarrow>
      decode_chars (c # operand # rest) m s = decode_chars rest (m - 2) s \<and>
      decode_chars [c] m s = []"
    by (auto simp: decode_chars_Cons [of c] decode_chars_Nil decode_chars_max
          TEXT_TERMINATOR_def PROMPT_CHARS_def)
  have mapped: "0 < m \<and> ordinary s u \<and> map_of GBA_CHARMAP u = Some ch \<longrightarrow>
      decode_chars (u # rest) m s = ch # decode_chars rest (m - 1) s"
    by (auto simp: decode_chars_Cons [of u] ordinary_def)
  have unmapped: "ordinary s u \<and> map_of GBA_CHARMAP u = None \<longrightarrow>
      decode_chars (u # rest) m s = decode_chars rest (m - 1) s"
    by (auto simp: decode_chars_Cons [of u] ordinary_def decode_chars_max)
  have tfirst: "decode_gba_string (TEXT_TERMINATOR # rest) m s = []"
    by (simp add: decode_gba_string_def decode_chars_Cons py_strip_Nil)
  have pfirst: "p \<in> set PROMPT_CHARS \<longrightarrow> decode_gba_string [p, 0xBB] m True = []"
    by (simp add: decode_gba_string_def decode_chars_Cons [of p] py_strip_Nil)
  from strip empty limit reach stops ctrl mapped unmapped tfirst pfirst show ?thesis by blast
qed

text \<open>The theorem at the text \<open>A\<close>, a control sequence, the terminator and \<open>B\<close>, and at
  inputs for the other parts.\<close>

theorem decode_gba_string_stops_and_skips_witness:
  "whole_tokens True [0xBB, 0xFC, 0x01] \<and> (0xFA :: byte) \<in> set PROMPT_CHARS \<and>
   decode_chars ([0xBB, 0xFC, 0x01] @ TEXT_TERMINATOR # [0xBC]) 500 True = [65] \<and>
   decode_gba_string ([0xBB, 0xFC, 0x01] @ TEXT_TERMINATOR # [0xBC]) 500 True = [65] \<and>
   decode_gba_string ([0xBB, 0xFC, 0x01] @ 0xFA # [0xBC]) 500 True = [65] \<and>
   list_all (ordinary True) [0xBB, 0x01] \<and>
   decode_gba_string ([0xBB, 0x01] @ 0xFA # [0xBC]) 500 True = decode_gba_string [0xBB, 0x01] 500 True \<and>
   decode_gba_string [0xBB, 0x01] 500 True = [65] \<and>
   decode_chars (0xFC # 0xFF # [0xBC]) 500 True = decode_chars [0xBC] (500 - 2) True \<and>
   decode_chars [0xBC] 498 True = [66] \<and>
   (0 :: int) < 500 \<and> ordinary True 0xBB \<and> map_of GBA_CHARMAP (0xBB :: byte) = Some 65 \<and>
   decode_chars (0xBB # [0xBC]) 500 True = 65 # decode_chars [0xBC] (500 - 1) True \<and>
   ordinary True 0x01 \<and> map_of GBA_CHARMAP (0x01 :: byte) = None \<and>
   decode_chars (0x01 # [0xBC]) 500 True = decode_chars [0xBC] (500 - 1) True \<and>
   decode_gba_string (TEXT_TERMINATOR # [0xBC]) 500 True = [] \<and>
   decode_gba_string [0xFA, 0xBB] 500 True = []"
  using decode_gba_string_stops_and_skips
          [where s = True and pre = "[0xBB, 0xFC, 0x01]" and b = TEXT_TERMINATOR and rest = "[0xBC]"
             and m = 500 and c = "0xFC" and operand = "0xFF" and u = "0xBB" and ch = 65
             and p = "0xFA" and raw = "[]"]
        decode_gba_string_stops_and_skips
          [where s = True and pre = "[0xBB, 0xFC, 0x01]" and b = "0xFA" and rest = "[0xBC]"
             and m = 500 and c = "0xFC" and operand = "0xFF" and u = "0x01" and ch = 65
             and p = "0xFA" and raw = "[]"]
        decode_gba_string_stops_and_skips
          [where s = True and pre = "[0xBB, 0x01]" and b = "0xFA" and rest = "[0xBC]"
             and m = 500 and c = "0xFC" and operand = "0xFF" and u = "0x01" and ch = 65
             and p = "0xFA" and raw = "[]"]
  by (simp add: ordinary_def TEXT_TERMINATOR_def PROMPT_CHARS_def GBA_CHARMAP_def
        decode_gba_string_def decode_chars_Cons decode_chars_Nil py_strip_def py_isspace_def)

text \<open>
  Claim C10.  The decoded string is stripped: whatever the input bytes, a non-empty result
  neither begins nor ends with a whitespace character, in particular not with the space
  (code point 32, byte \<open>0x00\<close>) or the newline (code point 10, byte \<open>0xFE\<close>).
\<close>

theorem decode_gba_string_stripped:
  "decode_gba_string raw m s \<noteq> [] \<longrightarrow>
     \<not> py_isspace (hd (decode_gba_string raw m s)) \<and>
     \<not> py_isspace (last (decode_gba_string raw m s)) \<and>
     hd (decode_gba_string raw m s) \<notin> {32, 10} \<and>
     last (decode_gba_string raw m s) \<notin> {32, 10}"
proof
  assume ne: "decode_gba_string raw m s \<noteq> []"
  then have h: "\<not> py_isspace (hd (decode_gba_string raw m s))"
    and l: "\<not> py_isspace (last (decode_gba_string raw m s))"
    by (simp_all add: decode_gba_string_def py_strip_hd py_strip_last)
  have sp: "py_isspace 32" "py_isspace 10" by (simp_all add: py_isspace_def)
  from h l sp show "\<not> py_isspace (hd (decode_gba_string raw m s)) \<and>
     \<not> py_isspace (last (decode_gba_string raw m s)) \<and>
     hd (decode_gba_string raw m s) \<notin> {32, 10} \<and>
     last (decode_gba_string raw m s) \<notin> {32, 10}"
    by auto
qed

theorem decode_gba_string_stripped_witness:
  "decode_chars [0x00, 0xFE, 0xBB, 0x00, 0xBC, 0xFE, 0x00, 0xFF] 500 False
     = [32, 10, 65, 32, 66, 10, 32] \<and>
   decode_gba_string [0x00, 0xFE, 0xBB, 0x00, 0xBC, 0xFE, 0x00, 0xFF] 500 False = [65, 32, 66] \<and>
   decode_gba_string [0x00, 0xFE, 0xBB, 0x00, 0xBC, 0xFE, 0x00, 0xFF] 500 False \<noteq> [] \<and>
   hd (decode_gba_string [0x00, 0xFE, 0xBB, 0x00, 0xBC, 0xFE, 0x00, 0xFF] 500 False) \<notin> {32, 10} \<and>
   last (decode_gba_string [0x00, 0xFE, 0xBB, 0x00, 0xBC, 0xFE, 0x00, 0xFF] 500 False) \<notin> {32, 10}"
  using decode_gba_string_stripped [of "[0x00, 0xFE, 0xBB, 0x00, 0xBC, 0xFE, 0x00, 0xFF]" 500 False]
  by (simp add: TEXT_TERMINATOR_def PROMPT_CHARS_def GBA_CHARMAP_def
        decode_gba_string_def decode_chars_Cons decode_chars_Nil py_strip_def py_isspace_def)
section \<open>Properties of the selection index\<close>

lemma bag_selected_index_clamp:
  "0 \<le> tot \<Longrightarrow>
   bag_selected_index scroll row tot = clamp (max 0 scroll + max 0 row) 0 (tot - 1)"
  by (auto simp: bag_selected_index_def clamp_def Let_def max_def min_def)

lemma tm_case_selected_index_clamp:
  "0 < tot \<Longrightarrow>
   tm_case_selected_index scroll row tot = clamp (max 0 scroll + max 0 row) 0 (tot - 1)"
  by (auto simp: tm_case_selected_index_def clamp_def Let_def max_def min_def)

lemma bag_selected_index_range:
  "0 < tot \<Longrightarrow> 0 \<le> bag_selected_index x y tot \<and> bag_selected_index x y tot < tot"
  by (auto simp: bag_selected_index_def Let_def)

lemma tm_case_selected_index_range:
  "0 < tot \<Longrightarrow> 0 \<le> tm_case_selected_index x y tot \<and> tm_case_selected_index x y tot < tot"
  by (auto simp: tm_case_selected_index_def Let_def)

lemma bag_selected_index_nonneg:
  "0 \<le> a \<Longrightarrow> 0 \<le> b \<Longrightarrow> 0 \<le> tot \<Longrightarrow>
   (a + b < tot \<longrightarrow> bag_selected_index a b tot = a + b) \<and>
   bag_selected_index a b tot = clamp (a + b) 0 (tot - 1)"
  by (auto simp: bag_selected_index_def clamp_def Let_def max_def min_def)

lemma tm_case_selected_index_nonneg:
  "0 \<le> a \<Longrightarrow> 0 \<le> b \<Longrightarrow> 0 < tot \<Longrightarrow>
   (a + b < tot \<longrightarrow> tm_case_selected_index a b tot = a + b) \<and>
   tm_case_selected_index a b tot = clamp (a + b) 0 (tot - 1)"
  by (auto simp: tm_case_selected_index_def clamp_def Let_def max_def min_def)

text \<open>
  Claim C5.  The scroll offset and the cursor row are unsigned 16-bit fields of the observed
  process.  For all values of the two fields and every list of \<open>total \<ge> 0\<close> entries, the
  selected index of the bag and of the TM case lies in \<open>[0, total)\<close> when \<open>total > 0\<close>,
  equals \<open>scroll + row\<close> when that sum is already in range, and is
  \<open>clamp (scroll + row) 0 (total - 1)\<close>.  The bag list has \<open>total \<ge> 0\<close> entries
  (\<open>total\<close> is any such number: take \<open>n = total\<close> stacks and no CANCEL row), the TM case
  list at least one.  The range bound holds for arbitrary integer inputs as well.
\<close>

theorem selected_index_clamped:
  "(let tot = bag_total_entries n hide;
        sel = bag_selected_index (uint (scroll :: 16 word)) (uint (row :: 16 word)) tot in
      0 \<le> tot \<and>
      (0 < tot \<longrightarrow> 0 \<le> sel \<and> sel < tot) \<and>
      (uint scroll + uint row < tot \<longrightarrow> sel = uint scroll + uint row) \<and>
      sel = clamp (uint scroll + uint row) 0 (tot - 1) \<and>
      (0 < tot \<longrightarrow> 0 \<le> bag_selected_index x y tot \<and> bag_selected_index x y tot < tot)) \<and>
   (let tot = tm_case_total_entries k;
        sel = tm_case_selected_index (uint scroll) (uint row) tot in
      0 < tot \<and> 0 \<le> sel \<and> sel < tot \<and>
      (uint scroll + uint row < tot \<longrightarrow> sel = uint scroll + uint row) \<and>
      sel = clamp (uint scroll + uint row) 0 (tot - 1) \<and>
      0 \<le> tm_case_selected_index x y tot \<and> tm_case_selected_index x y tot < tot)"
proof -
  have b0: "0 \<le> bag_total_entries n hide"
    by (simp add: bag_total_entries_def Let_def)
  have t0: "0 < tm_case_total_entries k"
    by (simp add: tm_case_total_entries_def Let_def)
  note bag = bag_selected_index_nonneg [OF uint_ge_0 uint_ge_0 b0, of scroll row]
  note tm = tm_case_selected_index_nonneg [OF uint_ge_0 uint_ge_0 t0, of scroll row]
  note br = bag_selected_index_range [of "bag_total_entries n hide"]
  note tr = tm_case_selected_index_range [OF t0]
  from b0 t0 bag tm br [of "uint scroll" "uint row"] br [of x y]
    tr [of "uint scroll" "uint row"] tr [of x y]
  show ?thesis unfolding Let_def by blast
qed

theorem selected_index_clamped_witness:
  "bag_total_entries 9 False = 10 \<and> tm_case_total_entries 9 = 10 \<and>
   uint (3 :: 16 word) + uint (4 :: 16 word) < 10 \<and>
   bag_selected_index (uint (3 :: 16 word)) (uint (4 :: 16 word)) 10 = 7 \<and>
   tm_case_selected_index (uint (3 :: 16 word)) (uint (4 :: 16 word)) 10 = 7 \<and>
   clamp (uint (3 :: 16 word) + uint (4 :: 16 word)) 0 (10 - 1) = 7 \<and>
   bag_selected_index (- 3) 12 10 = 9 \<and> tm_case_selected_index (- 3) 12 10 = 9"
  using selected_index_clamped [of 9 False 3 4 "- 3" 12 9]
  by (simp add: bag_total_entries_def tm_case_total_entries_def bag_selected_index_def
        tm_case_selected_index_def clamp_def Let_def)
section \<open>Properties of the memory readers\<close>

lemma bisect_right_loop_sorted:
  "sorted a \<Longrightarrow> lo \<le> hi \<Longrightarrow> hi \<le> length a \<Longrightarrow>
   (\<forall>k<lo. a ! k \<le> x) \<Longrightarrow> (\<forall>k. hi \<le> k \<and> k < length a \<longrightarrow> x < a ! k) \<Longrightarrow>
   bisect_right_loop a x lo hi \<le> length a \<and>
   (\<forall>k < bisect_right_loop a x lo hi. a ! k \<le> x) \<and>
   (\<forall>k. bisect_right_loop a x lo hi \<le> k \<and> k < length a \<longrightarrow> x < a ! k)"
proof (induction a x lo hi rule: bisect_right_loop.induct)
  case (1 a x lo hi)
  show ?case
  proof (cases "lo < hi")
    case False
    with "1.prems" show ?thesis
      by (subst (1 2 3) bisect_right_loop.simps) auto
  next
    case True
    define mid where "mid = (lo + hi) div 2"
    have mid: "lo \<le> mid" "mid < hi" using True by (auto simp: mid_def)
    show ?thesis
    proof (cases "x < a ! mid")
      case lt: True
      have up: "\<forall>k. mid \<le> k \<and> k < length a \<longrightarrow> x < a ! k"
      proof (intro allI impI)
        fix k assume k: "mid \<le> k \<and> k < length a"
        then have "a ! mid \<le> a ! k" using "1.prems"(1) by (simp add: sorted_nth_mono)
        with lt show "x < a ! k" by simp
      qed
      have eq: "bisect_right_loop a x lo hi = bisect_right_loop a x lo mid"
        using True lt by (subst bisect_right_loop.simps) (simp add: mid_def Let_def)
      show ?thesis
        unfolding eq
        using "1.IH"(1) [OF True mid_def lt "1.prems"(1)] mid "1.prems" up
        by simp
    next
      case ge: False
      have low: "\<forall>k<mid + 1. a ! k \<le> x"
      proof (intro allI impI)
        fix k assume k: "k < mid + 1"
        then have "a ! k \<le> a ! mid" using "1.prems"(1,3) mid by (simp add: sorted_nth_mono)
        with ge show "a ! k \<le> x" by simp
      qed
      have eq: "bisect_right_loop a x lo hi = bisect_right_loop a x (mid + 1) hi"
        using True ge by (subst bisect_right_loop.simps) (simp add: mid_def Let_def)
      show ?thesis
        unfolding eq
        using "1.IH"(2) [OF True mid_def ge "1.prems"(1)] mid "1.prems" low
        by simp
    qed
  qed
qed

lemma le16_below_mask: "(uint (a::byte) OR push_bit 8 (uint (b::byte))) AND 0xFFFF = uint a OR push_bit 8 (uint b)"
proof -
  have m: "(0xFFFF::int) = mask 16" by (simp add: mask_eq_exp_minus_1)
  show ?thesis
    unfolding m
    by (rule bit_eqI) (auto simp: bit_simps dest: bit_imp_le_length)
qed

lemma le32_below_mask: "(uint (a::byte) OR push_bit 8 (uint (b::byte)) OR push_bit 16 (uint (c::byte)) OR push_bit 24 (uint (d::byte))) AND 0xFFFFFFFF
   = uint a OR push_bit 8 (uint b) OR push_bit 16 (uint c) OR push_bit 24 (uint d)"
proof -
  have m: "(0xFFFFFFFF::int) = mask 32" by (simp add: mask_eq_exp_minus_1)
  show ?thesis
    unfolding m
    by (rule bit_eqI) (auto simp: bit_simps dest: bit_imp_le_length)
qed

lemma byte_below_mask: "uint (a::byte) AND 0xFF = uint a"
proof -
  have m: "(0xFF::int) = mask 8" by (simp add: mask_eq_exp_minus_1)
  show ?thesis
    unfolding m
    by (rule bit_eqI) (auto simp: bit_simps dest: bit_imp_le_length)
qed


lemma bisect_right_sorted:
  assumes "sorted a"
  shows "bisect_right a x \<le> length a"
    and "\<And>k. k < bisect_right a x \<Longrightarrow> a ! k \<le> x"
    and "\<And>k. bisect_right a x \<le> k \<Longrightarrow> k < length a \<Longrightarrow> x < a ! k"
  using bisect_right_loop_sorted [of a 0 "length a" x] assms
  by (auto simp: bisect_right_def)

lemma segment_for_sound:
  assumes "segment_for R addr sz = Inr (seg, off)"
  shows "1 \<le> sz \<and> seg \<in> set (segments R) \<and> off = addr - seg_start seg \<and>
         seg_start seg \<le> addr \<and> addr + sz \<le> seg_end seg"
  using assms
  by (auto simp: segment_for_def Let_def split: if_splits)

lemma segment_for_fails:
  "segment_for R addr sz = Inl e \<Longrightarrow> e = KeyError"
  by (auto simp: segment_for_def Let_def split: if_splits)

lemma segments_apart_nth:
  "segments_apart segs \<Longrightarrow> i < length segs \<Longrightarrow> j < length segs \<Longrightarrow> i \<noteq> j \<Longrightarrow>
   \<not> (seg_start (segs ! i) \<le> seg_start (segs ! j) \<and> seg_start (segs ! j) < seg_end (segs ! i))"
proof (induction segs arbitrary: i j)
  case Nil
  then show ?case by simp
next
  case (Cons s rest)
  show ?case
  proof (cases i)
    case 0
    with Cons.prems obtain j' where j': "j = Suc j'" "j' < length rest"
      by (cases j) auto
    with 0 Cons.prems(1) show ?thesis
      by (auto simp: list_all_length)
  next
    case (Suc i')
    show ?thesis
    proof (cases j)
      case 0
      with Suc Cons.prems(1,2) show ?thesis
        by (auto simp: list_all_length)
    next
      case (Suc j')
      with \<open>i = Suc i'\<close> Cons.prems Cons.IH [of i' j'] show ?thesis
        by auto
    qed
  qed
qed

lemma segment_for_shorter:
  "segment_for R addr n = Inr (t, off) \<Longrightarrow> 1 \<le> m \<Longrightarrow> addr + m \<le> seg_end t \<Longrightarrow>
   segment_for R addr m = Inr (t, off)"
  by (auto simp: segment_for_def Let_def split: if_splits)

lemma segment_for_apart:
  assumes st: "starts R = map seg_start (segments R)"
    and so: "sorted (starts R)"
    and ap: "segments_apart (segments R)"
    and j: "j < length (segments R)"
    and lo: "seg_start (segments R ! j) \<le> addr"
    and hi: "addr + sz \<le> seg_end (segments R ! j)"
    and sz: "1 \<le> sz"
  shows "segment_for R addr sz = Inr (segments R ! j, addr - seg_start (segments R ! j))"
proof -
  let ?a = "starts R" and ?segs = "segments R"
  let ?r = "bisect_right ?a addr"
  have len: "length ?a = length ?segs" by (simp add: st)
  have aj: "?a ! j = seg_start (?segs ! j)" using j by (simp add: st)
  have jr: "j < ?r"
  proof (rule ccontr)
    assume "\<not> j < ?r"
    then have "addr < ?a ! j"
      using bisect_right_sorted(3) [OF so, of addr j] j len by simp
    with lo aj show False by simp
  qed
  define i where "i = ?r - 1"
  have ir: "i < ?r" "j \<le> i" "i < length ?segs"
    using jr bisect_right_sorted(1) [OF so, of addr] len by (auto simp: i_def)
  have ai: "seg_start (?segs ! i) \<le> addr"
    using bisect_right_sorted(2) [OF so ir(1)] ir(3) by (simp add: st)
  have ij: "i = j"
  proof (rule ccontr)
    assume ne: "i \<noteq> j"
    have mono: "seg_start (?segs ! j) \<le> seg_start (?segs ! i)"
      using so ir(2,3) j sorted_nth_mono [of ?a j i] by (simp add: st)
    have "seg_start (?segs ! i) < seg_end (?segs ! j)"
      using ai hi sz by simp
    with mono segments_apart_nth [OF ap j ir(3)] ne show False by auto
  qed
  have iint: "int ?r - 1 = int i" using jr by (simp add: i_def)
  show ?thesis
    using sz ir(3) lo hi
    by (simp add: segment_for_def Let_def iint ij)
qed

lemma apart_reaches:
  assumes st: "starts R = map seg_start (segments R)"
    and so: "sorted (starts R)"
    and ap: "segments_apart (segments R)"
  shows "search_reaches R"
proof -
  have "case segment_for R a 1 of Inl e \<Rightarrow> False | Inr (t, off) \<Rightarrow> seg_end s \<le> seg_end t"
    if s: "s \<in> set (segments R)" and a: "a \<in> set [seg_start s..seg_end s - 1]" for s a
  proof -
    from s obtain j where j: "j < length (segments R)" "segments R ! j = s"
      by (auto simp: in_set_conv_nth)
    have "segment_for R a 1 = Inr (s, a - seg_start s)"
      using segment_for_apart [OF st so ap j(1), of a 1] a j(2) by simp
    then show ?thesis by simp
  qed
  then show ?thesis
    by (simp add: search_reaches_def list_all_iff)
qed

lemma covered_iff:
  "covered R addr sz \<longleftrightarrow>
     (\<exists>j < length (segments R). seg_start (segments R ! j) \<le> addr \<and> addr + sz \<le> seg_end (segments R ! j))"
  by (simp add: covered_def list_ex_length)


lemma from_ranges_starts: "starts (from_ranges rs cs) = map seg_start (segments (from_ranges rs cs))"
  by (simp add: from_ranges_def Let_def)

lemma from_ranges_sorted: "sorted (starts (from_ranges rs cs))"
  by (simp add: from_ranges_def Let_def)

lemma from_ranges_set:
  "set (segments (from_ranges rs cs)) =
     {\<lparr>seg_start = a, seg_data = c\<rparr> | a n c. ((a, n), Some c) \<in> set (zip rs cs) \<and> a \<noteq> 0}"
  by (auto simp: from_ranges_def Let_def List.map_filter_def image_iff split: option.splits if_splits)
     force+

lemma mem_bytes_length: "length (mem_bytes mem a n) = nat n"
  by (simp add: mem_bytes_def)

lemma mem_bytes_nth: "k < nat n \<Longrightarrow> mem_bytes mem a n ! k = mem (a + int k)"
  by (simp add: mem_bytes_def)

lemma capture_backed: "snapshot_backed_by mem (capture mem ranges)"
proof -
  have "seg_data s = mem_bytes mem (seg_start s) (int (length (seg_data s)))"
    if "s \<in> set (segments (capture mem ranges))" for s
  proof -
    from that obtain a n where "s = \<lparr>seg_start = a, seg_data = mem_bytes mem a n\<rparr>"
      unfolding capture_def from_ranges_set
      by (auto simp: zip_map2 zip_same_conv_map split: prod.splits)
    then show ?thesis by (simp add: mem_bytes_def)
  qed
  then show ?thesis by (simp add: snapshot_backed_by_def list_all_iff)
qed

lemma py_slice_in_range:
  "0 \<le> lo \<Longrightarrow> lo \<le> hi \<Longrightarrow> hi \<le> int (length d) \<Longrightarrow>
   py_slice d lo hi = drop (nat lo) (take (nat hi) d)"
  by (simp add: py_slice_def Let_def min_def)

lemma mem_bytes_slice:
  assumes "0 \<le> off" "0 \<le> sz" "off + sz \<le> n"
  shows "drop (nat off) (take (nat (off + sz)) (mem_bytes mem a n)) = mem_bytes mem (a + off) sz"
proof (rule nth_equalityI)
  show "length (drop (nat off) (take (nat (off + sz)) (mem_bytes mem a n))) = length (mem_bytes mem (a + off) sz)"
    using assms by (simp add: mem_bytes_length)
next
  fix i assume "i < length (drop (nat off) (take (nat (off + sz)) (mem_bytes mem a n)))"
  then have i: "i < nat sz" using assms by (simp add: mem_bytes_length)
  then have "nat off + i < nat n" using assms by linarith
  then show "drop (nat off) (take (nat (off + sz)) (mem_bytes mem a n)) ! i = mem_bytes mem (a + off) sz ! i"
    using assms i by (simp add: mem_bytes_nth mem_bytes_length add.assoc)
qed


lemma segment_for_uncovered:
  "\<not> covered R addr sz \<Longrightarrow> segment_for R addr sz = Inl KeyError"
proof (cases "segment_for R addr sz")
  case (Inl e)
  then show ?thesis using segment_for_fails by blast
next
  case (Inr p)
  assume nc: "\<not> covered R addr sz"
  obtain seg off where "p = (seg, off)" by (cases p)
  with Inr segment_for_sound [of R addr sz seg off] have "covered R addr sz"
    by (auto simp: covered_def list_ex_iff)
  with nc show ?thesis by simp
qed

lemma segment_for_covered:
  assumes "search_reaches R" "covered R addr sz" "1 \<le> sz"
  shows "\<exists>s. s \<in> set (segments R) \<and> seg_start s \<le> addr \<and> addr + sz \<le> seg_end s \<and>
             segment_for R addr sz = Inr (s, addr - seg_start s)"
proof -
  from assms(2) obtain h where h: "h \<in> set (segments R)"
      "seg_start h \<le> addr" "addr + sz \<le> seg_end h"
    by (auto simp: covered_def list_ex_iff)
  then have "addr \<in> set [seg_start h..seg_end h - 1]"
    using assms(3) by simp
  with assms(1) h(1) have
    c: "case segment_for R addr 1 of Inl e \<Rightarrow> False | Inr (t, off) \<Rightarrow> seg_end h \<le> seg_end t"
    by (simp add: search_reaches_def list_all_iff)
  then obtain t off where t: "segment_for R addr 1 = Inr (t, off)" "seg_end h \<le> seg_end t"
    by (auto split: sum.splits)
  from segment_for_sound [OF t(1)] have snd: "t \<in> set (segments R)" "off = addr - seg_start t"
      "seg_start t \<le> addr"
    by simp_all
  have "segment_for R addr sz = Inr (t, off)"
    using segment_for_shorter [OF t(1) assms(3)] h(3) t(2) by simp
  with snd h(3) t(2) show ?thesis
    by (intro exI [of _ t]) simp
qed

lemma reaches_necessary:
  assumes "\<forall>a n. 1 \<le> n \<and> covered R a n \<longrightarrow> (\<exists>bs. snap_read_bytes R a n = Inr bs)"
  shows "search_reaches R"
proof -
  have "case segment_for R a 1 of Inl e \<Rightarrow> False | Inr (t, off) \<Rightarrow> seg_end s \<le> seg_end t"
    if s: "s \<in> set (segments R)" and a: "a \<in> set [seg_start s..seg_end s - 1]" for s a
  proof -
    let ?n = "seg_end s - a"
    have n: "1 \<le> ?n" "seg_start s \<le> a" using a by simp_all
    have "covered R a ?n"
      using s n(2) by (auto simp: covered_def list_ex_iff)
    with assms n(1) obtain bs where "snap_read_bytes R a ?n = Inr bs" by blast
    then obtain t off where t: "segment_for R a ?n = Inr (t, off)"
      by (cases "segment_for R a ?n") (auto simp: snap_read_bytes_def ebind_def)
    from segment_for_sound [OF t] have e: "seg_end s \<le> seg_end t" by simp
    have "segment_for R a 1 = Inr (t, off)"
      using segment_for_shorter [OF t, of 1] e n(1) by simp
    with e show ?thesis by simp
  qed
  then show ?thesis
    by (simp add: search_reaches_def list_all_iff)
qed

lemma snap_read_bytes_iff:
  assumes "search_reaches R" "1 \<le> sz"
  shows "(\<exists>bs. snap_read_bytes R addr sz = Inr bs) \<longleftrightarrow> covered R addr sz"
proof
  assume "\<exists>bs. snap_read_bytes R addr sz = Inr bs"
  then show "covered R addr sz"
    using segment_for_uncovered [of R addr sz]
    by (cases "covered R addr sz") (auto simp: snap_read_bytes_def ebind_def)
next
  assume "covered R addr sz"
  from segment_for_covered [OF assms(1) this assms(2)]
  show "\<exists>bs. snap_read_bytes R addr sz = Inr bs"
    by (auto simp: snap_read_bytes_def ebind_def)
qed

lemma snap_u8_covered:
  assumes "search_reaches R" "covered R addr 1"
  shows "\<exists>s \<in> set (segments R). seg_start s \<le> addr \<and> addr + 1 \<le> seg_end s \<and>
           snap_u8 R addr = Inr (uint (seg_data s ! nat (addr - seg_start s)))"
proof -
  from segment_for_covered [OF assms, simplified] obtain s where
    s: "s \<in> set (segments R)" "seg_start s \<le> addr" "addr + 1 \<le> seg_end s"
       "segment_for R addr 1 = Inr (s, addr - seg_start s)" by auto
  then have "snap_u8 R addr = Inr (uint (seg_data s ! nat (addr - seg_start s)))"
    by (simp add: snap_u8_def ebind_def bytes_get_in_range seg_end_def)
  with s show ?thesis by blast
qed

lemma snap_u16_covered:
  assumes "search_reaches R" "covered R addr 2"
  shows "\<exists>s \<in> set (segments R). seg_start s \<le> addr \<and> addr + 2 \<le> seg_end s \<and>
           snap_u16 R addr = Inr (uint (seg_data s ! nat (addr - seg_start s))
              OR push_bit 8 (uint (seg_data s ! nat (addr - seg_start s + 1))))"
proof -
  from segment_for_covered [OF assms, simplified] obtain s where
    s: "s \<in> set (segments R)" "seg_start s \<le> addr" "addr + 2 \<le> seg_end s"
       "segment_for R addr 2 = Inr (s, addr - seg_start s)" by auto
  then have "snap_u16 R addr = Inr (uint (seg_data s ! nat (addr - seg_start s))
              OR push_bit 8 (uint (seg_data s ! nat (addr - seg_start s + 1))))"
    by (simp add: snap_u16_def ebind_def bytes_get_in_range seg_end_def Let_def)
  with s show ?thesis by blast
qed

lemma snap_u32_covered:
  assumes "search_reaches R" "covered R addr 4"
  shows "\<exists>s \<in> set (segments R). seg_start s \<le> addr \<and> addr + 4 \<le> seg_end s \<and>
           snap_u32 R addr = Inr (uint (seg_data s ! nat (addr - seg_start s))
              OR push_bit 8 (uint (seg_data s ! nat (addr - seg_start s + 1)))
              OR push_bit 16 (uint (seg_data s ! nat (addr - seg_start s + 2)))
              OR push_bit 24 (uint (seg_data s ! nat (addr - seg_start s + 3))))"
proof -
  from segment_for_covered [OF assms, simplified] obtain s where
    s: "s \<in> set (segments R)" "seg_start s \<le> addr" "addr + 4 \<le> seg_end s"
       "segment_for R addr 4 = Inr (s, addr - seg_start s)" by auto
  then have "snap_u32 R addr = Inr (uint (seg_data s ! nat (addr - seg_start s))
              OR push_bit 8 (uint (seg_data s ! nat (addr - seg_start s + 1)))
              OR push_bit 16 (uint (seg_data s ! nat (addr - seg_start s + 2)))
              OR push_bit 24 (uint (seg_data s ! nat (addr - seg_start s + 3))))"
    by (simp add: snap_u32_def ebind_def bytes_get_in_range seg_end_def Let_def)
  with s show ?thesis by blast
qed

lemma snap_int_uncovered:
  "\<not> covered R addr 1 \<Longrightarrow> snap_u8 R addr = Inl KeyError"
  "\<not> covered R addr 2 \<Longrightarrow> snap_u16 R addr = Inl KeyError"
  "\<not> covered R addr 4 \<Longrightarrow> snap_u32 R addr = Inl KeyError"
  "\<not> covered R addr sz \<Longrightarrow> snap_read_bytes R addr sz = Inl KeyError"
  by (simp_all add: snap_u8_def snap_u16_def snap_u32_def snap_read_bytes_def
        segment_for_uncovered ebind_def)


text \<open>
  Claim C3 (as amended).  Snapshot construction drops the entries with address zero and the
  entries whose chunk is not a bytes object, and sorts the rest by start address.  A read of
  size zero or less always fails, and so does every read whose range lies within no captured
  segment; the error is \<open>KeyError\<close>.  A read of positive size succeeds if and only if its
  range lies within one captured segment, in every snapshot in which the search reaches every
  captured byte, and only in those.  The snapshots of the data model are among them: those in
  which no captured segment starts inside another one, whether or not some chunks are short
  or empty.
\<close>

theorem snapshot_read_succeeds_iff_covered:
  assumes "R = from_ranges ranges chunks"
  shows "sorted (map seg_start (segments R)) \<and>
         starts R = map seg_start (segments R) \<and>
         set (segments R) =
           {\<lparr>seg_start = a, seg_data = c\<rparr> | a n c. ((a, n), Some c) \<in> set (zip ranges chunks) \<and> a \<noteq> 0} \<and>
         (segments_apart (segments R) \<longrightarrow> search_reaches R) \<and>
         (search_reaches R \<longleftrightarrow>
            (\<forall>a n. 1 \<le> n \<longrightarrow> ((\<exists>bs. snap_read_bytes R a n = Inr bs) \<longleftrightarrow> covered R a n))) \<and>
         (search_reaches R \<longrightarrow>
            (1 \<le> sz \<longrightarrow> ((\<exists>bs. snap_read_bytes R addr sz = Inr bs) \<longleftrightarrow> covered R addr sz)) \<and>
            ((\<exists>v. snap_u8 R addr = Inr v) \<longleftrightarrow> covered R addr 1) \<and>
            ((\<exists>v. snap_u16 R addr = Inr v) \<longleftrightarrow> covered R addr 2) \<and>
            ((\<exists>v. snap_u32 R addr = Inr v) \<longleftrightarrow> covered R addr 4)) \<and>
         (\<not> covered R addr sz \<or> sz \<le> 0 \<longrightarrow> snap_read_bytes R addr sz = Inl KeyError) \<and>
         (\<not> covered R addr 1 \<longrightarrow> snap_u8 R addr = Inl KeyError) \<and>
         (\<not> covered R addr 2 \<longrightarrow> snap_u16 R addr = Inl KeyError) \<and>
         (\<not> covered R addr 4 \<longrightarrow> snap_u32 R addr = Inl KeyError)"
proof -
  have st: "starts R = map seg_start (segments R)"
    by (simp add: assms(1) from_ranges_starts)
  have so: "sorted (starts R)"
    by (simp add: assms(1) from_ranges_sorted)
  have segs: "set (segments R) =
      {\<lparr>seg_start = a, seg_data = c\<rparr> | a n c. ((a, n), Some c) \<in> set (zip ranges chunks) \<and> a \<noteq> 0}"
    unfolding assms(1) by (rule from_ranges_set)
  have ap: "segments_apart (segments R) \<longrightarrow> search_reaches R"
    using apart_reaches [OF st so] by blast
  have exact: "search_reaches R \<longleftrightarrow>
      (\<forall>a n. 1 \<le> n \<longrightarrow> ((\<exists>bs. snap_read_bytes R a n = Inr bs) \<longleftrightarrow> covered R a n))"
  proof
    assume "search_reaches R"
    then show "\<forall>a n. 1 \<le> n \<longrightarrow> ((\<exists>bs. snap_read_bytes R a n = Inr bs) \<longleftrightarrow> covered R a n)"
      using snap_read_bytes_iff by blast
  next
    assume "\<forall>a n. 1 \<le> n \<longrightarrow> ((\<exists>bs. snap_read_bytes R a n = Inr bs) \<longleftrightarrow> covered R a n)"
    then show "search_reaches R"
      by (intro reaches_necessary) blast
  qed
  have rb: "search_reaches R \<longrightarrow> 1 \<le> sz \<longrightarrow>
      ((\<exists>bs. snap_read_bytes R addr sz = Inr bs) \<longleftrightarrow> covered R addr sz)"
    using snap_read_bytes_iff by blast
  have u8: "search_reaches R \<longrightarrow> ((\<exists>v. snap_u8 R addr = Inr v) \<longleftrightarrow> covered R addr 1)"
    using snap_u8_covered [of R addr] snap_int_uncovered(1) [of R addr] by fastforce
  have u16: "search_reaches R \<longrightarrow> ((\<exists>v. snap_u16 R addr = Inr v) \<longleftrightarrow> covered R addr 2)"
    using snap_u16_covered [of R addr] snap_int_uncovered(2) [of R addr] by fastforce
  have u32: "search_reaches R \<longrightarrow> ((\<exists>v. snap_u32 R addr = Inr v) \<longleftrightarrow> covered R addr 4)"
    using snap_u32_covered [of R addr] snap_int_uncovered(3) [of R addr] by fastforce
  have empty: "sz \<le> 0 \<longrightarrow> snap_read_bytes R addr sz = Inl KeyError"
    by (simp add: snap_read_bytes_def segment_for_def ebind_def)
  have fail: "\<not> covered R addr sz \<or> sz \<le> 0 \<longrightarrow> snap_read_bytes R addr sz = Inl KeyError"
    using empty snap_int_uncovered(4) [of R addr sz] by blast
  have so': "sorted (map seg_start (segments R))"
    using so st by simp
  from so' st segs ap exact rb u8 u16 u32 fail snap_int_uncovered(1-3) [of R addr]
  show ?thesis by blast
qed


lemmas reader_eval =
  from_ranges_def capture_def List.map_filter_def Let_def covered_def seg_end_def
  snap_u8_def snap_u16_def snap_u32_def snap_read_bytes_def segment_for_def ebind_def
  bisect_right_def bisect_right_loop.simps bytes_get_def py_slice_def mem_bytes_def
  live_backed_by_def live_u8_def live_u16_def live_u32_def live_read_bytes_def

text \<open>The theorem at a snapshot of three segments built from five ranges, one of them an
  empty chunk.\<close>

theorem snapshot_read_succeeds_iff_covered_witness:
  "segments (from_ranges [(200, 2), (0, 2), (100, 4), (300, 1), (500, 2)]
       [Some [5, 6], Some [7, 8], Some [1, 2, 3, 4], None, Some []])
     = [\<lparr>seg_start = 100, seg_data = [1, 2, 3, 4]\<rparr>, \<lparr>seg_start = 200, seg_data = [5, 6]\<rparr>,
        \<lparr>seg_start = 500, seg_data = []\<rparr>] \<and>
   segments_apart (segments (from_ranges [(200, 2), (0, 2), (100, 4), (300, 1), (500, 2)]
       [Some [5, 6], Some [7, 8], Some [1, 2, 3, 4], None, Some []])) \<and>
   search_reaches (from_ranges [(200, 2), (0, 2), (100, 4), (300, 1), (500, 2)]
       [Some [5, 6], Some [7, 8], Some [1, 2, 3, 4], None, Some []]) \<and>
   (1 :: int) \<le> 2 \<and>
   covered (from_ranges [(200, 2), (0, 2), (100, 4), (300, 1), (500, 2)]
       [Some [5, 6], Some [7, 8], Some [1, 2, 3, 4], None, Some []]) 101 2 \<and>
   snap_read_bytes (from_ranges [(200, 2), (0, 2), (100, 4), (300, 1), (500, 2)]
       [Some [5, 6], Some [7, 8], Some [1, 2, 3, 4], None, Some []]) 101 2 = Inr [2, 3] \<and>
   snap_u16 (from_ranges [(200, 2), (0, 2), (100, 4), (300, 1), (500, 2)]
       [Some [5, 6], Some [7, 8], Some [1, 2, 3, 4], None, Some []]) 101 = Inr 0x302 \<and>
   \<not> covered (from_ranges [(200, 2), (0, 2), (100, 4), (300, 1), (500, 2)]
       [Some [5, 6], Some [7, 8], Some [1, 2, 3, 4], None, Some []]) 101 4 \<and>
   snap_u32 (from_ranges [(200, 2), (0, 2), (100, 4), (300, 1), (500, 2)]
       [Some [5, 6], Some [7, 8], Some [1, 2, 3, 4], None, Some []]) 101 = Inl KeyError \<and>
   \<not> covered (from_ranges [(200, 2), (0, 2), (100, 4), (300, 1), (500, 2)]
       [Some [5, 6], Some [7, 8], Some [1, 2, 3, 4], None, Some []]) 500 1 \<and>
   snap_u8 (from_ranges [(200, 2), (0, 2), (100, 4), (300, 1), (500, 2)]
       [Some [5, 6], Some [7, 8], Some [1, 2, 3, 4], None, Some []]) 500 = Inl KeyError"
proof -
  let ?R = "from_ranges [(200, 2), (0, 2), (100, 4), (300, 1), (500, 2)]
       [Some [5, 6], Some [7, 8], Some [1, 2, 3, 4], None, Some []]"
  have segs: "segments ?R
     = [\<lparr>seg_start = 100, seg_data = [1, 2, 3, 4]\<rparr>, \<lparr>seg_start = 200, seg_data = [5, 6]\<rparr>,
        \<lparr>seg_start = 500, seg_data = []\<rparr>]"
    by (simp add: from_ranges_def List.map_filter_def)
  have h: "segments_apart (segments ?R)"
    unfolding segs by (simp add: seg_end_def)
  note at101 = snapshot_read_succeeds_iff_covered [OF refl,
      where ranges = "[(200, 2), (0, 2), (100, 4), (300, 1), (500, 2)]"
        and chunks = "[Some [5, 6], Some [7, 8], Some [1, 2, 3, 4], None, Some []]"
        and addr = 101 and sz = 2]
  note at500 = snapshot_read_succeeds_iff_covered [OF refl,
      where ranges = "[(200, 2), (0, 2), (100, 4), (300, 1), (500, 2)]"
        and chunks = "[Some [5, 6], Some [7, 8], Some [1, 2, 3, 4], None, Some []]"
        and addr = 500 and sz = 2]
  have r: "search_reaches ?R"
    using at101 [THEN conjunct2, THEN conjunct2, THEN conjunct2, THEN conjunct1] h by (rule mp)
  have c: "covered ?R 101 2" "\<not> covered ?R 101 4" "\<not> covered ?R 500 1"
    unfolding covered_def segs by (simp_all add: seg_end_def)
  have v: "snap_read_bytes ?R 101 2 = Inr [2, 3]" "snap_u16 ?R 101 = Inr 0x302"
    by (simp_all add: reader_eval)
  have e: "snap_u32 ?R 101 = Inl KeyError" "snap_u8 ?R 500 = Inl KeyError"
    using at101 [THEN conjunct2, THEN conjunct2, THEN conjunct2, THEN conjunct2, THEN conjunct2, THEN conjunct2, THEN conjunct2, THEN conjunct2, THEN conjunct2] c(2) at500 [THEN conjunct2, THEN conjunct2, THEN conjunct2, THEN conjunct2, THEN conjunct2, THEN conjunct2, THEN conjunct2, THEN conjunct1] c(3) by blast+
  from segs h r c v e show ?thesis by simp
qed

text \<open>
  Claim C3 as stated fails at an empty range: it lies within a captured segment, in a
  snapshot of the data model, and its read is refused.
\<close>

theorem snapshot_read_iff_covered_counterexample:
  "segments_apart (segments (from_ranges [(100, 4)] [Some [1, 2, 3, 4]])) \<and>
   covered (from_ranges [(100, 4)] [Some [1, 2, 3, 4]]) 100 0 \<and>
   snap_read_bytes (from_ranges [(100, 4)] [Some [1, 2, 3, 4]]) 100 0 = Inl KeyError"
  by (simp add: reader_eval)

lemma live_backed_u8: "live_u8 (live_backed_by mem) a = Inr (uint (mem a))"
  by (simp add: live_u8_def live_backed_by_def ebind_def byte_below_mask)

lemma live_backed_u16:
  "live_u16 (live_backed_by mem) a = Inr (uint (mem a) OR push_bit 8 (uint (mem (a + 1))))"
  by (simp add: live_u16_def live_backed_by_def ebind_def le16_below_mask)

lemma live_backed_u32:
  "live_u32 (live_backed_by mem) a =
     Inr (uint (mem a) OR push_bit 8 (uint (mem (a + 1)))
          OR push_bit 16 (uint (mem (a + 2))) OR push_bit 24 (uint (mem (a + 3))))"
  by (simp add: live_u32_def live_backed_by_def ebind_def le32_below_mask)

lemma live_backed_read_bytes:
  "live_read_bytes (live_backed_by mem) a sz = Inr (mem_bytes mem a sz)"
  by (simp add: live_read_bytes_def live_backed_by_def mem_bytes_def)

lemma live_u8_list_backed:
  "read8 r = (\<lambda>a. Inr (uint (mem a))) \<Longrightarrow>
   live_u8_list r addr ks = Inr (map (\<lambda>i. mem (addr + int i)) ks)"
  by (induction ks) (simp_all add: live_u8_def ebind_def byte_below_mask)

lemma live_degraded_read_bytes:
  "live_read_bytes (without_range_reads (live_backed_by mem)) a sz = Inr (mem_bytes mem a sz)"
proof -
  have r8: "read8 (without_range_reads (live_backed_by mem)) = (\<lambda>a. Inr (uint (mem a)))"
    by (simp add: without_range_reads_def live_backed_by_def)
  have rr: "read_range_bytes (without_range_reads (live_backed_by mem)) a sz = Inl TransportError"
    by (simp add: without_range_reads_def)
  show ?thesis
    unfolding live_read_bytes_def rr
    by (simp add: live_u8_list_backed [OF r8] mem_bytes_def)
qed

lemma backed_nth:
  assumes "snapshot_backed_by mem R" "s \<in> set (segments R)" "0 \<le> k" "k < int (length (seg_data s))"
  shows "seg_data s ! nat k = mem (seg_start s + k)"
proof -
  have "seg_data s = mem_bytes mem (seg_start s) (int (length (seg_data s)))"
    using assms(1,2) by (simp add: snapshot_backed_by_def list_all_iff)
  then have "seg_data s ! nat k = mem_bytes mem (seg_start s) (int (length (seg_data s))) ! nat k"
    by simp
  also have "\<dots> = mem (seg_start s + k)"
    using assms(3,4) by (simp add: mem_bytes_nth)
  finally show ?thesis .
qed

lemma backed_slice:
  assumes "snapshot_backed_by mem R" "s \<in> set (segments R)" "seg_start s \<le> addr" "1 \<le> sz"
    "addr + sz \<le> seg_end s"
  shows "py_slice (seg_data s) (addr - seg_start s) (addr - seg_start s + sz) = mem_bytes mem addr sz"
proof -
  let ?n = "int (length (seg_data s))" and ?off = "addr - seg_start s"
  have d: "seg_data s = mem_bytes mem (seg_start s) ?n"
    using assms(1,2) by (simp add: snapshot_backed_by_def list_all_iff)
  have b: "0 \<le> ?off" "?off \<le> ?off + sz" "?off + sz \<le> ?n"
    using assms(3-5) by (simp_all add: seg_end_def)
  have "py_slice (seg_data s) ?off (?off + sz) = drop (nat ?off) (take (nat (?off + sz)) (seg_data s))"
    by (rule py_slice_in_range [OF b])
  also have "\<dots> = drop (nat ?off) (take (nat (?off + sz)) (mem_bytes mem (seg_start s) ?n))"
    using d by simp
  also have "\<dots> = mem_bytes mem (seg_start s + ?off) sz"
    using mem_bytes_slice [of ?off sz ?n mem "seg_start s"] b assms(4) by simp
  finally show ?thesis by simp
qed


text \<open>
  Claim C2 (as amended).  Let a snapshot hold, in each captured segment, the bytes found in a
  memory at the segment's start address (as every capture from that memory does), and let
  its search reach every captured byte (as it does when no captured segment starts inside
  another one).  Then every read of positive size that lies within one captured segment
  returns through the snapshot reader what the live reader backed by the same memory
  returns, also when the live reader has to degrade to single-byte reads.  Without the
  condition on the search some such read differs.
\<close>

theorem snapshot_reads_equal_live_reads:
  assumes "snapshot_backed_by mem R"
  shows "(search_reaches R \<and> 1 \<le> sz \<and> covered R addr sz \<longrightarrow>
            snap_read_bytes R addr sz = Inr (mem_bytes mem addr sz) \<and>
            snap_read_bytes R addr sz = live_read_bytes (live_backed_by mem) addr sz \<and>
            snap_read_bytes R addr sz
              = live_read_bytes (without_range_reads (live_backed_by mem)) addr sz) \<and>
         (search_reaches R \<and> covered R addr 1 \<longrightarrow>
            snap_u8 R addr = Inr (uint (mem addr)) \<and>
            snap_u8 R addr = live_u8 (live_backed_by mem) addr) \<and>
         (search_reaches R \<and> covered R addr 2 \<longrightarrow>
            (\<exists>v. snap_u16 R addr = Inr v) \<and>
            snap_u16 R addr = live_u16 (live_backed_by mem) addr) \<and>
         (search_reaches R \<and> covered R addr 4 \<longrightarrow>
            (\<exists>v. snap_u32 R addr = Inr v) \<and>
            snap_u32 R addr = live_u32 (live_backed_by mem) addr) \<and>
         (search_reaches R \<longleftrightarrow>
            (\<forall>a n. 1 \<le> n \<and> covered R a n \<longrightarrow>
               snap_read_bytes R a n = live_read_bytes (live_backed_by mem) a n)) \<and>
         (R = from_ranges ranges chunks \<and> segments_apart (segments R) \<longrightarrow> search_reaches R) \<and>
         snapshot_backed_by mem (capture mem ranges)"
proof -
  note bk = assms
  have rb: "snap_read_bytes R a n = Inr (mem_bytes mem a n)"
    if "search_reaches R" "1 \<le> n" "covered R a n" for a n
  proof -
    from segment_for_covered [OF that(1,3,2)] obtain s where
      s: "s \<in> set (segments R)" "seg_start s \<le> a" "a + n \<le> seg_end s"
         "segment_for R a n = Inr (s, a - seg_start s)" by auto
    show ?thesis
      using backed_slice [OF bk s(1,2) that(2) s(3)]
      by (simp add: snap_read_bytes_def s(4) ebind_def)
  qed
  have u8: "snap_u8 R addr = Inr (uint (mem addr))" if "search_reaches R" "covered R addr 1"
  proof -
    from snap_u8_covered [OF that] obtain s where
      s: "s \<in> set (segments R)" "seg_start s \<le> addr" "addr + 1 \<le> seg_end s"
         "snap_u8 R addr = Inr (uint (seg_data s ! nat (addr - seg_start s)))" by auto
    have "seg_data s ! nat (addr - seg_start s) = mem addr"
      using backed_nth [OF bk s(1), of "addr - seg_start s"] s(2,3) by (simp add: seg_end_def)
    with s(4) show ?thesis by simp
  qed
  have u16: "snap_u16 R addr = Inr (uint (mem addr) OR push_bit 8 (uint (mem (addr + 1))))"
    if "search_reaches R" "covered R addr 2"
  proof -
    from snap_u16_covered [OF that] obtain s where
      s: "s \<in> set (segments R)" "seg_start s \<le> addr" "addr + 2 \<le> seg_end s"
         "snap_u16 R addr = Inr (uint (seg_data s ! nat (addr - seg_start s))
              OR push_bit 8 (uint (seg_data s ! nat (addr - seg_start s + 1))))" by auto
    have "seg_data s ! nat (addr - seg_start s) = mem addr"
      "seg_data s ! nat (addr - seg_start s + 1) = mem (addr + 1)"
      using backed_nth [OF bk s(1), of "addr - seg_start s"]
        backed_nth [OF bk s(1), of "addr - seg_start s + 1"] s(2,3)
      by (simp_all add: seg_end_def)
    with s(4) show ?thesis by simp
  qed
  have u32: "snap_u32 R addr = Inr (uint (mem addr) OR push_bit 8 (uint (mem (addr + 1)))
          OR push_bit 16 (uint (mem (addr + 2))) OR push_bit 24 (uint (mem (addr + 3))))"
    if "search_reaches R" "covered R addr 4"
  proof -
    from snap_u32_covered [OF that] obtain s where
      s: "s \<in> set (segments R)" "seg_start s \<le> addr" "addr + 4 \<le> seg_end s"
         "snap_u32 R addr = Inr (uint (seg_data s ! nat (addr - seg_start s))
              OR push_bit 8 (uint (seg_data s ! nat (addr - seg_start s + 1)))
              OR push_bit 16 (uint (seg_data s ! nat (addr - seg_start s + 2)))
              OR push_bit 24 (uint (seg_data s ! nat (addr - seg_start s + 3))))" by auto
    have "seg_data s ! nat (addr - seg_start s) = mem addr"
      "seg_data s ! nat (addr - seg_start s + 1) = mem (addr + 1)"
      "seg_data s ! nat (addr - seg_start s + 2) = mem (addr + 2)"
      "seg_data s ! nat (addr - seg_start s + 3) = mem (addr + 3)"
      using backed_nth [OF bk s(1), of "addr - seg_start s"]
        backed_nth [OF bk s(1), of "addr - seg_start s + 1"]
        backed_nth [OF bk s(1), of "addr - seg_start s + 2"]
        backed_nth [OF bk s(1), of "addr - seg_start s + 3"] s(2,3)
      by (simp_all add: seg_end_def)
    with s(4) show ?thesis by simp
  qed
  have exact: "search_reaches R \<longleftrightarrow>
      (\<forall>a n. 1 \<le> n \<and> covered R a n \<longrightarrow>
         snap_read_bytes R a n = live_read_bytes (live_backed_by mem) a n)"
  proof
    assume "search_reaches R"
    then show "\<forall>a n. 1 \<le> n \<and> covered R a n \<longrightarrow>
         snap_read_bytes R a n = live_read_bytes (live_backed_by mem) a n"
      using rb by (simp add: live_backed_read_bytes)
  next
    assume "\<forall>a n. 1 \<le> n \<and> covered R a n \<longrightarrow>
         snap_read_bytes R a n = live_read_bytes (live_backed_by mem) a n"
    then have "\<forall>a n. 1 \<le> n \<and> covered R a n \<longrightarrow> (\<exists>bs. snap_read_bytes R a n = Inr bs)"
      by (simp add: live_backed_read_bytes)
    then show "search_reaches R" by (rule reaches_necessary)
  qed
  have ap: "R = from_ranges ranges chunks \<and> segments_apart (segments R) \<longrightarrow> search_reaches R"
  proof
    assume a: "R = from_ranges ranges chunks \<and> segments_apart (segments R)"
    have st: "starts R = map seg_start (segments R)"
      using a by (simp add: from_ranges_starts)
    have so: "sorted (starts R)"
      using a by (simp add: from_ranges_sorted)
    from apart_reaches [OF st so] a show "search_reaches R" by blast
  qed
  have p1: "search_reaches R \<and> 1 \<le> sz \<and> covered R addr sz \<longrightarrow>
            snap_read_bytes R addr sz = Inr (mem_bytes mem addr sz) \<and>
            snap_read_bytes R addr sz = live_read_bytes (live_backed_by mem) addr sz \<and>
            snap_read_bytes R addr sz
              = live_read_bytes (without_range_reads (live_backed_by mem)) addr sz"
    using rb by (simp add: live_backed_read_bytes live_degraded_read_bytes)
  have p2: "search_reaches R \<and> covered R addr 1 \<longrightarrow>
            snap_u8 R addr = Inr (uint (mem addr)) \<and>
            snap_u8 R addr = live_u8 (live_backed_by mem) addr"
    using u8 by (simp add: live_backed_u8)
  have p3: "search_reaches R \<and> covered R addr 2 \<longrightarrow>
            (\<exists>v. snap_u16 R addr = Inr v) \<and>
            snap_u16 R addr = live_u16 (live_backed_by mem) addr"
    using u16 by (simp add: live_backed_u16)
  have p4: "search_reaches R \<and> covered R addr 4 \<longrightarrow>
            (\<exists>v. snap_u32 R addr = Inr v) \<and>
            snap_u32 R addr = live_u32 (live_backed_by mem) addr"
    using u32 by (simp add: live_backed_u32)
  from p1 p2 p3 p4 exact ap capture_backed [of mem ranges] show ?thesis
    by blast
qed

text \<open>The theorem at a memory holding the low byte of each address; the third range of the
  capture is empty.\<close>

theorem snapshot_reads_equal_live_reads_witness:
  "snapshot_backed_by word_of_int (capture word_of_int [(100, 4), (0, 2), (200, 2), (300, 0)]) \<and>
   segments_apart (segments (capture word_of_int [(100, 4), (0, 2), (200, 2), (300, 0)])) \<and>
   search_reaches (capture word_of_int [(100, 4), (0, 2), (200, 2), (300, 0)]) \<and>
   (1::int) \<le> 2 \<and>
   covered (capture word_of_int [(100, 4), (0, 2), (200, 2), (300, 0)]) 101 2 \<and>
   covered (capture word_of_int [(100, 4), (0, 2), (200, 2), (300, 0)]) 101 1 \<and>
   covered (capture word_of_int [(100, 4), (0, 2), (200, 2), (300, 0)]) 100 4 \<and>
   snap_read_bytes (capture word_of_int [(100, 4), (0, 2), (200, 2), (300, 0)]) 101 2 = Inr [101, 102] \<and>
   live_read_bytes (live_backed_by word_of_int) 101 2 = Inr [101, 102] \<and>
   live_read_bytes (without_range_reads (live_backed_by word_of_int)) 101 2 = Inr [101, 102] \<and>
   snap_u8 (capture word_of_int [(100, 4), (0, 2), (200, 2), (300, 0)]) 101 = Inr 101 \<and>
   live_u8 (live_backed_by word_of_int) 101 = Inr 101 \<and>
   snap_u16 (capture word_of_int [(100, 4), (0, 2), (200, 2), (300, 0)]) 101 = Inr 0x6665 \<and>
   live_u16 (live_backed_by word_of_int) 101 = Inr 0x6665 \<and>
   snap_u32 (capture word_of_int [(100, 4), (0, 2), (200, 2), (300, 0)]) 100 = Inr 0x67666564 \<and>
   live_u32 (live_backed_by word_of_int) 100 = Inr 0x67666564"
proof -
  let ?R = "capture word_of_int [(100, 4), (0, 2), (200, 2), (300, 0)]"
  have bk: "snapshot_backed_by word_of_int ?R"
    by (rule capture_backed)
  have fr: "?R = from_ranges [(100, 4), (0, 2), (200, 2), (300, 0)]
      (map (\<lambda>(a, n). Some (mem_bytes word_of_int a n)) [(100, 4), (0, 2), (200, 2), (300, 0)])"
    by (simp add: capture_def)
  have h: "segments_apart (segments ?R)"
    by (simp add: reader_eval)
  note at101 = snapshot_reads_equal_live_reads [OF bk, where sz = 2 and addr = 101
      and ranges = "[(100, 4), (0, 2), (200, 2), (300, 0)]"
      and chunks = "map (\<lambda>(a, n). Some (mem_bytes word_of_int a n)) [(100, 4), (0, 2), (200, 2), (300, 0)]"]
  note at100 = snapshot_reads_equal_live_reads [OF bk, where sz = 2 and addr = 100]
  have r: "search_reaches ?R"
    using at101 [THEN conjunct2, THEN conjunct2, THEN conjunct2, THEN conjunct2, THEN conjunct2, THEN conjunct1] fr h by blast
  have c: "covered ?R 101 2" "covered ?R 101 1" "covered ?R 100 4"
    by (simp_all add: reader_eval)
  have m: "mem_bytes word_of_int 101 2 = [101, 102]"
    by (simp add: mem_bytes_def upt_rec)
  have v: "uint (word_of_int 101 :: byte) = 101"
    "uint (word_of_int 101 :: byte) OR push_bit 8 (uint (word_of_int (101 + 1) :: byte)) = 0x6665"
    "uint (word_of_int 100 :: byte) OR push_bit 8 (uint (word_of_int (100 + 1) :: byte))
       OR push_bit 16 (uint (word_of_int (100 + 2) :: byte))
       OR push_bit 24 (uint (word_of_int (100 + 3) :: byte)) = 0x67666564"
    by simp_all
  have t1: "snap_read_bytes ?R 101 2 = Inr (mem_bytes word_of_int 101 2)"
    "snap_u8 ?R 101 = Inr (uint (word_of_int 101 :: byte))"
    "snap_u16 ?R 101 = live_u16 (live_backed_by word_of_int) 101"
    using at101 [THEN conjunct1] at101 [THEN conjunct2, THEN conjunct1] at101 [THEN conjunct2, THEN conjunct2, THEN conjunct1] r c by simp_all
  have t2: "snap_u32 ?R 100 = live_u32 (live_backed_by word_of_int) 100"
    using at100 [THEN conjunct2, THEN conjunct2, THEN conjunct2, THEN conjunct1] r c by simp
  show ?thesis
    using bk h r c t1 t2
    by (simp add: m live_backed_u8 live_backed_u16 live_backed_u32 v live_backed_read_bytes
          live_degraded_read_bytes)
qed

text \<open>
  Claim C2 as stated fails at an empty read: the snapshot reader raises and the live reader
  returns the empty bytes object.
\<close>

theorem snapshot_reads_equal_live_reads_counterexample:
  "segments_apart (segments (capture word_of_int [(100, 4)])) \<and>
   covered (capture word_of_int [(100, 4)]) 100 0 \<and>
   snap_read_bytes (capture word_of_int [(100, 4)]) 100 0 = Inl KeyError \<and>
   live_read_bytes (live_backed_by word_of_int) 100 0 = Inr []"
  by (simp add: reader_eval)
section \<open>Properties of task and pointer matching\<close>

lemma bit_fffffffe: "bit (0xFFFFFFFE :: int) n \<longleftrightarrow> 1 \<le> n \<and> n < 32"
proof -
  have m: "(0xFFFFFFFE :: int) = push_bit 1 (mask 31)"
    by (simp add: mask_eq_exp_minus_1 push_bit_eq_mult)
  show ?thesis
    unfolding m bit_push_bit_iff bit_mask_iff by auto
qed

lemma mask_flip: "(x XOR 1) AND 0xFFFFFFFE = x AND (0xFFFFFFFE :: int)"
  by (rule bit_eqI) (auto simp: bit_and_iff bit_xor_iff bit_fffffffe bit_1_iff)

lemma flip_bit0_masked: "flip_bit0 b x AND 0xFFFFFFFE = x AND 0xFFFFFFFE"
  by (simp add: flip_bit0_def mask_flip)

lemma differ_masked: "differ_only_in_bit0 x y \<Longrightarrow> y AND 0xFFFFFFFE = x AND 0xFFFFFFFE"
  by (auto simp: differ_only_in_bit0_def mask_flip)

lemma ptr_matches_loop_flip:
  "list_all2 differ_only_in_bit0 cs cs' \<Longrightarrow>
   ptr_matches_loop m cs' = ptr_matches_loop m cs"
  by (induction cs cs' rule: list_all2_induct) (auto simp: differ_masked)

lemma ptr_matches_any_flip:
  "differ_only_in_bit0 p p' \<Longrightarrow> list_all2 differ_only_in_bit0 cs cs' \<Longrightarrow>
   ptr_matches_any p' cs' = ptr_matches_any p cs"
  using ptr_matches_loop_flip [of cs cs']
  by (auto simp: ptr_matches_any_def differ_masked)

lemma scan_tasks_live_flip:
  "scan_tasks_live L (flip_read32 sel mgba) matches ks = scan_tasks_live L mgba matches ks"
proof (induction ks)
  case Nil
  show ?case by simp
next
  case (Cons i rest)
  have r8: "read8 (flip_read32 sel mgba) = read8 mgba"
    by (simp add: flip_read32_def)
  have r32: "read32 (flip_read32 sel mgba) a =
      (case read32 mgba a of Inl e \<Rightarrow> Inl e | Inr v \<Rightarrow> Inr (flip_bit0 (sel a) v))" for a
    by (simp add: flip_read32_def)
  show ?case
    by (simp add: Let_def r8 r32 Cons.IH ebind_def flip_bit0_masked split: sum.splits)
qed

lemma find_by_func_flip_candidate:
  "a \<noteq> 0 \<Longrightarrow> a' \<noteq> 0 \<Longrightarrow> differ_only_in_bit0 a a' \<Longrightarrow>
   find_active_task_by_func L mgba a' t = find_active_task_by_func L mgba a t"
  by (simp add: find_active_task_by_func_def differ_masked)

lemma find_by_funcs_flip_candidates:
  assumes "list_all2 (\<lambda>c c'. differ_only_in_bit0 c c' \<and> \<not> null_pair c c') cs cs'"
  shows "find_active_task_by_funcs L mgba cs' t = find_active_task_by_funcs L mgba cs t"
proof -
  have "map (\<lambda>addr. addr AND 0xFFFFFFFE) (filter (\<lambda>addr. addr \<noteq> 0) cs')
      = map (\<lambda>addr. addr AND 0xFFFFFFFE) (filter (\<lambda>addr. addr \<noteq> 0) cs)"
    using assms
    by (induction cs cs' rule: list_all2_induct) (auto simp: differ_masked null_pair_def)
  then show ?thesis by (simp add: find_active_task_by_funcs_def)
qed

lemma find_by_func_flip_pair:
  "differ_only_in_bit0 a a' \<Longrightarrow> \<not> null_pair a a' \<Longrightarrow>
   find_active_task_by_func L mgba a' t = find_active_task_by_func L mgba a t"
  by (cases "a' = a") (auto simp: null_pair_def find_by_func_flip_candidate)

lemma find_by_funcs_skips_null:
  "find_active_task_by_funcs L mgba (filter (\<lambda>c. c \<noteq> 0) cs) t = find_active_task_by_funcs L mgba cs t"
  by (simp add: find_active_task_by_funcs_def)

lemma scan_tasks_raw_flip:
  assumes "length raw' = length raw"
    and "list_all
       (\<lambda>i. u8_from raw' (i * TASK_SIZE L + TASK_ISACTIVE_OFFSET L)
              = u8_from raw (i * TASK_SIZE L + TASK_ISACTIVE_OFFSET L) \<and>
            (case (u32le_from raw (i * TASK_SIZE L + TASK_FUNC_OFFSET L),
                   u32le_from raw' (i * TASK_SIZE L + TASK_FUNC_OFFSET L)) of
               (Inr f, Inr f') \<Rightarrow> differ_only_in_bit0 f f'
             | _ \<Rightarrow> False)) ks"
  shows "scan_tasks_raw L raw' matches ks = scan_tasks_raw L raw matches ks"
  using assms(2)
proof (induction ks)
  case Nil
  show ?case by simp
next
  case (Cons i rest)
  then have IH: "scan_tasks_raw L raw' matches rest = scan_tasks_raw L raw matches rest"
    by simp
  from Cons.prems obtain f f' where
    act: "u8_from raw' (i * TASK_SIZE L + TASK_ISACTIVE_OFFSET L)
              = u8_from raw (i * TASK_SIZE L + TASK_ISACTIVE_OFFSET L)"
    and f: "u32le_from raw (i * TASK_SIZE L + TASK_FUNC_OFFSET L) = Inr f"
           "u32le_from raw' (i * TASK_SIZE L + TASK_FUNC_OFFSET L) = Inr f'"
           "differ_only_in_bit0 f f'"
    by (auto split: sum.splits)
  show ?case
    by (simp add: Let_def assms(1) act f(1,2) differ_masked [OF f(3)] IH ebind_def
          split: sum.splits)
qed

lemma find_raw_flip:
  assumes "same_tasks_up_to_bit0 L raw raw'"
  shows "find_active_task_by_func L mgba a (Some raw') = find_active_task_by_func L mgba a (Some raw)"
    and "find_active_task_by_funcs L mgba cs (Some raw') = find_active_task_by_funcs L mgba cs (Some raw)"
  using assms scan_tasks_raw_flip [of raw' raw L "py_range (NUM_TASKS L)"]
  by (simp_all add: same_tasks_up_to_bit0_def find_active_task_by_func_def
        find_active_task_by_funcs_def Let_def)

lemma find_live_flip:
  "find_active_task_by_func L (flip_read32 sel mgba) a None = find_active_task_by_func L mgba a None"
  "find_active_task_by_funcs L (flip_read32 sel mgba) cs None = find_active_task_by_funcs L mgba cs None"
  by (simp_all add: find_active_task_by_func_def find_active_task_by_funcs_def Let_def
        scan_tasks_live_flip)

text \<open>
  Claim C7.  Every matching helper masks bit 0 off both sides before it compares, so that
  function pointers differing only in bit 0 are the same to it.  \<open>_ptr_matches_any\<close> gives
  the same answer for pointers and candidates that differ only in bit 0.
  \<open>_find_active_task_by_func\<close> and \<open>_find_active_task_by_funcs\<close> give the same answer
  for candidate addresses that differ only in bit 0, and for stored task function pointers
  (captured or read live) that differ only in bit 0, whatever these are.  The one pair of
  candidates set apart is the null address and 1: the null address is no function pointer but
  the value of an unresolved symbol, and as a candidate it never matches and is skipped in a
  list of candidates.
\<close>

theorem task_matching_ignores_bit0:
  "(differ_only_in_bit0 p p' \<and> list_all2 differ_only_in_bit0 cs cs' \<longrightarrow>
      ptr_matches_any p' cs' = ptr_matches_any p cs) \<and>
   (differ_only_in_bit0 a a' \<and> \<not> null_pair a a' \<longrightarrow>
      find_active_task_by_func L mgba a' t = find_active_task_by_func L mgba a t) \<and>
   (list_all2 (\<lambda>c c'. differ_only_in_bit0 c c' \<and> \<not> null_pair c c') cs cs' \<longrightarrow>
      find_active_task_by_funcs L mgba cs' t = find_active_task_by_funcs L mgba cs t) \<and>
   (same_tasks_up_to_bit0 L raw raw' \<longrightarrow>
      find_active_task_by_func L mgba a (Some raw') = find_active_task_by_func L mgba a (Some raw) \<and>
      find_active_task_by_funcs L mgba cs (Some raw') = find_active_task_by_funcs L mgba cs (Some raw)) \<and>
   find_active_task_by_func L (flip_read32 sel mgba) a None = find_active_task_by_func L mgba a None \<and>
   find_active_task_by_funcs L (flip_read32 sel mgba) cs None = find_active_task_by_funcs L mgba cs None \<and>
   find_active_task_by_func L mgba 0 t = Inr None \<and>
   find_active_task_by_funcs L mgba (filter (\<lambda>c. c \<noteq> 0) cs) t = find_active_task_by_funcs L mgba cs t"
proof (intro conjI impI)
  assume "differ_only_in_bit0 p p' \<and> list_all2 differ_only_in_bit0 cs cs'"
  then show "ptr_matches_any p' cs' = ptr_matches_any p cs"
    by (simp add: ptr_matches_any_flip)
next
  assume "differ_only_in_bit0 a a' \<and> \<not> null_pair a a'"
  then show "find_active_task_by_func L mgba a' t = find_active_task_by_func L mgba a t"
    by (simp add: find_by_func_flip_pair)
next
  assume "list_all2 (\<lambda>c c'. differ_only_in_bit0 c c' \<and> \<not> null_pair c c') cs cs'"
  then show "find_active_task_by_funcs L mgba cs' t = find_active_task_by_funcs L mgba cs t"
    by (rule find_by_funcs_flip_candidates)
next
  assume "same_tasks_up_to_bit0 L raw raw'"
  then show "find_active_task_by_func L mgba a (Some raw') = find_active_task_by_func L mgba a (Some raw)"
    by (rule find_raw_flip(1))
next
  assume "same_tasks_up_to_bit0 L raw raw'"
  then show "find_active_task_by_funcs L mgba cs (Some raw') = find_active_task_by_funcs L mgba cs (Some raw)"
    by (rule find_raw_flip(2))
next
  show "find_active_task_by_func L (flip_read32 sel mgba) a None = find_active_task_by_func L mgba a None"
    by (rule find_live_flip(1))
next
  show "find_active_task_by_funcs L (flip_read32 sel mgba) cs None = find_active_task_by_funcs L mgba cs None"
    by (rule find_live_flip(2))
next
  show "find_active_task_by_func L mgba 0 t = Inr None"
    by (simp add: find_active_task_by_func_def)
next
  show "find_active_task_by_funcs L mgba (filter (\<lambda>c. c \<noteq> 0) cs) t = find_active_task_by_funcs L mgba cs t"
    by (rule find_by_funcs_skips_null)
qed

lemmas task_eval =
  find_active_task_by_func_def find_active_task_by_funcs_def firered_tasks_def py_range_def
  ptr_matches_any_def differ_only_in_bit0_def same_tasks_up_to_bit0_def
  u8_from_value u32le_from_value ebind_def Let_def upt_rec nth_append

text \<open>The theorem at a table of one active task whose function pointer is
  \<open>0x08001001\<close>, and at the same table with bit 0 of that pointer cleared; the candidate
  lists hold a null entry.\<close>

theorem task_matching_ignores_bit0_witness:
  "differ_only_in_bit0 0x08001000 0x08001001 \<and> \<not> null_pair 0x08001000 0x08001001 \<and>
   list_all2 differ_only_in_bit0 [0x08002000, 0, 0x08001001] [0x08002001, 0, 0x08001000] \<and>
   ptr_matches_any 0x08001001 [0x08002001, 0, 0x08001000] \<and>
   ptr_matches_any 0x08001000 [0x08002000, 0, 0x08001001] \<and>
   list_all2 (\<lambda>c c'. differ_only_in_bit0 c c' \<and> \<not> null_pair c c')
     [0x08002000, 0, 0x08001001] [0x08002001, 0, 0x08001000] \<and>
   same_tasks_up_to_bit0 firered_tasks
     ([0x01, 0x10, 0x00, 0x08, 0x01] @ replicate 35 0)
     ([0x00, 0x10, 0x00, 0x08, 0x01] @ replicate 35 0) \<and>
   find_active_task_by_func firered_tasks no_mgba 0x08001000
     (Some ([0x01, 0x10, 0x00, 0x08, 0x01] @ replicate 35 0)) = Inr (Some 0) \<and>
   find_active_task_by_func firered_tasks no_mgba 0x08001001
     (Some ([0x01, 0x10, 0x00, 0x08, 0x01] @ replicate 35 0)) = Inr (Some 0) \<and>
   find_active_task_by_func firered_tasks no_mgba 0x08001000
     (Some ([0x00, 0x10, 0x00, 0x08, 0x01] @ replicate 35 0)) = Inr (Some 0) \<and>
   find_active_task_by_funcs firered_tasks no_mgba [0x08002000, 0, 0x08001001]
     (Some ([0x00, 0x10, 0x00, 0x08, 0x01] @ replicate 35 0)) = Inr (Some 0) \<and>
   find_active_task_by_funcs firered_tasks no_mgba [0x08002001, 0, 0x08001000]
     (Some ([0x01, 0x10, 0x00, 0x08, 0x01] @ replicate 35 0)) = Inr (Some 0) \<and>
   find_active_task_by_func firered_tasks no_mgba 0
     (Some ([0x01, 0x10, 0x00, 0x08, 0x01] @ replicate 35 0)) = Inr None"
  using task_matching_ignores_bit0
    [where p = "0x08001000" and p' = "0x08001001" and cs = "[0x08002000, 0, 0x08001001]"
       and cs' = "[0x08002001, 0, 0x08001000]" and a = "0x08001000" and a' = "0x08001001"
       and L = firered_tasks and mgba = no_mgba
       and t = "Some ([0x01, 0x10, 0x00, 0x08, 0x01] @ replicate 35 0)"
       and raw = "[0x01, 0x10, 0x00, 0x08, 0x01] @ replicate 35 0"
       and raw' = "[0x00, 0x10, 0x00, 0x08, 0x01] @ replicate 35 0"]
  by (simp add: task_eval null_pair_def)
section \<open>Properties of the battle menu reconstruction\<close>

lemma first_battler_matching_none:
  "list_all (\<lambda>f. \<not> ptr_matches_any f l) funcs \<Longrightarrow> first_battler_matching l n funcs = None"
  by (induction funcs arbitrary: n) auto

lemma first_battler_matching_some:
  "first_battler_matching l n funcs = Some (k, f) \<Longrightarrow>
   n \<le> k \<and> k - n < length funcs \<and> f = funcs ! (k - n) \<and> ptr_matches_any f l"
proof (induction funcs arbitrary: n)
  case Nil
  then show ?case by simp
next
  case (Cons a funcs)
  show ?case
  proof (cases "ptr_matches_any a l")
    case True
    with Cons.prems show ?thesis by simp
  next
    case False
    with Cons.prems have "first_battler_matching l (Suc n) funcs = Some (k, f)" by simp
    from Cons.IH [OF this] have ih: "Suc n \<le> k" "k - Suc n < length funcs"
      "f = funcs ! (k - Suc n)" "ptr_matches_any f l" by blast+
    have "k - n = Suc (k - Suc n)" using ih(1) by simp
    with ih show ?thesis by simp
  qed
qed

lemma emap_length: "emap g xs = Inr ys \<Longrightarrow> length ys = length xs"
  by (induction xs arbitrary: ys) (auto simp: ebind_def split: sum.splits)

lemma read_controller_funcs_length:
  "read_controller_funcs B cf = Inr funcs \<Longrightarrow> length funcs = nat (BATTLE_MAX_BATTLERS B)"
  by (auto simp: read_controller_funcs_def py_range_def dest: emap_length split: if_splits)

lemma read_cursors_length:
  "0 \<le> BATTLE_MAX_BATTLERS B \<Longrightarrow> length (read_cursors B raw) = nat (BATTLE_MAX_BATTLERS B)"
  by (auto simp: read_cursors_def py_slice_def Let_def min_def)

lemma read_cursors_nth:
  "int (length raw) \<ge> BATTLE_MAX_BATTLERS B \<Longrightarrow> k < nat (BATTLE_MAX_BATTLERS B) \<Longrightarrow>
   read_cursors B raw ! k = uint (raw ! k)"
proof -
  assume a: "int (length raw) \<ge> BATTLE_MAX_BATTLERS B" "k < nat (BATTLE_MAX_BATTLERS B)"
  then have ne: "raw \<noteq> []" and k: "k < length raw" by auto
  have "read_cursors B raw = map uint (take (nat (BATTLE_MAX_BATTLERS B)) raw)"
    using a ne by (simp add: read_cursors_def py_slice_def Let_def min_def)
  then show ?thesis using a k by simp
qed

lemma py_list_get_in_range: "k < length xs \<Longrightarrow> py_list_get xs (int k) = Inr (xs ! k)"
  by (simp add: py_list_get_def)

lemma first_priority_match_action:
  assumes "no_higher_priority_match B funcs"
    and "first_battler_matching (BATTLE_HANDLE_INPUT_CHOOSE_ACTION_ADDRS B) 0 funcs = Some (k, f)"
  shows "first_priority_match (priority_lists B) funcs = Some (k, f)"
proof -
  have "first_battler_matching (BATTLE_PLAYER_HANDLE_YES_NO_INPUT_ADDRS B) 0 funcs = None"
    "first_battler_matching (BATTLE_HANDLE_INPUT_CHOOSE_TARGET_ADDRS B) 0 funcs = None"
    "first_battler_matching (BATTLE_HANDLE_INPUT_CHOOSE_MOVE_ADDRS B) 0 funcs = None"
    using assms(1)
    by (auto simp: no_higher_priority_match_def list_all_iff intro!: first_battler_matching_none)
  then show ?thesis by (simp add: priority_lists_def assms(2))
qed

lemma build_actions:
  assumes "\<not> ptr_matches_any f (BATTLE_PLAYER_HANDLE_YES_NO_INPUT_ADDRS B)"
    "\<not> ptr_matches_any f (BATTLE_HANDLE_INPUT_CHOOSE_TARGET_ADDRS B)"
    "\<not> ptr_matches_any f (BATTLE_HANDLE_INPUT_CHOOSE_MOVE_ADDRS B)"
    "ptr_matches_any f (BATTLE_HANDLE_INPUT_CHOOSE_ACTION_ADDRS B)"
    "flags AND BATTLE_TYPE_SAFARI B = 0"
    "0 \<le> who" "who < 256" "0 \<le> ac" "ac < 256"
  shows "build_battle_ui_state B be flags bc af pos mons who f ac mc mu =
     Inr (Some \<lparr>ui_type = ''battleActions'', activeBattlerId = who,
                cursorPosition = (if ac < 4 then ac else 0),
                selectedOption = Some (ACTION_OPTIONS ! nat (if ac < 4 then ac else 0)),
                options = ACTION_OPTIONS, layout = ''grid2x2''\<rparr>)"
proof -
  have m: "(0xFF::int) = mask 8" by (simp add: mask_eq_exp_minus_1)
  have a: "who AND 0xFF = who" "ac AND 0xFF = ac"
    using assms(6-9) unfolding m by (simp_all add: take_bit_int_eq_self flip: take_bit_eq_mask)
  have len: "length ACTION_OPTIONS = 4" by (simp add: ACTION_OPTIONS_def)
  show ?thesis
    using assms(1-5,8)
    by (simp add: build_battle_ui_state_def Let_def a option_at_def len)
qed


lemma detect_actions:
  assumes max4: "BATTLE_MAX_BATTLERS B = 4"
    and funcs: "read_controller_funcs B cf = Inr funcs"
    and nh: "no_higher_priority_match B funcs"
    and first: "first_battler_matching (BATTLE_HANDLE_INPUT_CHOOSE_ACTION_ADDRS B) 0 funcs = Some (k, f)"
    and safari: "flags AND BATTLE_TYPE_SAFARI B = 0"
    and aclen: "4 \<le> length ac"
  shows "detect_battle_ui_state B mgba be flags bc af pos mons ab cf ac mc mu bg si comm =
     Inr (Some \<lparr>ui_type = ''battleActions'', activeBattlerId = int k,
                cursorPosition = (if uint (ac ! k) < 4 then uint (ac ! k) else 0),
                selectedOption = Some (ACTION_OPTIONS ! nat (if uint (ac ! k) < 4 then uint (ac ! k) else 0)),
                options = ACTION_OPTIONS, layout = ''grid2x2''\<rparr>)"
proof -
  have len: "length funcs = 4"
    using read_controller_funcs_length [OF funcs] max4 by simp
  from first_battler_matching_some [OF first] len
  have k: "k < 4" and fk: "f = funcs ! k"
    and fa: "ptr_matches_any f (BATTLE_HANDLE_INPUT_CHOOSE_ACTION_ADDRS B)" by auto
  have fin: "f \<in> set funcs" using k fk len by simp
  with nh have nf: "\<not> ptr_matches_any f (BATTLE_PLAYER_HANDLE_YES_NO_INPUT_ADDRS B)"
    "\<not> ptr_matches_any f (BATTLE_HANDLE_INPUT_CHOOSE_TARGET_ADDRS B)"
    "\<not> ptr_matches_any f (BATTLE_HANDLE_INPUT_CHOOSE_MOVE_ADDRS B)"
    by (auto simp: no_higher_priority_match_def list_all_iff)
  have pm: "first_priority_match (priority_lists B) funcs = Some (k, f)"
    by (rule first_priority_match_action [OF nh first])
  have acg: "py_list_get (read_cursors B ac) (int k) = Inr (uint (ac ! k))"
    using py_list_get_in_range [of k "read_cursors B ac"] read_cursors_length [of B ac]
      read_cursors_nth [of B ac k] max4 k aclen by simp
  have mcg: "py_list_get (read_cursors B mc) (int k) = Inr (read_cursors B mc ! k)"
    using py_list_get_in_range [of k "read_cursors B mc"] read_cursors_length [of B mc] max4 k
    by simp
  have u: "0 \<le> uint (ac ! k)" "uint (ac ! k) < 256"
    using uint_lt2p [of "ac ! k"] by simp_all
  have kk: "0 \<le> int k" "int k < 256" using k by simp_all
  note b = build_actions [OF nf fa safari kk u]
  show ?thesis
    by (simp add: detect_battle_ui_state_def funcs pm acg mcg b ebind_def Let_def)
qed

lemma buffer_or_live_holds:
  "holds_bytes raw n \<Longrightarrow> buffer_or_live raw n g live = g (the raw)"
  by (auto simp: holds_bytes_def buffer_or_live_def split: option.splits)

lemma holds_bytes_get0:
  "holds_bytes raw 1 \<Longrightarrow> bytes_get (the raw) 0 = Inr (uint (the raw ! 0))"
  by (auto simp: holds_bytes_def bytes_get_def split: option.splits)

lemma holds_bytes_length:
  "holds_bytes raw n \<Longrightarrow> n \<le> int (length (the raw))"
  by (auto simp: holds_bytes_def split: option.splits)

lemma battle_branch_actions:
  assumes cap: "battle_buffers_captured B buffers"
    and max4: "BATTLE_MAX_BATTLERS B = 4"
    and funcs: "read_controller_funcs B (the (battler_controller_funcs_raw buffers)) = Inr funcs"
    and nh: "no_higher_priority_match B funcs"
    and first: "first_battler_matching (BATTLE_HANDLE_INPUT_CHOOSE_ACTION_ADDRS B) 0 funcs = Some (k, f)"
    and fl: "u32le_from (the (battle_type_flags_raw buffers)) 0 = Inr flags"
    and safari: "flags AND BATTLE_TYPE_SAFARI B = 0"
    and c: "c = uint (the (action_selection_cursor_raw buffers) ! k)"
  shows "\<exists>r. battle_branch B mgba E buffers result = Inr r \<and>
           inDialog r = inDialog result \<and>
           menuType r = Some ''battleActions'' \<and>
           battleUi r = Some \<lparr>ui_type = ''battleActions'', activeBattlerId = int k,
                cursorPosition = (if c < 4 then c else 0),
                selectedOption = Some (ACTION_OPTIONS ! nat (if c < 4 then c else 0)),
                options = ACTION_OPTIONS, layout = ''grid2x2''\<rparr> \<and>
           choiceMenu r = Some \<lparr>cm_type = ''battleActions'',
                cm_cursorPosition = (if c < 4 then c else 0),
                cm_selectedOption = Some (ACTION_OPTIONS ! nat (if c < 4 then c else 0)),
                cm_options = ACTION_OPTIONS\<rparr>"
proof -
  from cap have h:
    "holds_bytes (battle_type_flags_raw buffers) 4"
    "holds_bytes (battlers_count_raw buffers) 1"
    "holds_bytes (absent_battlers_raw buffers) 1"
    "holds_bytes (battler_positions_raw buffers) (BATTLE_MAX_BATTLERS B)"
    "holds_bytes (battle_mons_raw buffers) (GBATTLEMONS_SIZE B)"
    "holds_bytes (active_battler_raw buffers) 1"
    "holds_bytes (battler_controller_funcs_raw buffers) (BATTLE_MAX_BATTLERS B * 4)"
    "holds_bytes (action_selection_cursor_raw buffers) (BATTLE_MAX_BATTLERS B)"
    "holds_bytes (move_selection_cursor_raw buffers) (BATTLE_MAX_BATTLERS B)"
    "holds_bytes (multi_use_player_cursor_raw buffers) 1"
    "holds_bytes (battle_bg0_y_raw buffers) 2"
    by (simp_all add: battle_buffers_captured_def)
  have aclen: "4 \<le> length (the (action_selection_cursor_raw buffers))"
    using holds_bytes_length [OF h(8)] max4 by simp
  note d = detect_actions [OF max4 funcs nh first safari aclen, folded c]
  show ?thesis
    unfolding battle_branch_def Let_def
    by (simp add: buffer_or_live_holds h holds_bytes_get0 fl u16le_from_value d ebind_def
          split: option.splits)
qed


section \<open>Properties of the classifier\<close>







lemmas dialog_eval =
  compute_def compute_full_chain_def detector_chain_def compute_in_dialog_def
  fast_path_guard_def window0_printer_active_def save_info_window_visible_def
  any_text_printer_active_def get_title_screen_press_start_state_def title_phase_def
  default_result_def or_else_def ebind_def Let_def py_range_def upt_rec
  u8_from_value u16le_from_value u32le_from_value
  firered_consts_def firered_tasks_def firered_battle_consts_def no_other_screen_def
  idle_overworld_def overworld_with_title_task_def no_mgba_def nth_append

lemmas battle_eval =
  battle_snapshot_def battle_branch_def buffer_or_live_def detect_battle_ui_state_def
  build_battle_ui_state_def read_controller_funcs_def read_cursors_def py_slice_def
  py_list_get_def priority_lists_def ptr_matches_any_def option_at_def bytes_get_def
  format_battle_ui_lines_def py_rstrip_def py_isspace_def MARKER_def ascii_def
  ACTION_OPTIONS_def decode_battle_displayed_string_def decode_gba_string_def
  decode_chars_def decode_loop.simps TEXT_TERMINATOR_def py_strip_def
  holds_bytes_def battle_buffers_captured_def no_higher_priority_match_def






text \<open>
  Claim C6 (as amended).  Take a snapshot in battle whose battle buffers are all captured,
  with four battler slots, on which neither the title-screen detector nor a later detector
  recognises a screen.  If no controller function belongs to the yes/no, target or move
  handlers, battler \<open>k\<close> is the first whose controller function (bit 0 masked) is a
  choose-action handler, and the safari flag is clear, then the classifier returns a
  \<open>battleActions\<close> state with the options FIGHT, BAG, POKeMON, RUN whose cursor position
  is the action-selection cursor of battler \<open>k\<close> itself (0 if that is 4 or more) and whose
  selected option is the option at that position.  With battler 0 and
  \<open>actionSelectionCursor[0] = 1\<close> this is cursor position 1 and BAG.
\<close>

theorem battle_actions_recognised:
  assumes inb: "in_battle buffers"
    and cap: "battle_buffers_captured B buffers"
    and max4: "BATTLE_MAX_BATTLERS B = 4"
    and notitle: "get_title_screen_press_start_state C mgba (Some (callback2 buffers AND 0xFFFFFFFF))
                    (tasks_raw buffers) = None"
    and nolater: "later_detectors E
                    ((default_result (field_locked buffers) (window0_printer_active C mgba buffers))
                       \<lparr>inDialog := True\<rparr>) = None"
    and funcs: "read_controller_funcs B (the (battler_controller_funcs_raw buffers)) = Inr funcs"
    and nh: "no_higher_priority_match B funcs"
    and first: "first_battler_matching (BATTLE_HANDLE_INPUT_CHOOSE_ACTION_ADDRS B) 0 funcs = Some (k, f)"
    and fl: "u32le_from (the (battle_type_flags_raw buffers)) 0 = Inr flags"
    and safari: "flags AND BATTLE_TYPE_SAFARI B = 0"
    and c: "c = uint (the (action_selection_cursor_raw buffers) ! k)"
  shows "\<exists>r. compute C B mgba E buffers md = Inr r \<and> inDialog r \<and>
           menuType r = Some ''battleActions'' \<and>
           battleUi r = Some \<lparr>ui_type = ''battleActions'', activeBattlerId = int k,
                cursorPosition = (if c < 4 then c else 0),
                selectedOption = Some (ACTION_OPTIONS ! nat (if c < 4 then c else 0)),
                options = ACTION_OPTIONS, layout = ''grid2x2''\<rparr> \<and>
           choiceMenu r = Some \<lparr>cm_type = ''battleActions'',
                cm_cursorPosition = (if c < 4 then c else 0),
                cm_selectedOption = Some (ACTION_OPTIONS ! nat (if c < 4 then c else 0)),
                cm_options = ACTION_OPTIONS\<rparr>"
proof -
  let ?r = "(default_result (field_locked buffers) (window0_printer_active C mgba buffers))
              \<lparr>inDialog := True\<rparr>"
  have g: "\<not> fast_path_guard C mgba buffers (callback2 buffers AND 0xFFFFFFFF)"
    using inb by (simp add: fast_path_guard_def Let_def)
  have eq: "compute C B mgba E buffers md = battle_branch B mgba E buffers ?r"
    using inb g notitle nolater
    by (simp add: compute_def compute_in_dialog_def detector_chain_def Let_def ebind_def)
  from battle_branch_actions [OF cap max4 funcs nh first fl safari c, of mgba E ?r]
  show ?thesis unfolding eq by auto
qed

text \<open>The scenario of the claim with battler 0 as the choosing battler.\<close>

theorem battle_actions_recognised_witness:
  "in_battle (battle_snapshot [0x39, 0xE4, 0x02, 0x08, 0, 0, 0, 0, 0, 0, 0, 0, 0, 0, 0, 0] [1, 0, 0, 0]) \<and>
   battle_buffers_captured firered_battle_consts
     (battle_snapshot [0x39, 0xE4, 0x02, 0x08, 0, 0, 0, 0, 0, 0, 0, 0, 0, 0, 0, 0] [1, 0, 0, 0]) \<and>
   read_controller_funcs firered_battle_consts
     [0x39, 0xE4, 0x02, 0x08, 0, 0, 0, 0, 0, 0, 0, 0, 0, 0, 0, 0] = Inr [0x0802E439, 0, 0, 0] \<and>
   no_higher_priority_match firered_battle_consts [0x0802E439, 0, 0, 0] \<and>
   first_battler_matching (BATTLE_HANDLE_INPUT_CHOOSE_ACTION_ADDRS firered_battle_consts) 0
     [0x0802E439, 0, 0, 0] = Some (0, 0x0802E439) \<and>
   (\<exists>r. compute firered_consts firered_battle_consts no_mgba no_other_screen
          (battle_snapshot [0x39, 0xE4, 0x02, 0x08, 0, 0, 0, 0, 0, 0, 0, 0, 0, 0, 0, 0] [1, 0, 0, 0])
          Snapshot = Inr r \<and>
        menuType r = Some ''battleActions'' \<and>
        battleUi r = Some \<lparr>ui_type = ''battleActions'', activeBattlerId = 0, cursorPosition = 1,
             selectedOption = Some (ascii ''BAG''),
             options = [ascii ''FIGHT'', ascii ''BAG'', ascii ''POK'' @ [233] @ ascii ''MON'', ascii ''RUN''],
             layout = ''grid2x2''\<rparr>)"
proof -
  let ?b = "battle_snapshot [0x39, 0xE4, 0x02, 0x08, 0, 0, 0, 0, 0, 0, 0, 0, 0, 0, 0, 0] [1, 0, 0, 0]"
  have inb: "in_battle ?b" by (simp add: battle_snapshot_def)
  have cap: "battle_buffers_captured firered_battle_consts ?b"
    by (simp add: battle_eval dialog_eval)
  have max4: "BATTLE_MAX_BATTLERS firered_battle_consts = 4"
    by (simp add: firered_battle_consts_def)
  have notitle: "get_title_screen_press_start_state firered_consts no_mgba
       (Some (callback2 ?b AND 0xFFFFFFFF)) (tasks_raw ?b) = None"
    by (simp add: battle_snapshot_def dialog_eval)
  have nolater: "later_detectors no_other_screen
       ((default_result (field_locked ?b) (window0_printer_active firered_consts no_mgba ?b))
          \<lparr>inDialog := True\<rparr>) = None"
    by (simp add: no_other_screen_def)
  have funcs: "read_controller_funcs firered_battle_consts (the (battler_controller_funcs_raw ?b))
       = Inr [0x0802E439, 0, 0, 0]"
    by (simp add: battle_eval dialog_eval)
  have nh: "no_higher_priority_match firered_battle_consts [0x0802E439, 0, 0, 0]"
    by (simp add: battle_eval dialog_eval)
  have first: "first_battler_matching (BATTLE_HANDLE_INPUT_CHOOSE_ACTION_ADDRS firered_battle_consts) 0
       [0x0802E439, 0, 0, 0] = Some (0, 0x0802E439)"
    by (simp add: battle_eval dialog_eval)
  have fl: "u32le_from (the (battle_type_flags_raw ?b)) 0 = Inr 4"
    by (simp add: battle_eval dialog_eval)
  have safari: "(4::int) AND BATTLE_TYPE_SAFARI firered_battle_consts = 0"
    by (simp add: firered_battle_consts_def)
  have c: "(1::int) = uint (the (action_selection_cursor_raw ?b) ! 0)"
    by (simp add: battle_snapshot_def)
  have f2: "read_controller_funcs firered_battle_consts
     [0x39, 0xE4, 0x02, 0x08, 0, 0, 0, 0, 0, 0, 0, 0, 0, 0, 0, 0] = Inr [0x0802E439, 0, 0, 0]"
    using funcs by (simp add: battle_snapshot_def)
  show ?thesis
    using inb cap f2 nh first
      battle_actions_recognised [OF inb cap max4 notitle nolater funcs nh first fl safari c,
        of Snapshot]
    by (auto simp: ACTION_OPTIONS_def)
qed

text \<open>
  Claim C6 as stated leaves open which battler chooses.  When it is battler 1, the snapshot
  still has \<open>actionSelectionCursor[0] = 1\<close> and meets every condition of the claim, but
  the cursor reported is that of battler 1: position 0, FIGHT.
\<close>

theorem battle_actions_cursor_counterexample:
  "compute firered_consts firered_battle_consts no_mgba no_other_screen
     (battle_snapshot [0, 0, 0, 0, 0x39, 0xE4, 0x02, 0x08, 0, 0, 0, 0, 0, 0, 0, 0] [1, 0, 0, 0])
     Snapshot
   = Inr \<lparr>inDialog = True, fieldControlsLocked = False, textPrinterActive = False,
          menuType = Some ''battleActions'',
          visibleText = Some ([9658] @ ascii ''FIGHT BAG'' @ [10] @ ascii '' POK'' @ [233]
                              @ ascii ''MON RUN''),
          allPages = None, currentPage = 0, pageCount = 0, titleScreen = None,
          choiceMenu = Some \<lparr>cm_type = ''battleActions'', cm_cursorPosition = 0,
             cm_selectedOption = Some (ascii ''FIGHT''),
             cm_options = [ascii ''FIGHT'', ascii ''BAG'', ascii ''POK'' @ [233] @ ascii ''MON'',
                           ascii ''RUN'']\<rparr>,
          battleUi = Some \<lparr>ui_type = ''battleActions'', activeBattlerId = 1, cursorPosition = 0,
             selectedOption = Some (ascii ''FIGHT''),
             options = [ascii ''FIGHT'', ascii ''BAG'', ascii ''POK'' @ [233] @ ascii ''MON'',
                        ascii ''RUN''],
             layout = ''grid2x2''\<rparr>\<rparr>"
  by (simp add: battle_eval dialog_eval)


end
